theory Spec2Isabelle
  imports Main "HOL-Library.Word" "HOL-Library.Multiset" "HOL-Library.Monad_Syntax"
begin

unbundle bit_operations_syntax

section \<open>Common machine types\<close>

type_synonym u8 = "8 word"
type_synonym u32 = "32 word"
type_synonym paddr_t = "64 word"

text \<open>
  A byte buffer read as one big-endian unsigned integer: the first byte is the most
  significant one.  This is how the callers of \<^verbatim>\<open>left_shift_buffer\<close> (CMAC sub-key
  derivation) and the CAAM (fixed-width operands) read their buffers.
\<close>

definition be_val :: "u8 list \<Rightarrow> nat" where
  "be_val bs = foldl (\<lambda>a b. a * 256 + unat b) 0 bs"

text \<open>
  \<^verbatim>\<open>ROUNDUP(v, size)\<close> of \<^verbatim>\<open>util.h\<close>:
  \<^verbatim>\<open>(((v) + ((__typeof__(v))(size) - 1)) & ~((__typeof__(v))(size) - 1))\<close>.
  The addition is done in the type of \<^verbatim>\<open>v\<close> and wraps around; the macro has no
  overflow check (the header's \<^verbatim>\<open>ROUNDUP_OVERFLOW\<close> is the checked variant).
\<close>

definition ROUNDUP :: "'a::len word \<Rightarrow> 'a word \<Rightarrow> 'a word" where
  "ROUNDUP v sz = (v + (sz - 1)) AND NOT (sz - 1)"

text \<open>
  \<^verbatim>\<open>ADD_OVERFLOW(a, b, res)\<close> (\<^verbatim>\<open>__builtin_add_overflow\<close>): the sum is computed with
  unbounded precision; \<open>None\<close> stands for the macro returning true (the sum does not fit
  the type of \<^verbatim>\<open>*res\<close>), \<open>Some r\<close> for false with \<^verbatim>\<open>*res = r\<close>.
\<close>

definition ADD_OVERFLOW :: "nat \<Rightarrow> nat \<Rightarrow> ('a::len word) option" where
  "ADD_OVERFLOW a b = (if a + b < 2 ^ LENGTH('a) then Some (of_nat (a + b)) else None)"


section \<open>DCP utilities (\<^verbatim>\<open>core/drivers/dcp/imx_dcp_utils.c\<close>)\<close>

subsection \<open>\<^verbatim>\<open>left_shift_buffer\<close>\<close>

text \<open>
  One iteration of the loop body for the byte \<^verbatim>\<open>input[buffer_size - 1 - i]\<close>.  The C
  expression \<^verbatim>\<open>(input[j] << 1) & 0xFF\<close> is evaluated after integer promotion and
  stored into a \<^verbatim>\<open>uint8_t\<close>; \<^verbatim>\<open>msb\<close> is an \<^verbatim>\<open>unsigned int\<close>.
\<close>

definition shift_byte :: "u8 \<Rightarrow> u32 \<Rightarrow> u8" where
  "shift_byte b msb =
     (let r = (ucast ((push_bit 1 (ucast b :: u32)) AND 0xFF) :: u8)
      in if msb \<noteq> 0 then ucast ((ucast r :: u32) OR msb) else r)"

definition byte_msb :: "u8 \<Rightarrow> u32" where
  "byte_msb b = drop_bit 7 ((ucast b :: u32) AND push_bit 7 1)"

text \<open>
  The \<^verbatim>\<open>for\<close> loop, with its counter \<open>i\<close>, the carried \<open>msb\<close> and the two buffers.  The
  buffers do not overlap: \<open>input\<close> is only read, \<open>result\<close> only written.  On the 32-bit
  targets of the DCP \<^verbatim>\<open>unsigned int\<close> and \<^verbatim>\<open>size_t\<close> have the same width, so the
  counter reaches \<open>buffer_size\<close> without wrapping and is a natural number here.
\<close>

function left_shift_loop :: "nat \<Rightarrow> nat \<Rightarrow> u32 \<Rightarrow> u8 list \<Rightarrow> u8 list \<Rightarrow> u8 list" where
  "left_shift_loop i buffer_size msb input result =
     (if i < buffer_size then
        left_shift_loop (i + 1) buffer_size
          (byte_msb (input ! (buffer_size - 1 - i))) input
          (result[buffer_size - 1 - i := shift_byte (input ! (buffer_size - 1 - i)) msb])
      else result)"
  by pat_completeness auto
termination
  by (relation "measure (\<lambda>(i, n, m, inp, res). n - i)") auto

definition left_shift_buffer :: "u8 list \<Rightarrow> u8 list \<Rightarrow> nat \<Rightarrow> u8 list" where
  "left_shift_buffer input result buffer_size = left_shift_loop 0 buffer_size 0 input result"


subsection \<open>Cache-line aligned allocation\<close>

type_synonym TEE_Result = u32

text \<open>The GlobalPlatform result codes of \<^verbatim>\<open>tee_api_defines.h\<close> that the drivers return.\<close>

definition TEE_SUCCESS :: TEE_Result where
  "TEE_SUCCESS = 0x00000000"

definition TEE_ERROR_GENERIC :: TEE_Result where
  "TEE_ERROR_GENERIC = 0xFFFF0000"

definition TEE_ERROR_BAD_PARAMETERS :: TEE_Result where
  "TEE_ERROR_BAD_PARAMETERS = 0xFFFF0006"

definition TEE_ERROR_OUT_OF_MEMORY :: TEE_Result where
  "TEE_ERROR_OUT_OF_MEMORY = 0xFFFF000C"

definition TEE_ERROR_SIGNATURE_INVALID :: TEE_Result where
  "TEE_ERROR_SIGNATURE_INVALID = 0xFFFF3072"

text \<open>
  \<^verbatim>\<open>struct align_buf\<close> (\<^verbatim>\<open>imx_dcp_utils.h\<close>) and the packed \<^verbatim>\<open>struct mem_hdr\<close>.  The
  type parameter \<open>'s\<close> is the machine word of the build (\<^verbatim>\<open>size_t\<close>, \<^verbatim>\<open>vaddr_t\<close> and
  pointers have this width); the null pointer is the word \<open>0\<close>.
\<close>

record 's align_buf =
  ab_data :: 's
  ab_paddr :: paddr_t
  ab_size :: 's

record 's mem_hdr =
  hdr_addr :: 's
  hdr_size :: 's

text \<open>
  \<^verbatim>\<open>MEM_HDR_SIZE\<close> is \<^verbatim>\<open>ROUNDUP(sizeof(struct mem_hdr), sizeof(void *))\<close>: the packed
  header holds one pointer and one \<^verbatim>\<open>size_t\<close>.
\<close>

definition sizeof_ptr :: "'a::len word \<Rightarrow> nat" where
  "sizeof_ptr w = LENGTH('a) div 8"

definition MEM_HDR_SIZE :: "'a::len word" where
  "MEM_HDR_SIZE =
     ROUNDUP (of_nat (sizeof_ptr (0 :: 'a word) + sizeof_ptr (0 :: 'a word)))
             (of_nat (sizeof_ptr (0 :: 'a word)))"

text \<open>
  \<^verbatim>\<open>read_cacheline_size\<close>: the cache type register \<open>ctr\<close> is the hardware's answer;
  \<^verbatim>\<open>CTR_WORD_SIZE\<close>, \<^verbatim>\<open>CTR_DMINLINE_SHIFT\<close> and \<^verbatim>\<open>CTR_DMINLINE_MASK\<close> are those of
  \<^verbatim>\<open>arm.h\<close> (the DminLine field, bits 19 to 16, is the log2 of the line size in words).
\<close>

definition CTR_WORD_SIZE :: u32 where
  "CTR_WORD_SIZE = 4"

definition CTR_DMINLINE_SHIFT :: nat where
  "CTR_DMINLINE_SHIFT = 16"

definition CTR_DMINLINE_MASK :: u32 where
  "CTR_DMINLINE_MASK = 0xf"

definition read_cacheline_size :: "u32 \<Rightarrow> u32" where
  "read_cacheline_size ctr =
     push_bit (unat (drop_bit CTR_DMINLINE_SHIFT ctr AND CTR_DMINLINE_MASK)) CTR_WORD_SIZE"

text \<open>
  \<^verbatim>\<open>dcp_alloc_memalign\<close>.  \<open>calloc n\<close> is the address the C library returns for
  \<^verbatim>\<open>calloc(1, n)\<close> (\<open>0\<close> when it fails).  The function returns \<open>None\<close> for \<^verbatim>\<open>NULL\<close>, and
  otherwise the aligned address together with the header it stores in front of it: the
  address and the size of the block that \<^verbatim>\<open>calloc\<close> really handed out.
\<close>

definition dcp_alloc_memalign ::
  "('a::len word \<Rightarrow> 'a word) \<Rightarrow> u32 \<Rightarrow> 'a word \<Rightarrow> ('a word \<times> 'a word mem_hdr) option" where
  "dcp_alloc_memalign calloc ctr sz =
     (case ADD_OVERFLOW (unat sz) (unat (MEM_HDR_SIZE :: 'a word)) of
        None \<Rightarrow> None
      | Some (alloc_size :: 'a word) \<Rightarrow>
          let cacheline_size = read_cacheline_size ctr in
          (case (if sz = ucast cacheline_size
                 then ADD_OVERFLOW (unat alloc_size) (unat cacheline_size)
                 else Some alloc_size) of
             None \<Rightarrow> None
           | Some (alloc_size :: 'a word) \<Rightarrow>
               (case ADD_OVERFLOW (unat cacheline_size)
                       (unat (ROUNDUP alloc_size (ucast cacheline_size))) of
                  None \<Rightarrow> None
                | Some (alloc_size :: 'a word) \<Rightarrow>
                    let ptr = calloc alloc_size in
                    if ptr = 0 then None
                    else
                      let ret_addr = ROUNDUP (ptr + MEM_HDR_SIZE) (ucast cacheline_size)
                      in Some (ret_addr, \<lparr>hdr_addr = ptr, hdr_size = alloc_size\<rparr>))))"

text \<open>
  \<^verbatim>\<open>dcp_calloc_align_buf\<close>.  The \<^verbatim>\<open>buf\<close> argument is \<open>None\<close> for a null pointer.  The
  result is the return code, the structure as the call leaves it, and the blocks that
  the call obtained from \<^verbatim>\<open>calloc\<close> and that are still allocated when it returns
  (\<^verbatim>\<open>dcp_free\<close> releases \<^verbatim>\<open>hdr->addr\<close> when the address translation fails).
\<close>

definition dcp_calloc_align_buf ::
  "('a::len word \<Rightarrow> 'a word) \<Rightarrow> u32 \<Rightarrow> ('a word \<Rightarrow> paddr_t) \<Rightarrow>
   'a word align_buf option \<Rightarrow> 'a word \<Rightarrow>
   TEE_Result \<times> 'a word align_buf option \<times> 'a word mem_hdr list" where
  "dcp_calloc_align_buf calloc ctr virt_to_phys buf sz =
     (case buf of
        None \<Rightarrow> (TEE_ERROR_BAD_PARAMETERS, None, [])
      | Some b \<Rightarrow>
          (case dcp_alloc_memalign calloc ctr sz of
             None \<Rightarrow> (TEE_ERROR_OUT_OF_MEMORY, Some (b\<lparr>ab_data := 0\<rparr>), [])
           | Some (ret_addr, hdr) \<Rightarrow>
               let b = b\<lparr>ab_data := ret_addr, ab_paddr := virt_to_phys ret_addr\<rparr> in
               if ab_paddr b = 0 then (TEE_ERROR_OUT_OF_MEMORY, Some b, [])
               else (TEE_SUCCESS, Some (b\<lparr>ab_size := sz\<rparr>), [hdr])))"

text \<open>
  The bytes of the block that lie at or after the returned address: what the caller can
  use of a buffer whose header is \<open>hdr\<close>.
\<close>

definition usable_bytes :: "'a::len word \<Rightarrow> 'a word mem_hdr \<Rightarrow> nat" where
  "usable_bytes ret_addr hdr = unat (hdr_addr hdr) + unat (hdr_size hdr) - unat ret_addr"


section \<open>CAAM DSA driver (\<^verbatim>\<open>core/drivers/crypto/caam/acipher/caam_dsa.c\<close>)\<close>

text \<open>
  The driver is a sequence of calls into the rest of the CAAM driver, the big-number
  library and the job ring.  The model keeps the control flow of the three operations
  as it is written and makes the collaborators explicit:
  \<^item> what a collaborator answers (an allocation status, a result code, the job status,
    the bytes the device writes) is read from an environment \<open>env\<close>;
  \<^item> the allocator's bookkeeping and the log of the calls that carry sizes or a
    descriptor are threaded through as a state \<open>sys\<close>.
  Cache maintenance (\<^verbatim>\<open>cache_operation\<close>, \<^verbatim>\<open>caam_dmaobj_cache_push\<close>) and tracing change
  nothing of this state and are left out.  The type parameter \<open>'s\<close> of the records is the
  build's \<^verbatim>\<open>size_t\<close>, instantiated with a machine word.
\<close>

subsection \<open>Status codes and configuration\<close>

text \<open>\<^verbatim>\<open>enum caam_status\<close> of \<^verbatim>\<open>caam_common.h\<close>.\<close>

datatype caam_status =
    CAAM_NO_ERROR
  | CAAM_FAILURE
  | CAAM_NOT_SUPPORTED
  | CAAM_OUT_MEMORY
  | CAAM_BAD_PARAM
  | CAAM_SHORT_BUFFER
  | CAAM_BUSY
  | CAAM_PENDING
  | CAAM_TIMEOUT
  | CAAM_OUT_OF_BOUND
  | CAAM_JOB_STATUS

text \<open>
  The calls whose arguments the claims speak about: the DMA object requests with their
  sizes, the domain-parameter generator, and the job submitted to the job ring with the
  words of its descriptor.
\<close>

datatype 's ext_call =
    Dmaobj_init_input 's
  | Dmaobj_init_output 's 's
  | Dmaobj_derive 's 's
  | Dmaobj_copy_to_orig 's
  | Prime_dsa_gen
  | Jr_enqueue "u32 list"

text \<open>What \<^verbatim>\<open>caam_dmaobj_init_input\<close>, \<^verbatim>\<open>_init_output\<close> and \<^verbatim>\<open>_derive\<close> answer.\<close>

record dma_reply =
  dr_ret :: TEE_Result
  dr_sgt_type :: bool
  dr_paddr :: paddr_t

text \<open>
  The environment of one call.  First the build: \<^verbatim>\<open>CFG_CAAM_64BIT\<close> and the PDB and
  protocol macros of \<^verbatim>\<open>caam_desc_defines.h\<close>, which is not part of the sources at hand
  and whose values the claims do not depend on (the size macros are functions of the
  numeric value of their argument).  Then the answers of the collaborators, one per
  call site.
\<close>

record caam_env =
  cfg_caam_64bit :: bool
  PDB_DL_KEY_L_SIZE :: "nat \<Rightarrow> u32"
  PDB_DL_KEY_N_SIZE :: "nat \<Rightarrow> u32"
  PK_KEYPAIR_GEN_DL :: u32
  PDB_DSA_SIGN_N :: "nat \<Rightarrow> u32"
  PDB_DSA_SIGN_L :: "nat \<Rightarrow> u32"
  DSA_SIGN_DL :: u32
  PDB_DSA_VERIF_N :: "nat \<Rightarrow> u32"
  PDB_DSA_VERIF_L :: "nat \<Rightarrow> u32"
  DSA_VERIFY_DL :: u32
  PDB_SGT_PKSIGN_MSG :: u32
  PDB_SGT_PKSIGN_SIGN_C :: u32
  PDB_SGT_PKSIGN_SIGN_D :: u32
  PDB_SGT_PKVERIF_MSG :: u32
  PDB_SGT_PKVERIF_SIGN_C :: u32
  PDB_SGT_PKVERIF_SIGN_D :: u32
  alloc_desc :: bool
  alloc_g :: caam_status
  alloc_p :: caam_status
  alloc_q :: caam_status
  alloc_x :: caam_status
  alloc_y :: caam_status
  alloc_tmp :: caam_status
  tmp_junk :: "u8 list"
  virt_to_phys :: "nat \<Rightarrow> paddr_t"
  prime_status :: caam_status
  prime_g :: "u8 list"
  prime_p :: "u8 list"
  prime_q :: "u8 list"
  msg_reply :: dma_reply
  sign_c_reply :: dma_reply
  sign_d_reply :: dma_reply
  jr_status :: caam_status
  job_status :: u32
  dev_x :: "u8 list"
  dev_y :: "u8 list"
  bin2bn_x_ret :: TEE_Result
  bin2bn_y_ret :: TEE_Result
  job_status_to_tee_result :: "u32 \<Rightarrow> TEE_Result"

subsection \<open>Memory service\<close>

text \<open>
  Modelled from the spec: the memory service (\<^verbatim>\<open>caam_utils_mem.c\<close>: \<^verbatim>\<open>caam_calloc_desc\<close>,
  \<^verbatim>\<open>caam_calloc_buf\<close>, \<^verbatim>\<open>caam_calloc_align_buf\<close>, \<^verbatim>\<open>caam_alloc_align_buf\<close>, \<^verbatim>\<open>caam_free_buf\<close>,
  \<^verbatim>\<open>caam_free_desc\<close>) is not under \<^verbatim>\<open>src/\<close>.  The spec's memory service allocates
  zero-initialised storage sized in bytes and resolves its physical address; an
  allocation either succeeds or fails, and a failure leaves nothing allocated.  Every
  successful allocation gets a fresh handle, recorded as live; freeing removes the handle
  from the live ones and appends it to the log of frees.  The free functions take the
  address of the owning variable, do nothing when it holds no storage, and clear it.
\<close>

record 's sys =
  next_handle :: nat
  live :: "nat list"
  freed :: "nat list"
  calls :: "'s ext_call list"

definition caam_alloc :: "'s sys \<Rightarrow> nat \<times> 's sys" where
  "caam_alloc s =
     (next_handle s, s\<lparr>next_handle := Suc (next_handle s), live := next_handle s # live s\<rparr>)"

definition caam_free :: "nat \<Rightarrow> 's sys \<Rightarrow> 's sys" where
  "caam_free a s = s\<lparr>live := remove1 a (live s), freed := a # freed s\<rparr>"

definition log_call :: "'s ext_call \<Rightarrow> 's sys \<Rightarrow> 's sys" where
  "log_call c s = s\<lparr>calls := calls s @ [c]\<rparr>"

text \<open>\<^verbatim>\<open>struct caambuf\<close>: the storage (\<open>None\<close> is a null \<^verbatim>\<open>data\<close>), its bytes, length and
  physical address.\<close>

record 's caambuf =
  cb_data :: "nat option"
  cb_bytes :: "u8 list"
  cb_length :: 's
  cb_paddr :: paddr_t

definition caambuf_init :: "'a::len word caambuf" where
  "caambuf_init = \<lparr>cb_data = None, cb_bytes = [], cb_length = 0, cb_paddr = 0\<rparr>"

definition caam_calloc_buf ::
  "caam_status \<Rightarrow> (nat \<Rightarrow> paddr_t) \<Rightarrow> 'a::len word caambuf \<Rightarrow> 'a word \<Rightarrow> 'a word sys \<Rightarrow>
   caam_status \<times> 'a word caambuf \<times> 'a word sys" where
  "caam_calloc_buf answer phys buf sz s =
     (if answer = CAAM_NO_ERROR then
        (case caam_alloc s of (a, s') \<Rightarrow>
           (CAAM_NO_ERROR,
            \<lparr>cb_data = Some a, cb_bytes = replicate (unat sz) 0, cb_length = sz,
             cb_paddr = phys a\<rparr>, s'))
      else (answer, buf, s))"

definition caam_calloc_align_buf ::
  "caam_status \<Rightarrow> (nat \<Rightarrow> paddr_t) \<Rightarrow> 'a::len word caambuf \<Rightarrow> 'a word \<Rightarrow> 'a word sys \<Rightarrow>
   caam_status \<times> 'a word caambuf \<times> 'a word sys" where
  "caam_calloc_align_buf answer phys buf sz s = caam_calloc_buf answer phys buf sz s"

text \<open>\<^verbatim>\<open>caam_alloc_align_buf\<close> does not clear the storage: its bytes are what the memory
  held (\<open>junk\<close>).\<close>

definition caam_alloc_align_buf ::
  "caam_status \<Rightarrow> (nat \<Rightarrow> paddr_t) \<Rightarrow> u8 list \<Rightarrow> 'a::len word caambuf \<Rightarrow> 'a word \<Rightarrow>
   'a word sys \<Rightarrow> caam_status \<times> 'a word caambuf \<times> 'a word sys" where
  "caam_alloc_align_buf answer phys junk buf sz s =
     (if answer = CAAM_NO_ERROR then
        (case caam_alloc s of (a, s') \<Rightarrow>
           (CAAM_NO_ERROR,
            \<lparr>cb_data = Some a, cb_bytes = junk, cb_length = sz, cb_paddr = phys a\<rparr>, s'))
      else (answer, buf, s))"

definition caam_free_buf :: "'a::len word caambuf \<Rightarrow> 'a word sys \<Rightarrow> 'a word caambuf \<times> 'a word sys" where
  "caam_free_buf buf s =
     (case cb_data buf of
        None \<Rightarrow> (buf\<lparr>cb_length := 0, cb_paddr := 0\<rparr>, s)
      | Some a \<Rightarrow> (buf\<lparr>cb_data := None, cb_length := 0, cb_paddr := 0\<rparr>, caam_free a s))"

subsection \<open>Descriptors\<close>

text \<open>
  Modelled from the spec: the descriptor builder (\<^verbatim>\<open>caam_desc_helper.c\<close>: \<^verbatim>\<open>caam_desc_init\<close>,
  \<^verbatim>\<open>caam_desc_add_word\<close>, \<^verbatim>\<open>caam_desc_add_ptr\<close>, \<^verbatim>\<open>caam_desc_get_len\<close>,
  \<^verbatim>\<open>caam_desc_update_hdr\<close>) and the header macros \<^verbatim>\<open>DESC_HEADER\<close>, \<^verbatim>\<open>DESC_HEADER_IDX\<close> of
  \<^verbatim>\<open>caam_desc_defines.h\<close> are not under \<^verbatim>\<open>src/\<close>.  The spec's builder is \<open>begin()\<close>,
  \<open>add_word(w)\<close>, \<open>add_pointer(addr)\<close> and a \<open>finish()\<close> that computes the word count and
  patches the header in place; it fails with \<open>DescriptorOverflow\<close> when the preallocated
  word capacity is exceeded.  A descriptor is its storage handle, the capacity it was
  allocated with, and the words appended so far; an append beyond the capacity is \<open>None\<close>.
  A device address takes one word, and two (most significant half first) when
  \<^verbatim>\<open>CFG_CAAM_64BIT\<close> is set: this is what the two values of each \<^verbatim>\<open>MAX_DESC_*\<close> constant
  in the driver are sized for.  The header word is a job descriptor HEADER command
  (command type \<open>0x16\<close> in bits 31 to 27, the ONE bit 23, the start index in bits 21 to 16
  and the descriptor length in bits 6 to 0).
\<close>

record descriptor =
  d_handle :: nat
  d_cap :: nat
  d_words :: "u32 list"

definition caam_calloc_desc :: "bool \<Rightarrow> nat \<Rightarrow> 's sys \<Rightarrow> descriptor option \<times> 's sys" where
  "caam_calloc_desc answer nbentries s =
     (if answer then
        (case caam_alloc s of (a, s') \<Rightarrow>
           (Some \<lparr>d_handle = a, d_cap = nbentries, d_words = []\<rparr>, s'))
      else (None, s))"

definition caam_free_desc :: "descriptor option \<Rightarrow> 's sys \<Rightarrow> descriptor option \<times> 's sys" where
  "caam_free_desc desc s =
     (case desc of None \<Rightarrow> (None, s) | Some d \<Rightarrow> (None, caam_free (d_handle d) s))"

definition caam_desc_init :: "descriptor \<Rightarrow> descriptor" where
  "caam_desc_init d = d\<lparr>d_words := []\<rparr>"

definition caam_desc_add_word :: "descriptor \<Rightarrow> u32 \<Rightarrow> descriptor option" where
  "caam_desc_add_word d w =
     (if length (d_words d) + 1 \<le> d_cap d then Some (d\<lparr>d_words := d_words d @ [w]\<rparr>)
      else None)"

definition ptr_words :: "bool \<Rightarrow> paddr_t \<Rightarrow> u32 list" where
  "ptr_words caam_64bit ptr =
     (if caam_64bit then [ucast (drop_bit 32 ptr), ucast ptr] else [ucast ptr])"

definition caam_desc_add_ptr :: "bool \<Rightarrow> descriptor \<Rightarrow> paddr_t \<Rightarrow> descriptor option" where
  "caam_desc_add_ptr caam_64bit d ptr =
     (if length (d_words d) + length (ptr_words caam_64bit ptr) \<le> d_cap d
      then Some (d\<lparr>d_words := d_words d @ ptr_words caam_64bit ptr\<rparr>)
      else None)"

definition caam_desc_get_len :: "descriptor \<Rightarrow> u32" where
  "caam_desc_get_len d = of_nat (length (d_words d))"

definition caam_desc_update_hdr :: "descriptor \<Rightarrow> u32 \<Rightarrow> descriptor" where
  "caam_desc_update_hdr d w = d\<lparr>d_words := (d_words d)[0 := w]\<rparr>"

definition DESC_HDR :: "u32 \<Rightarrow> u32" where
  "DESC_HDR idx = push_bit 27 0x16 OR push_bit 23 1 OR push_bit 16 (idx AND 0x3F)"

definition DESC_HEADER :: "u32 \<Rightarrow> u32" where
  "DESC_HEADER len = DESC_HDR 0 OR (len AND 0x7F)"

definition DESC_HEADER_IDX :: "u32 \<Rightarrow> u32 \<Rightarrow> u32" where
  "DESC_HEADER_IDX len idx = DESC_HDR idx OR (len AND 0x7F)"

definition GET_JD_DESCLEN :: "u32 \<Rightarrow> u32" where
  "GET_JD_DESCLEN w = w AND 0x7F"

text \<open>The two values of each capacity constant, chosen by \<^verbatim>\<open>#ifdef CFG_CAAM_64BIT\<close>.\<close>

definition MAX_DESC_KEY_GEN :: "caam_env \<Rightarrow> nat" where
  "MAX_DESC_KEY_GEN env = (if cfg_caam_64bit env then 14 else 9)"

definition MAX_DESC_SIGN :: "caam_env \<Rightarrow> nat" where
  "MAX_DESC_SIGN env = (if cfg_caam_64bit env then 19 else 12)"

definition MAX_DESC_VERIFY :: "caam_env \<Rightarrow> nat" where
  "MAX_DESC_VERIFY env = (if cfg_caam_64bit env then 21 else 13)"

subsection \<open>DMA objects and the job ring\<close>

text \<open>
  Modelled from the spec: the DMA objects (\<^verbatim>\<open>caam_utils_dmaobj.c\<close>) and the job ring
  (\<^verbatim>\<open>caam_jr.c\<close>) are not under \<^verbatim>\<open>src/\<close>; the spec treats both as external collaborators.
  A DMA object wraps a caller's buffer for the device; creating one may allocate, and the
  object then owns that storage until \<^verbatim>\<open>caam_dmaobj_free\<close>.  Each request is logged with
  its sizes and answered by the environment; a request that fails leaves the object as
  it was.  \<^verbatim>\<open>caam_jr_enqueue\<close> logs the descriptor it is given and returns the transport's
  status together with the job status.
\<close>

record 's caamdmaobj =
  dm_priv :: "nat option"
  dm_sgt_type :: bool
  dm_paddr :: paddr_t
  dm_orig_length :: 's

definition caamdmaobj_init :: "'a::len word caamdmaobj" where
  "caamdmaobj_init = \<lparr>dm_priv = None, dm_sgt_type = False, dm_paddr = 0, dm_orig_length = 0\<rparr>"

definition dmaobj_create ::
  "dma_reply \<Rightarrow> 's caamdmaobj \<Rightarrow> 's \<Rightarrow> 's sys \<Rightarrow> TEE_Result \<times> 's caamdmaobj \<times> 's sys" where
  "dmaobj_create reply obj len s =
     (if dr_ret reply = TEE_SUCCESS then
        (case caam_alloc s of (a, s') \<Rightarrow>
           (TEE_SUCCESS,
            \<lparr>dm_priv = Some a, dm_sgt_type = dr_sgt_type reply, dm_paddr = dr_paddr reply,
             dm_orig_length = len\<rparr>, s'))
      else (dr_ret reply, obj, s))"

definition caam_dmaobj_init_input ::
  "dma_reply \<Rightarrow> 's caamdmaobj \<Rightarrow> 's \<Rightarrow> 's sys \<Rightarrow> TEE_Result \<times> 's caamdmaobj \<times> 's sys" where
  "caam_dmaobj_init_input reply obj len s =
     dmaobj_create reply obj len (log_call (Dmaobj_init_input len) s)"

definition caam_dmaobj_init_output ::
  "dma_reply \<Rightarrow> 's caamdmaobj \<Rightarrow> 's \<Rightarrow> 's \<Rightarrow> 's sys \<Rightarrow> TEE_Result \<times> 's caamdmaobj \<times> 's sys" where
  "caam_dmaobj_init_output reply obj len min_length s =
     dmaobj_create reply obj len (log_call (Dmaobj_init_output len min_length) s)"

definition caam_dmaobj_derive ::
  "dma_reply \<Rightarrow> 's caamdmaobj \<Rightarrow> 's caamdmaobj \<Rightarrow> 's \<Rightarrow> 's \<Rightarrow> 's sys \<Rightarrow>
   TEE_Result \<times> 's caamdmaobj \<times> 's sys" where
  "caam_dmaobj_derive reply obj from offset len s =
     dmaobj_create reply obj len (log_call (Dmaobj_derive offset len) s)"

definition caam_dmaobj_copy_to_orig :: "'s caamdmaobj \<Rightarrow> 's sys \<Rightarrow> 's sys" where
  "caam_dmaobj_copy_to_orig obj s = log_call (Dmaobj_copy_to_orig (dm_orig_length obj)) s"

definition caam_dmaobj_free :: "'s caamdmaobj \<Rightarrow> 's sys \<Rightarrow> 's caamdmaobj \<times> 's sys" where
  "caam_dmaobj_free obj s =
     (case dm_priv obj of
        None \<Rightarrow> (obj, s)
      | Some a \<Rightarrow> (obj\<lparr>dm_priv := None\<rparr>, caam_free a s))"

definition caam_jr_enqueue :: "caam_env \<Rightarrow> descriptor \<Rightarrow> 's sys \<Rightarrow> caam_status \<times> u32 \<times> 's sys" where
  "caam_jr_enqueue env desc s = (jr_status env, job_status env, log_call (Jr_enqueue (d_words desc)) s)"

text \<open>The device writes into a buffer it was given: at most the buffer's length.\<close>

definition dev_write :: "u8 list \<Rightarrow> u8 list \<Rightarrow> u8 list" where
  "dev_write buf out = take (length buf) (out @ drop (length out) buf)"

subsection \<open>Big numbers\<close>

text \<open>
  Modelled from the spec: the big-integer library is an external collaborator with
  \<open>byte_length(scalar)\<close>, \<open>to_bytes_big_endian(scalar, dest)\<close> and
  \<open>from_bytes_big_endian(bytes)\<close>.  A big number is a natural number; its byte length is
  that of its shortest big-endian form (\<open>0\<close> for zero), which is what
  \<^verbatim>\<open>crypto_bignum_bn2bin\<close> writes at the address it is given.  Writing outside the
  destination buffer is undefined behaviour in C: the model returns \<open>None\<close> there.
\<close>

fun crypto_bignum_num_bytes :: "nat \<Rightarrow> nat" where
  "crypto_bignum_num_bytes n = (if n = 0 then 0 else Suc (crypto_bignum_num_bytes (n div 256)))"

fun bn_bytes :: "nat \<Rightarrow> u8 list" where
  "bn_bytes n = (if n = 0 then [] else bn_bytes (n div 256) @ [of_nat (n mod 256)])"

definition buf_write :: "u8 list \<Rightarrow> int \<Rightarrow> u8 list \<Rightarrow> u8 list option" where
  "buf_write buf off xs =
     (if 0 \<le> off \<and> nat off + length xs \<le> length buf
      then Some (take (nat off) buf @ xs @ drop (nat off + length xs) buf)
      else None)"

definition crypto_bignum_bn2bin :: "nat \<Rightarrow> u8 list \<Rightarrow> int \<Rightarrow> u8 list option" where
  "crypto_bignum_bn2bin n buf off = buf_write buf off (bn_bytes n)"

definition crypto_bignum_bin2bn :: "u8 list \<Rightarrow> nat" where
  "crypto_bignum_bin2bn bs = be_val bs"

subsection \<open>Keys\<close>

text \<open>
  \<^verbatim>\<open>struct dsa_keypair\<close> and \<^verbatim>\<open>struct dsa_public_key\<close> of the crypto API (each field a big
  number), the driver's \<^verbatim>\<open>struct caam_dsa_keypair\<close> (each field a buffer), and
  \<^verbatim>\<open>struct drvcrypt_sign_data\<close>, of whose message and signature buffers the driver itself
  reads and writes the lengths only.
\<close>

record dsa_keypair =
  dk_g :: nat
  dk_p :: nat
  dk_q :: nat
  dk_y :: nat
  dk_x :: nat

record dsa_public_key =
  dpk_g :: nat
  dpk_p :: nat
  dpk_q :: nat
  dpk_y :: nat

record 's caam_dsa_keypair =
  kp_g :: "'s caambuf"
  kp_p :: "'s caambuf"
  kp_q :: "'s caambuf"
  kp_x :: "'s caambuf"
  kp_y :: "'s caambuf"

record ('k, 's) drvcrypt_sign_data =
  sd_algo :: u32
  sd_key :: 'k
  sd_size_sec :: 's
  sd_message_length :: 's
  sd_signature_length :: 's

definition caam_dsa_keypair_init :: "'a::len word caam_dsa_keypair" where
  "caam_dsa_keypair_init =
     \<lparr>kp_g = caambuf_init, kp_p = caambuf_init, kp_q = caambuf_init, kp_x = caambuf_init,
      kp_y = caambuf_init\<rparr>"

definition do_keypair_free ::
  "'a::len word caam_dsa_keypair \<Rightarrow> 'a word sys \<Rightarrow> 'a word caam_dsa_keypair \<times> 'a word sys" where
  "do_keypair_free key s =
     (case caam_free_buf (kp_g key) s of (g, s) \<Rightarrow>
      case caam_free_buf (kp_p key) s of (p, s) \<Rightarrow>
      case caam_free_buf (kp_q key) s of (q, s) \<Rightarrow>
      case caam_free_buf (kp_x key) s of (x, s) \<Rightarrow>
      case caam_free_buf (kp_y key) s of (y, s) \<Rightarrow>
        (\<lparr>kp_g = g, kp_p = p, kp_q = q, kp_x = x, kp_y = y\<rparr>, s))"

text \<open>
  \<^verbatim>\<open>get_keypair_domain_params\<close>.  The result is \<open>None\<close> when a conversion writes outside
  its buffer, and otherwise the return code, the local key pair, the caller's key (whose
  big numbers the generation branch overwrites) and the state.
\<close>

definition get_keypair_domain_params ::
  "caam_env \<Rightarrow> 'a::len word caam_dsa_keypair \<Rightarrow> dsa_keypair \<Rightarrow> 'a word \<Rightarrow> 'a word \<Rightarrow>
   'a word sys \<Rightarrow> (TEE_Result \<times> 'a word caam_dsa_keypair \<times> dsa_keypair \<times> 'a word sys) option" where
  "get_keypair_domain_params env outkey key l_bytes n_bytes s =
     (case caam_calloc_buf (alloc_q env) (virt_to_phys env) (kp_q outkey) n_bytes s of
        (retstatus, q, s) \<Rightarrow>
     let outkey = outkey\<lparr>kp_q := q\<rparr> in
     if retstatus \<noteq> CAAM_NO_ERROR then Some (TEE_ERROR_OUT_OF_MEMORY, outkey, key, s) else
     case caam_calloc_buf (alloc_g env) (virt_to_phys env) (kp_g outkey) l_bytes s of
        (retstatus, g, s) \<Rightarrow>
     let outkey = outkey\<lparr>kp_g := g\<rparr> in
     if retstatus \<noteq> CAAM_NO_ERROR then Some (TEE_ERROR_OUT_OF_MEMORY, outkey, key, s) else
     case caam_calloc_buf (alloc_p env) (virt_to_phys env) (kp_p outkey) l_bytes s of
        (retstatus, p, s) \<Rightarrow>
     let outkey = outkey\<lparr>kp_p := p\<rparr> in
     if retstatus \<noteq> CAAM_NO_ERROR then Some (TEE_ERROR_OUT_OF_MEMORY, outkey, key, s) else
     let in_g_size = crypto_bignum_num_bytes (dk_g key);
         in_p_size = crypto_bignum_num_bytes (dk_p key);
         in_q_size = crypto_bignum_num_bytes (dk_q key)
     in
     if in_q_size = 0 \<or> in_g_size = 0 \<or> in_p_size = 0 then
       (let s = log_call Prime_dsa_gen s;
            retstatus = prime_status env
        in
        if retstatus \<noteq> CAAM_NO_ERROR then Some (TEE_ERROR_GENERIC, outkey, key, s)
        else
          let outkey = outkey
                \<lparr>kp_g := (kp_g outkey)\<lparr>cb_bytes := dev_write (cb_bytes (kp_g outkey)) (prime_g env)\<rparr>,
                 kp_p := (kp_p outkey)\<lparr>cb_bytes := dev_write (cb_bytes (kp_p outkey)) (prime_p env)\<rparr>,
                 kp_q := (kp_q outkey)\<lparr>cb_bytes := dev_write (cb_bytes (kp_q outkey)) (prime_q env)\<rparr>\<rparr>;
              key = key\<lparr>dk_q := crypto_bignum_bin2bn
                         (take (unat (cb_length (kp_q outkey))) (cb_bytes (kp_q outkey)))\<rparr>;
              key = key\<lparr>dk_g := crypto_bignum_bin2bn
                         (take (unat (cb_length (kp_g outkey))) (cb_bytes (kp_g outkey)))\<rparr>;
              key = key\<lparr>dk_p := crypto_bignum_bin2bn
                         (take (unat (cb_length (kp_p outkey))) (cb_bytes (kp_p outkey)))\<rparr>
          in Some (TEE_SUCCESS, outkey, key, s))
     else
       (case crypto_bignum_bn2bin (dk_q key) (cb_bytes (kp_q outkey))
               (int (unat n_bytes) - int in_q_size) of
          None \<Rightarrow> None
        | Some qb \<Rightarrow>
       let outkey = outkey\<lparr>kp_q := (kp_q outkey)\<lparr>cb_bytes := qb\<rparr>\<rparr> in
       case crypto_bignum_bn2bin (dk_g key) (cb_bytes (kp_g outkey))
               (int (unat l_bytes) - int in_g_size) of
          None \<Rightarrow> None
        | Some gb \<Rightarrow>
       let outkey = outkey\<lparr>kp_g := (kp_g outkey)\<lparr>cb_bytes := gb\<rparr>\<rparr> in
       case crypto_bignum_bn2bin (dk_p key) (cb_bytes (kp_p outkey))
               (int (unat l_bytes) - int in_p_size) of
          None \<Rightarrow> None
        | Some pb \<Rightarrow>
       let outkey = outkey\<lparr>kp_p := (kp_p outkey)\<lparr>cb_bytes := pb\<rparr>\<rparr> in
       Some (TEE_SUCCESS, outkey, key, s)))"

text \<open>
  \<^verbatim>\<open>do_keypriv_conv\<close> and \<^verbatim>\<open>do_keypub_conv\<close>: for each field, allocate a zeroed buffer of
  the target width, take the byte length of the big number, and convert it at
  \<^verbatim>\<open>data + width - field_size\<close>.
\<close>

definition do_keypriv_conv ::
  "caam_env \<Rightarrow> 'a::len word caam_dsa_keypair \<Rightarrow> dsa_keypair \<Rightarrow> 'a word \<Rightarrow> 'a word \<Rightarrow>
   'a word sys \<Rightarrow> (caam_status \<times> 'a word caam_dsa_keypair \<times> 'a word sys) option" where
  "do_keypriv_conv env outkey inkey l_bytes n_bytes s =
     (case caam_calloc_buf (alloc_g env) (virt_to_phys env) (kp_g outkey) l_bytes s of
        (retstatus, g, s) \<Rightarrow>
     let outkey = outkey\<lparr>kp_g := g\<rparr> in
     if retstatus \<noteq> CAAM_NO_ERROR then Some (CAAM_OUT_MEMORY, outkey, s) else
     let field_size = crypto_bignum_num_bytes (dk_g inkey) in
     case crypto_bignum_bn2bin (dk_g inkey) (cb_bytes (kp_g outkey))
             (int (unat l_bytes) - int field_size) of
        None \<Rightarrow> None
      | Some gb \<Rightarrow>
     let outkey = outkey\<lparr>kp_g := (kp_g outkey)\<lparr>cb_bytes := gb\<rparr>\<rparr> in
     case caam_calloc_buf (alloc_p env) (virt_to_phys env) (kp_p outkey) l_bytes s of
        (retstatus, p, s) \<Rightarrow>
     let outkey = outkey\<lparr>kp_p := p\<rparr> in
     if retstatus \<noteq> CAAM_NO_ERROR then Some (CAAM_OUT_MEMORY, outkey, s) else
     let field_size = crypto_bignum_num_bytes (dk_p inkey) in
     case crypto_bignum_bn2bin (dk_p inkey) (cb_bytes (kp_p outkey))
             (int (unat l_bytes) - int field_size) of
        None \<Rightarrow> None
      | Some pb \<Rightarrow>
     let outkey = outkey\<lparr>kp_p := (kp_p outkey)\<lparr>cb_bytes := pb\<rparr>\<rparr> in
     case caam_calloc_buf (alloc_q env) (virt_to_phys env) (kp_q outkey) n_bytes s of
        (retstatus, q, s) \<Rightarrow>
     let outkey = outkey\<lparr>kp_q := q\<rparr> in
     if retstatus \<noteq> CAAM_NO_ERROR then Some (CAAM_OUT_MEMORY, outkey, s) else
     let field_size = crypto_bignum_num_bytes (dk_q inkey) in
     case crypto_bignum_bn2bin (dk_q inkey) (cb_bytes (kp_q outkey))
             (int (unat n_bytes) - int field_size) of
        None \<Rightarrow> None
      | Some qb \<Rightarrow>
     let outkey = outkey\<lparr>kp_q := (kp_q outkey)\<lparr>cb_bytes := qb\<rparr>\<rparr> in
     case caam_calloc_buf (alloc_x env) (virt_to_phys env) (kp_x outkey) n_bytes s of
        (retstatus, x, s) \<Rightarrow>
     let outkey = outkey\<lparr>kp_x := x\<rparr> in
     if retstatus \<noteq> CAAM_NO_ERROR then Some (CAAM_OUT_MEMORY, outkey, s) else
     let field_size = crypto_bignum_num_bytes (dk_x inkey) in
     case crypto_bignum_bn2bin (dk_x inkey) (cb_bytes (kp_x outkey))
             (int (unat n_bytes) - int field_size) of
        None \<Rightarrow> None
      | Some xb \<Rightarrow>
     let outkey = outkey\<lparr>kp_x := (kp_x outkey)\<lparr>cb_bytes := xb\<rparr>\<rparr> in
     Some (CAAM_NO_ERROR, outkey, s))"

definition do_keypub_conv ::
  "caam_env \<Rightarrow> 'a::len word caam_dsa_keypair \<Rightarrow> dsa_public_key \<Rightarrow> 'a word \<Rightarrow> 'a word \<Rightarrow>
   'a word sys \<Rightarrow> (caam_status \<times> 'a word caam_dsa_keypair \<times> 'a word sys) option" where
  "do_keypub_conv env outkey inkey l_bytes n_bytes s =
     (case caam_calloc_buf (alloc_g env) (virt_to_phys env) (kp_g outkey) l_bytes s of
        (retstatus, g, s) \<Rightarrow>
     let outkey = outkey\<lparr>kp_g := g\<rparr> in
     if retstatus \<noteq> CAAM_NO_ERROR then Some (CAAM_OUT_MEMORY, outkey, s) else
     let field_size = crypto_bignum_num_bytes (dpk_g inkey) in
     case crypto_bignum_bn2bin (dpk_g inkey) (cb_bytes (kp_g outkey))
             (int (unat l_bytes) - int field_size) of
        None \<Rightarrow> None
      | Some gb \<Rightarrow>
     let outkey = outkey\<lparr>kp_g := (kp_g outkey)\<lparr>cb_bytes := gb\<rparr>\<rparr> in
     case caam_calloc_buf (alloc_p env) (virt_to_phys env) (kp_p outkey) l_bytes s of
        (retstatus, p, s) \<Rightarrow>
     let outkey = outkey\<lparr>kp_p := p\<rparr> in
     if retstatus \<noteq> CAAM_NO_ERROR then Some (CAAM_OUT_MEMORY, outkey, s) else
     let field_size = crypto_bignum_num_bytes (dpk_p inkey) in
     case crypto_bignum_bn2bin (dpk_p inkey) (cb_bytes (kp_p outkey))
             (int (unat l_bytes) - int field_size) of
        None \<Rightarrow> None
      | Some pb \<Rightarrow>
     let outkey = outkey\<lparr>kp_p := (kp_p outkey)\<lparr>cb_bytes := pb\<rparr>\<rparr> in
     case caam_calloc_buf (alloc_q env) (virt_to_phys env) (kp_q outkey) n_bytes s of
        (retstatus, q, s) \<Rightarrow>
     let outkey = outkey\<lparr>kp_q := q\<rparr> in
     if retstatus \<noteq> CAAM_NO_ERROR then Some (CAAM_OUT_MEMORY, outkey, s) else
     let field_size = crypto_bignum_num_bytes (dpk_q inkey) in
     case crypto_bignum_bn2bin (dpk_q inkey) (cb_bytes (kp_q outkey))
             (int (unat n_bytes) - int field_size) of
        None \<Rightarrow> None
      | Some qb \<Rightarrow>
     let outkey = outkey\<lparr>kp_q := (kp_q outkey)\<lparr>cb_bytes := qb\<rparr>\<rparr> in
     case caam_calloc_buf (alloc_y env) (virt_to_phys env) (kp_y outkey) l_bytes s of
        (retstatus, y, s) \<Rightarrow>
     let outkey = outkey\<lparr>kp_y := y\<rparr> in
     if retstatus \<noteq> CAAM_NO_ERROR then Some (CAAM_OUT_MEMORY, outkey, s) else
     let field_size = crypto_bignum_num_bytes (dpk_y inkey) in
     case crypto_bignum_bn2bin (dpk_y inkey) (cb_bytes (kp_y outkey))
             (int (unat l_bytes) - int field_size) of
        None \<Rightarrow> None
      | Some yb \<Rightarrow>
     let outkey = outkey\<lparr>kp_y := (kp_y outkey)\<lparr>cb_bytes := yb\<rparr>\<rparr> in
     Some (CAAM_NO_ERROR, outkey, s))"

subsection \<open>The three operations\<close>

text \<open>
  The local variables of an operation that own storage.  Each operation is its body, in
  which every \<^verbatim>\<open>goto exit_*\<close> returns the result code with the locals as they are, followed
  by the statements under its exit label.  The body is written in two definitions, the
  second one continuing where the first one stops.
\<close>

record 's locals =
  lc_desc :: "descriptor option"
  lc_key :: "'s caam_dsa_keypair"
  lc_tmp :: "'s caambuf"
  lc_msg :: "'s caamdmaobj"
  lc_sign_c :: "'s caamdmaobj"
  lc_sign_d :: "'s caamdmaobj"

definition locals_init :: "'a::len word locals" where
  "locals_init =
     \<lparr>lc_desc = None, lc_key = caam_dsa_keypair_init, lc_tmp = caambuf_init,
      lc_msg = caamdmaobj_init, lc_sign_c = caamdmaobj_init, lc_sign_d = caamdmaobj_init\<rparr>"

text \<open>Lines 425 to 437 of \<^verbatim>\<open>do_gen_keypair\<close>: the descriptor of the key generation.\<close>

definition keypair_gen_desc ::
  "caam_env \<Rightarrow> descriptor \<Rightarrow> 'a::len word caam_dsa_keypair \<Rightarrow> 'a word \<Rightarrow> 'a word \<Rightarrow>
   descriptor option" where
  "keypair_gen_desc env desc k l_bytes n_bytes =
     do {
       let d = caam_desc_init desc;
       d \<leftarrow> caam_desc_add_word d (DESC_HEADER 0);
       d \<leftarrow> caam_desc_add_word d
              (PDB_DL_KEY_L_SIZE env (unat l_bytes) OR PDB_DL_KEY_N_SIZE env (unat n_bytes));
       d \<leftarrow> caam_desc_add_ptr (cfg_caam_64bit env) d (cb_paddr (kp_p k));
       d \<leftarrow> caam_desc_add_ptr (cfg_caam_64bit env) d (cb_paddr (kp_q k));
       d \<leftarrow> caam_desc_add_ptr (cfg_caam_64bit env) d (cb_paddr (kp_g k));
       d \<leftarrow> caam_desc_add_ptr (cfg_caam_64bit env) d (cb_paddr (kp_x k));
       d \<leftarrow> caam_desc_add_ptr (cfg_caam_64bit env) d (cb_paddr (kp_y k));
       d \<leftarrow> caam_desc_add_word d (PK_KEYPAIR_GEN_DL env);
       let desclen = caam_desc_get_len d;
       Some (caam_desc_update_hdr d (DESC_HEADER_IDX desclen (desclen - 1)))
     }"

text \<open>
  Lines 421 to 468 of \<^verbatim>\<open>do_gen_keypair\<close>: build the descriptor, submit the job, and on
  success read the private and the public key back from the buffers the device wrote.
\<close>

definition do_gen_keypair_submit ::
  "caam_env \<Rightarrow> dsa_keypair \<Rightarrow> descriptor \<Rightarrow> 'a::len word locals \<Rightarrow> 'a word \<Rightarrow> 'a word \<Rightarrow>
   'a word sys \<Rightarrow> (TEE_Result \<times> dsa_keypair \<times> 'a word locals \<times> 'a word sys) option" where
  "do_gen_keypair_submit env key d lc l_bytes n_bytes s =
     (case keypair_gen_desc env d (lc_key lc) l_bytes n_bytes of
        None \<Rightarrow> None
      | Some d \<Rightarrow>
      let lc = lc\<lparr>lc_desc := Some d\<rparr> in
      case caam_jr_enqueue env d s of (retstatus, status, s) \<Rightarrow>
      if retstatus = CAAM_NO_ERROR then
        (let k = lc_key lc;
             k = k\<lparr>kp_x := (kp_x k)\<lparr>cb_bytes := dev_write (cb_bytes (kp_x k)) (dev_x env)\<rparr>,
                   kp_y := (kp_y k)\<lparr>cb_bytes := dev_write (cb_bytes (kp_y k)) (dev_y env)\<rparr>\<rparr>;
             lc = lc\<lparr>lc_key := k\<rparr>;
             ret = bin2bn_x_ret env
         in
         if ret \<noteq> TEE_SUCCESS then Some (ret, key, lc, s) else
         let key = key\<lparr>dk_x := crypto_bignum_bin2bn
                      (take (unat (cb_length (kp_x k))) (cb_bytes (kp_x k)))\<rparr>;
             ret = bin2bn_y_ret env
         in
         if ret \<noteq> TEE_SUCCESS then Some (ret, key, lc, s) else
         let key = key\<lparr>dk_y := crypto_bignum_bin2bn
                      (take (unat (cb_length (kp_y k))) (cb_bytes (kp_y k)))\<rparr>
         in Some (TEE_SUCCESS, key, lc, s))
      else Some (job_status_to_tee_result env status, key, lc, s))"

text \<open>
  \<^verbatim>\<open>do_gen_keypair\<close> up to its exit label: lines 380 to 419 (the allocations and the
  domain parameters), then the submission above.
\<close>

definition do_gen_keypair_body ::
  "caam_env \<Rightarrow> dsa_keypair \<Rightarrow> 'a::len word \<Rightarrow> 'a word \<Rightarrow> 'a word locals \<Rightarrow> 'a word sys \<Rightarrow>
   (TEE_Result \<times> dsa_keypair \<times> 'a word locals \<times> 'a word sys) option" where
  "do_gen_keypair_body env key l_bits n_bits lc s =
     (let l_bytes = l_bits div 8; n_bytes = n_bits div 8 in
      case caam_calloc_desc (alloc_desc env) (MAX_DESC_KEY_GEN env) s of (desc, s) \<Rightarrow>
      let lc = lc\<lparr>lc_desc := desc\<rparr> in
      case desc of
        None \<Rightarrow> Some (TEE_ERROR_OUT_OF_MEMORY, key, lc, s)
      | Some d \<Rightarrow>
      case caam_calloc_align_buf (alloc_x env) (virt_to_phys env) (kp_x (lc_key lc)) n_bytes s of
        (retstatus, x, s) \<Rightarrow>
      let lc = lc\<lparr>lc_key := (lc_key lc)\<lparr>kp_x := x\<rparr>\<rparr> in
      if retstatus \<noteq> CAAM_NO_ERROR then Some (TEE_ERROR_OUT_OF_MEMORY, key, lc, s) else
      case caam_calloc_align_buf (alloc_y env) (virt_to_phys env) (kp_y (lc_key lc)) l_bytes s of
        (retstatus, y, s) \<Rightarrow>
      let lc = lc\<lparr>lc_key := (lc_key lc)\<lparr>kp_y := y\<rparr>\<rparr> in
      if retstatus \<noteq> CAAM_NO_ERROR then Some (TEE_ERROR_OUT_OF_MEMORY, key, lc, s) else
      case get_keypair_domain_params env (lc_key lc) key l_bytes n_bytes s of
        None \<Rightarrow> None
      | Some (ret, outkey, key, s) \<Rightarrow>
      let lc = lc\<lparr>lc_key := outkey\<rparr> in
      if ret \<noteq> TEE_SUCCESS then Some (ret, key, lc, s)
      else do_gen_keypair_submit env key d lc l_bytes n_bytes s)"

definition exit_gen_keypair :: "'a::len word locals \<Rightarrow> 'a word sys \<Rightarrow> 'a word locals \<times> 'a word sys" where
  "exit_gen_keypair lc s =
     (case caam_free_desc (lc_desc lc) s of (desc, s) \<Rightarrow>
      case do_keypair_free (lc_key lc) s of (k, s) \<Rightarrow>
        (lc\<lparr>lc_desc := desc, lc_key := k\<rparr>, s))"

definition do_gen_keypair ::
  "caam_env \<Rightarrow> dsa_keypair \<Rightarrow> 'a::len word \<Rightarrow> 'a word \<Rightarrow> 'a word sys \<Rightarrow>
   (TEE_Result \<times> dsa_keypair \<times> 'a word sys) option" where
  "do_gen_keypair env key l_bits n_bits s =
     (case do_gen_keypair_body env key l_bits n_bits locals_init s of
        None \<Rightarrow> None
      | Some (ret, key, lc, s) \<Rightarrow>
          (case exit_gen_keypair lc s of (lc, s) \<Rightarrow> Some (ret, key, s)))"

text \<open>Lines 569 to 594 of \<^verbatim>\<open>do_sign\<close>: the descriptor of the signature.\<close>

definition sign_desc ::
  "caam_env \<Rightarrow> descriptor \<Rightarrow> 'a::len word locals \<Rightarrow> u32 \<Rightarrow> 'a word \<Rightarrow> 'a word \<Rightarrow> 'a word \<Rightarrow>
   descriptor option" where
  "sign_desc env desc lc pdb_sgt_flags message_length l_bytes n_bytes =
     do {
       let d = caam_desc_init desc;
       d \<leftarrow> caam_desc_add_word d (DESC_HEADER 0);
       d \<leftarrow> caam_desc_add_word d
              (PDB_DSA_SIGN_N env (unat n_bytes) OR PDB_DSA_SIGN_L env (unat l_bytes)
               OR pdb_sgt_flags);
       d \<leftarrow> caam_desc_add_ptr (cfg_caam_64bit env) d (cb_paddr (kp_p (lc_key lc)));
       d \<leftarrow> caam_desc_add_ptr (cfg_caam_64bit env) d (cb_paddr (kp_q (lc_key lc)));
       d \<leftarrow> caam_desc_add_ptr (cfg_caam_64bit env) d (cb_paddr (kp_g (lc_key lc)));
       d \<leftarrow> caam_desc_add_ptr (cfg_caam_64bit env) d (cb_paddr (kp_x (lc_key lc)));
       d \<leftarrow> caam_desc_add_ptr (cfg_caam_64bit env) d (dm_paddr (lc_msg lc));
       d \<leftarrow> caam_desc_add_ptr (cfg_caam_64bit env) d (dm_paddr (lc_sign_c lc));
       d \<leftarrow> caam_desc_add_ptr (cfg_caam_64bit env) d (dm_paddr (lc_sign_d lc));
       d \<leftarrow> caam_desc_add_word d (ucast message_length);
       d \<leftarrow> caam_desc_add_word d (DSA_SIGN_DL env);
       let desclen = caam_desc_get_len d;
       Some (caam_desc_update_hdr d (DESC_HEADER_IDX desclen (desclen - 1)))
     }"

text \<open>
  Lines 523 to 615 of \<^verbatim>\<open>do_sign\<close>: the DMA objects of the message and of the two parts
  of the signature, the descriptor, the submission, and on success the copy of the
  signature to the caller's buffer.
\<close>

definition do_sign_submit ::
  "caam_env \<Rightarrow> (dsa_keypair, 'a::len word) drvcrypt_sign_data \<Rightarrow> descriptor \<Rightarrow> 'a word locals \<Rightarrow>
   'a word \<Rightarrow> 'a word \<Rightarrow> 'a word sys \<Rightarrow>
   (TEE_Result \<times> (dsa_keypair, 'a word) drvcrypt_sign_data \<times> 'a word locals \<times> 'a word sys) option" where
  "do_sign_submit env sdata d lc l_bytes n_bytes s =
     (let pdb_sgt_flags = (0 :: u32) in
      case caam_dmaobj_init_input (msg_reply env) (lc_msg lc) (sd_message_length sdata) s of
        (ret, msg, s) \<Rightarrow>
      let lc = lc\<lparr>lc_msg := msg\<rparr> in
      if ret \<noteq> 0 then Some (ret, sdata, lc, s) else
      let pdb_sgt_flags =
            (if dm_sgt_type (lc_msg lc) then pdb_sgt_flags OR PDB_SGT_PKSIGN_MSG env
             else pdb_sgt_flags);
          sign_len = ROUNDUP (sd_size_sec sdata) 16 + sd_size_sec sdata
      in
      case caam_dmaobj_init_output (sign_c_reply env) (lc_sign_c lc)
             (sd_signature_length sdata) sign_len s of
        (ret, sign_c, s) \<Rightarrow>
      let lc = lc\<lparr>lc_sign_c := sign_c\<rparr> in
      if ret \<noteq> 0 then Some (ret, sdata, lc, s) else
      let pdb_sgt_flags =
            (if dm_sgt_type (lc_sign_c lc) then pdb_sgt_flags OR PDB_SGT_PKSIGN_SIGN_C env
             else pdb_sgt_flags)
      in
      case caam_dmaobj_derive (sign_d_reply env) (lc_sign_d lc) (lc_sign_c lc)
             (sd_size_sec sdata) (ROUNDUP (sd_size_sec sdata) 16) s of
        (ret, sign_d, s) \<Rightarrow>
      let lc = lc\<lparr>lc_sign_d := sign_d\<rparr> in
      if ret \<noteq> 0 then Some (ret, sdata, lc, s) else
      let pdb_sgt_flags =
            (if dm_sgt_type (lc_sign_d lc) then pdb_sgt_flags OR PDB_SGT_PKSIGN_SIGN_D env
             else pdb_sgt_flags)
      in
      case sign_desc env d lc pdb_sgt_flags (sd_message_length sdata) l_bytes n_bytes of
        None \<Rightarrow> None
      | Some d \<Rightarrow>
      let lc = lc\<lparr>lc_desc := Some d\<rparr> in
      case caam_jr_enqueue env d s of (retstatus, status, s) \<Rightarrow>
      if retstatus = CAAM_NO_ERROR then
        (let sign_c = (lc_sign_c lc)\<lparr>dm_orig_length := 2 * sd_size_sec sdata\<rparr>;
             lc = lc\<lparr>lc_sign_c := sign_c\<rparr>;
             s = caam_dmaobj_copy_to_orig sign_c s;
             sdata = sdata\<lparr>sd_signature_length := dm_orig_length sign_c\<rparr>
         in Some (TEE_SUCCESS, sdata, lc, s))
      else Some (job_status_to_tee_result env status, sdata, lc, s))"

text \<open>
  \<^verbatim>\<open>do_sign\<close> up to its exit label: lines 488 to 521 (the descriptor storage and the
  conversion of the private key), then the part above.
\<close>

definition do_sign_body ::
  "caam_env \<Rightarrow> (dsa_keypair, 'a::len word) drvcrypt_sign_data \<Rightarrow> 'a word \<Rightarrow> 'a word \<Rightarrow>
   'a word locals \<Rightarrow> 'a word sys \<Rightarrow>
   (TEE_Result \<times> (dsa_keypair, 'a word) drvcrypt_sign_data \<times> 'a word locals \<times> 'a word sys) option" where
  "do_sign_body env sdata l_bytes n_bytes lc s =
     (let inkey = sd_key sdata in
      case caam_calloc_desc (alloc_desc env) (MAX_DESC_SIGN env) s of (desc, s) \<Rightarrow>
      let lc = lc\<lparr>lc_desc := desc\<rparr> in
      case desc of
        None \<Rightarrow> Some (TEE_ERROR_OUT_OF_MEMORY, sdata, lc, s)
      | Some d \<Rightarrow>
      case do_keypriv_conv env (lc_key lc) inkey l_bytes n_bytes s of
        None \<Rightarrow> None
      | Some (retstatus, k, s) \<Rightarrow>
      let lc = lc\<lparr>lc_key := k\<rparr> in
      if retstatus \<noteq> CAAM_NO_ERROR then Some (TEE_ERROR_OUT_OF_MEMORY, sdata, lc, s)
      else do_sign_submit env sdata d lc l_bytes n_bytes s)"

definition exit_sign :: "'a::len word locals \<Rightarrow> 'a word sys \<Rightarrow> 'a word locals \<times> 'a word sys" where
  "exit_sign lc s =
     (case caam_free_desc (lc_desc lc) s of (desc, s) \<Rightarrow>
      case do_keypair_free (lc_key lc) s of (k, s) \<Rightarrow>
      case caam_dmaobj_free (lc_msg lc) s of (msg, s) \<Rightarrow>
      case caam_dmaobj_free (lc_sign_c lc) s of (sign_c, s) \<Rightarrow>
      case caam_dmaobj_free (lc_sign_d lc) s of (sign_d, s) \<Rightarrow>
        (lc\<lparr>lc_desc := desc, lc_key := k, lc_msg := msg, lc_sign_c := sign_c,
            lc_sign_d := sign_d\<rparr>, s))"

definition do_sign ::
  "caam_env \<Rightarrow> (dsa_keypair, 'a::len word) drvcrypt_sign_data \<Rightarrow> 'a word \<Rightarrow> 'a word \<Rightarrow>
   'a word sys \<Rightarrow> (TEE_Result \<times> (dsa_keypair, 'a word) drvcrypt_sign_data \<times> 'a word sys) option" where
  "do_sign env sdata l_bytes n_bytes s =
     (case do_sign_body env sdata l_bytes n_bytes locals_init s of
        None \<Rightarrow> None
      | Some (ret, sdata, lc, s) \<Rightarrow>
          (case exit_sign lc s of (lc, s) \<Rightarrow> Some (ret, sdata, s)))"

text \<open>Lines 719 to 745 of \<^verbatim>\<open>do_verify\<close>: the descriptor of the verification.\<close>

definition verify_desc ::
  "caam_env \<Rightarrow> descriptor \<Rightarrow> 'a::len word locals \<Rightarrow> u32 \<Rightarrow> 'a word \<Rightarrow> 'a word \<Rightarrow> 'a word \<Rightarrow>
   descriptor option" where
  "verify_desc env desc lc pdb_sgt_flags message_length l_bytes n_bytes =
     do {
       let d = caam_desc_init desc;
       d \<leftarrow> caam_desc_add_word d (DESC_HEADER 0);
       d \<leftarrow> caam_desc_add_word d
              (PDB_DSA_VERIF_N env (unat n_bytes) OR PDB_DSA_VERIF_L env (unat l_bytes)
               OR pdb_sgt_flags);
       d \<leftarrow> caam_desc_add_ptr (cfg_caam_64bit env) d (cb_paddr (kp_p (lc_key lc)));
       d \<leftarrow> caam_desc_add_ptr (cfg_caam_64bit env) d (cb_paddr (kp_q (lc_key lc)));
       d \<leftarrow> caam_desc_add_ptr (cfg_caam_64bit env) d (cb_paddr (kp_g (lc_key lc)));
       d \<leftarrow> caam_desc_add_ptr (cfg_caam_64bit env) d (cb_paddr (kp_y (lc_key lc)));
       d \<leftarrow> caam_desc_add_ptr (cfg_caam_64bit env) d (dm_paddr (lc_msg lc));
       d \<leftarrow> caam_desc_add_ptr (cfg_caam_64bit env) d (dm_paddr (lc_sign_c lc));
       d \<leftarrow> caam_desc_add_ptr (cfg_caam_64bit env) d (dm_paddr (lc_sign_d lc));
       d \<leftarrow> caam_desc_add_ptr (cfg_caam_64bit env) d (cb_paddr (lc_tmp lc));
       d \<leftarrow> caam_desc_add_word d (ucast message_length);
       d \<leftarrow> caam_desc_add_word d (DSA_VERIFY_DL env);
       let desclen = caam_desc_get_len d;
       Some (caam_desc_update_hdr d (DESC_HEADER_IDX desclen (desclen - 1)))
     }"

text \<open>
  Lines 673 to 762 of \<^verbatim>\<open>do_verify\<close>: the DMA objects, the temporary buffer, the
  descriptor, the submission and the classification of its outcome.
\<close>

definition do_verify_submit ::
  "caam_env \<Rightarrow> (dsa_public_key, 'a::len word) drvcrypt_sign_data \<Rightarrow> descriptor \<Rightarrow>
   'a word locals \<Rightarrow> 'a word \<Rightarrow> 'a word \<Rightarrow> 'a word sys \<Rightarrow>
   (TEE_Result \<times> 'a word locals \<times> 'a word sys) option" where
  "do_verify_submit env sdata d lc l_bytes n_bytes s =
     (let pdb_sgt_flags = (0 :: u32) in
      case caam_dmaobj_init_input (msg_reply env) (lc_msg lc) (sd_message_length sdata) s of
        (ret, msg, s) \<Rightarrow>
      let lc = lc\<lparr>lc_msg := msg\<rparr> in
      if ret \<noteq> 0 then Some (ret, lc, s) else
      let pdb_sgt_flags =
            (if dm_sgt_type (lc_msg lc) then pdb_sgt_flags OR PDB_SGT_PKVERIF_MSG env
             else pdb_sgt_flags)
      in
      case caam_dmaobj_init_input (sign_c_reply env) (lc_sign_c lc)
             (sd_signature_length sdata) s of
        (ret, sign_c, s) \<Rightarrow>
      let lc = lc\<lparr>lc_sign_c := sign_c\<rparr> in
      if ret \<noteq> 0 then Some (ret, lc, s) else
      let pdb_sgt_flags =
            (if dm_sgt_type (lc_sign_c lc) then pdb_sgt_flags OR PDB_SGT_PKVERIF_SIGN_C env
             else pdb_sgt_flags)
      in
      case caam_dmaobj_derive (sign_d_reply env) (lc_sign_d lc) (lc_sign_c lc)
             (sd_size_sec sdata) (sd_size_sec sdata) s of
        (ret, sign_d, s) \<Rightarrow>
      let lc = lc\<lparr>lc_sign_d := sign_d\<rparr> in
      if ret \<noteq> 0 then Some (ret, lc, s) else
      let pdb_sgt_flags =
            (if dm_sgt_type (lc_sign_d lc) then pdb_sgt_flags OR PDB_SGT_PKVERIF_SIGN_D env
             else pdb_sgt_flags)
      in
      case caam_alloc_align_buf (alloc_tmp env) (virt_to_phys env) (tmp_junk env) (lc_tmp lc)
             l_bytes s of
        (retstatus, tmp, s) \<Rightarrow>
      let lc = lc\<lparr>lc_tmp := tmp\<rparr> in
      if retstatus \<noteq> CAAM_NO_ERROR then Some (TEE_ERROR_OUT_OF_MEMORY, lc, s) else
      case verify_desc env d lc pdb_sgt_flags (sd_message_length sdata) l_bytes n_bytes of
        None \<Rightarrow> None
      | Some d \<Rightarrow>
      let lc = lc\<lparr>lc_desc := Some d\<rparr> in
      case caam_jr_enqueue env d s of (retstatus, status, s) \<Rightarrow>
      if retstatus = CAAM_JOB_STATUS \<and> status = 0 then
        Some (TEE_ERROR_SIGNATURE_INVALID, lc, s)
      else if retstatus \<noteq> CAAM_NO_ERROR then
        Some (job_status_to_tee_result env status, lc, s)
      else Some (TEE_SUCCESS, lc, s))"

text \<open>
  \<^verbatim>\<open>do_verify\<close> up to its exit label: lines 638 to 671 (the descriptor storage and the
  conversion of the public key), then the part above.
\<close>

definition do_verify_body ::
  "caam_env \<Rightarrow> (dsa_public_key, 'a::len word) drvcrypt_sign_data \<Rightarrow> 'a word \<Rightarrow> 'a word \<Rightarrow>
   'a word locals \<Rightarrow> 'a word sys \<Rightarrow> (TEE_Result \<times> 'a word locals \<times> 'a word sys) option" where
  "do_verify_body env sdata l_bytes n_bytes lc s =
     (let inkey = sd_key sdata in
      case caam_calloc_desc (alloc_desc env) (MAX_DESC_VERIFY env) s of (desc, s) \<Rightarrow>
      let lc = lc\<lparr>lc_desc := desc\<rparr> in
      case desc of
        None \<Rightarrow> Some (TEE_ERROR_OUT_OF_MEMORY, lc, s)
      | Some d \<Rightarrow>
      case do_keypub_conv env (lc_key lc) inkey l_bytes n_bytes s of
        None \<Rightarrow> None
      | Some (retstatus, k, s) \<Rightarrow>
      let lc = lc\<lparr>lc_key := k\<rparr> in
      if retstatus \<noteq> CAAM_NO_ERROR then Some (TEE_ERROR_OUT_OF_MEMORY, lc, s)
      else do_verify_submit env sdata d lc l_bytes n_bytes s)"

definition exit_verify :: "'a::len word locals \<Rightarrow> 'a word sys \<Rightarrow> 'a word locals \<times> 'a word sys" where
  "exit_verify lc s =
     (case caam_free_desc (lc_desc lc) s of (desc, s) \<Rightarrow>
      case do_keypair_free (lc_key lc) s of (k, s) \<Rightarrow>
      case caam_free_buf (lc_tmp lc) s of (tmp, s) \<Rightarrow>
      case caam_dmaobj_free (lc_msg lc) s of (msg, s) \<Rightarrow>
      case caam_dmaobj_free (lc_sign_c lc) s of (sign_c, s) \<Rightarrow>
      case caam_dmaobj_free (lc_sign_d lc) s of (sign_d, s) \<Rightarrow>
        (lc\<lparr>lc_desc := desc, lc_key := k, lc_tmp := tmp, lc_msg := msg, lc_sign_c := sign_c,
            lc_sign_d := sign_d\<rparr>, s))"

definition do_verify ::
  "caam_env \<Rightarrow> (dsa_public_key, 'a::len word) drvcrypt_sign_data \<Rightarrow> 'a word \<Rightarrow> 'a word \<Rightarrow>
   'a word sys \<Rightarrow> (TEE_Result \<times> 'a word sys) option" where
  "do_verify env sdata l_bytes n_bytes s =
     (case do_verify_body env sdata l_bytes n_bytes locals_init s of
        None \<Rightarrow> None
      | Some (ret, lc, s) \<Rightarrow>
          (case exit_verify lc s of (lc, s) \<Rightarrow> Some (ret, s)))"


subsection \<open>Ownership and encoding predicates\<close>

text \<open>
  The handles an owning variable holds, in the order in which \<^verbatim>\<open>do_keypair_free\<close> goes
  through the fields of a key pair.
\<close>

definition held_opt :: "nat option \<Rightarrow> nat list" where
  "held_opt h = (case h of None \<Rightarrow> [] | Some a \<Rightarrow> [a])"

definition held_desc :: "descriptor option \<Rightarrow> nat list" where
  "held_desc d = (case d of None \<Rightarrow> [] | Some d \<Rightarrow> [d_handle d])"

definition held_key :: "'s caam_dsa_keypair \<Rightarrow> nat list" where
  "held_key k =
     held_opt (cb_data (kp_g k)) @ held_opt (cb_data (kp_p k)) @ held_opt (cb_data (kp_q k))
     @ held_opt (cb_data (kp_x k)) @ held_opt (cb_data (kp_y k))"

text \<open>
  \<open>owns s0 s M\<close>: since the state \<open>s0\<close> the handles \<open>M\<close> have been allocated, all of them
  are still live in \<open>s\<close>, and nothing has been freed.
\<close>

definition owns :: "'s sys \<Rightarrow> 's sys \<Rightarrow> nat multiset \<Rightarrow> bool" where
  "owns s0 s M =
     (next_handle s0 \<le> next_handle s
      \<and> live s = rev [next_handle s0..<next_handle s] @ live s0
      \<and> freed s = freed s0
      \<and> M = mset [next_handle s0..<next_handle s])"

text \<open>
  \<open>right_justified W v bs\<close>: the buffer \<open>bs\<close> has exactly \<open>W\<close> bytes, the last of which are
  the bytes of \<open>v\<close>, the ones before are zero, and reading the whole buffer as a
  big-endian integer gives \<open>v\<close> back.
\<close>

definition right_justified :: "nat \<Rightarrow> nat \<Rightarrow> u8 list \<Rightarrow> bool" where
  "right_justified W v bs =
     (length bs = W \<and> crypto_bignum_num_bytes v \<le> W
      \<and> take (W - crypto_bignum_num_bytes v) bs = replicate (W - crypto_bignum_num_bytes v) 0
      \<and> drop (W - crypto_bignum_num_bytes v) bs = bn_bytes v
      \<and> crypto_bignum_bin2bn bs = v)"

text \<open>Freeing a list of handles one after the other, as the exit sequences do.\<close>

definition free_list :: "nat list \<Rightarrow> 's sys \<Rightarrow> 's sys" where
  "free_list hs s = fold caam_free hs s"

subsection \<open>The spec's table of descriptor fields\<close>

text \<open>
  The rows of the spec's table, written from the spec's words and not from the code: the
  fields that follow the header word, in the order of the table.  A field that is an
  address takes the words of \<open>ptr_words\<close>.

  Generate: size-flags, p-addr, q-addr, g-addr, x-addr(out), y-addr(out), opcode.
\<close>

definition generate_fields_spec ::
  "caam_env \<Rightarrow> 'a::len word caam_dsa_keypair \<Rightarrow> 'a word \<Rightarrow> 'a word \<Rightarrow> u32 list" where
  "generate_fields_spec env k l_bytes n_bytes =
     [PDB_DL_KEY_L_SIZE env (unat l_bytes) OR PDB_DL_KEY_N_SIZE env (unat n_bytes)]
     @ ptr_words (cfg_caam_64bit env) (cb_paddr (kp_p k))
     @ ptr_words (cfg_caam_64bit env) (cb_paddr (kp_q k))
     @ ptr_words (cfg_caam_64bit env) (cb_paddr (kp_g k))
     @ ptr_words (cfg_caam_64bit env) (cb_paddr (kp_x k))
     @ ptr_words (cfg_caam_64bit env) (cb_paddr (kp_y k))
     @ [PK_KEYPAIR_GEN_DL env]"

text \<open>
  Sign: size+SG-flags, p-addr, q-addr, g-addr, x-addr, msg-addr, sig1-addr, sig2-addr,
  msg-len, opcode.  The scatter/gather flags say which of the message and the two
  signature parts are scatter/gather tables.
\<close>

definition sign_sgt_flags :: "caam_env \<Rightarrow> 's locals \<Rightarrow> u32" where
  "sign_sgt_flags env lc =
     (if dm_sgt_type (lc_msg lc) then PDB_SGT_PKSIGN_MSG env else 0)
     OR (if dm_sgt_type (lc_sign_c lc) then PDB_SGT_PKSIGN_SIGN_C env else 0)
     OR (if dm_sgt_type (lc_sign_d lc) then PDB_SGT_PKSIGN_SIGN_D env else 0)"

definition sign_fields_spec ::
  "caam_env \<Rightarrow> 'a::len word locals \<Rightarrow> 'a word \<Rightarrow> 'a word \<Rightarrow> 'a word \<Rightarrow> u32 list" where
  "sign_fields_spec env lc message_length l_bytes n_bytes =
     [PDB_DSA_SIGN_N env (unat n_bytes) OR PDB_DSA_SIGN_L env (unat l_bytes)
      OR sign_sgt_flags env lc]
     @ ptr_words (cfg_caam_64bit env) (cb_paddr (kp_p (lc_key lc)))
     @ ptr_words (cfg_caam_64bit env) (cb_paddr (kp_q (lc_key lc)))
     @ ptr_words (cfg_caam_64bit env) (cb_paddr (kp_g (lc_key lc)))
     @ ptr_words (cfg_caam_64bit env) (cb_paddr (kp_x (lc_key lc)))
     @ ptr_words (cfg_caam_64bit env) (dm_paddr (lc_msg lc))
     @ ptr_words (cfg_caam_64bit env) (dm_paddr (lc_sign_c lc))
     @ ptr_words (cfg_caam_64bit env) (dm_paddr (lc_sign_d lc))
     @ [ucast message_length]
     @ [DSA_SIGN_DL env]"

text \<open>
  Verify: size+SG-flags, p-addr, q-addr, g-addr, y-addr, msg-addr, sig1-addr, sig2-addr,
  scratch-addr, msg-len, opcode.
\<close>

definition verify_sgt_flags :: "caam_env \<Rightarrow> 's locals \<Rightarrow> u32" where
  "verify_sgt_flags env lc =
     (if dm_sgt_type (lc_msg lc) then PDB_SGT_PKVERIF_MSG env else 0)
     OR (if dm_sgt_type (lc_sign_c lc) then PDB_SGT_PKVERIF_SIGN_C env else 0)
     OR (if dm_sgt_type (lc_sign_d lc) then PDB_SGT_PKVERIF_SIGN_D env else 0)"

definition verify_fields_spec ::
  "caam_env \<Rightarrow> 'a::len word locals \<Rightarrow> 'a word \<Rightarrow> 'a word \<Rightarrow> 'a word \<Rightarrow> u32 list" where
  "verify_fields_spec env lc message_length l_bytes n_bytes =
     [PDB_DSA_VERIF_N env (unat n_bytes) OR PDB_DSA_VERIF_L env (unat l_bytes)
      OR verify_sgt_flags env lc]
     @ ptr_words (cfg_caam_64bit env) (cb_paddr (kp_p (lc_key lc)))
     @ ptr_words (cfg_caam_64bit env) (cb_paddr (kp_q (lc_key lc)))
     @ ptr_words (cfg_caam_64bit env) (cb_paddr (kp_g (lc_key lc)))
     @ ptr_words (cfg_caam_64bit env) (cb_paddr (kp_y (lc_key lc)))
     @ ptr_words (cfg_caam_64bit env) (dm_paddr (lc_msg lc))
     @ ptr_words (cfg_caam_64bit env) (dm_paddr (lc_sign_c lc))
     @ ptr_words (cfg_caam_64bit env) (dm_paddr (lc_sign_d lc))
     @ ptr_words (cfg_caam_64bit env) (cb_paddr (lc_tmp lc))
     @ [ucast message_length]
     @ [DSA_VERIFY_DL env]"

text \<open>
  The descriptor the spec asks for: a header word whose length field is the number of
  words of the whole descriptor, followed by the fields.
\<close>

definition with_header :: "u32 list \<Rightarrow> u32 list" where
  "with_header fs = DESC_HEADER_IDX (of_nat (Suc (length fs))) (of_nat (Suc (length fs)) - 1) # fs"

subsection \<open>Reading the log of calls\<close>

text \<open>
  The calls an operation has made to its collaborators are the ones it has added to the
  log; the functions below pick out of them the descriptors given to the job ring, the
  minimum lengths asked of the output DMA object, and the lengths copied back to the
  caller's buffer.
\<close>

definition new_calls :: "'s sys \<Rightarrow> 's sys \<Rightarrow> 's ext_call list" where
  "new_calls s s' = drop (length (calls s)) (calls s')"

primrec enqueued :: "'s ext_call list \<Rightarrow> u32 list list" where
  "enqueued [] = []"
| "enqueued (c # cs) = (case c of Jr_enqueue ws \<Rightarrow> ws # enqueued cs | _ \<Rightarrow> enqueued cs)"

primrec output_min_lengths :: "'s ext_call list \<Rightarrow> 's list" where
  "output_min_lengths [] = []"
| "output_min_lengths (c # cs) =
     (case c of Dmaobj_init_output len m \<Rightarrow> m # output_min_lengths cs
      | _ \<Rightarrow> output_min_lengths cs)"

primrec copied_lengths :: "'s ext_call list \<Rightarrow> 's list" where
  "copied_lengths [] = []"
| "copied_lengths (c # cs) =
     (case c of Dmaobj_copy_to_orig k \<Rightarrow> k # copied_lengths cs | _ \<Rightarrow> copied_lengths cs)"

primrec generator_calls :: "'s ext_call list \<Rightarrow> nat" where
  "generator_calls [] = 0"
| "generator_calls (c # cs) =
     (case c of Prime_dsa_gen \<Rightarrow> Suc (generator_calls cs) | _ \<Rightarrow> generator_calls cs)"

text \<open>The length field of the header word of a descriptor counts all its words.\<close>

definition header_counts_words :: "u32 list \<Rightarrow> bool" where
  "header_counts_words ws = (ws \<noteq> [] \<and> unat (GET_JD_DESCLEN (hd ws)) = length ws)"

text \<open>
  The storage of a call is returned: what was live before is live after, and the handles
  given out during the call, each of them once, are the ones freed during the call.
\<close>

definition all_freed_once :: "'s sys \<Rightarrow> 's sys \<Rightarrow> bool" where
  "all_freed_once s s' =
     (live s' = live s \<and> next_handle s \<le> next_handle s'
      \<and> mset (freed s') = mset (freed s) + mset [next_handle s..<next_handle s'])"

text \<open>The byte length of a scalar is at most the width of its buffer.\<close>

definition fits :: "nat \<Rightarrow> 'a::len word \<Rightarrow> bool" where
  "fits v w = (crypto_bignum_num_bytes v \<le> unat w)"

subsection \<open>A small configuration\<close>

text \<open>
  A 32-bit build with a prime of 4 bytes and a subprime of 2 bytes, in which every
  collaborator succeeds; the variants below change one answer at a time.  Handle \<open>h\<close> has
  the physical address \<open>0x80000000 + 0x100 * h\<close>.
\<close>

definition env_ok :: caam_env where
  "env_ok = \<lparr>cfg_caam_64bit = False,
     PDB_DL_KEY_L_SIZE = (\<lambda>n. push_bit 7 (of_nat n AND 0x3FF)),
     PDB_DL_KEY_N_SIZE = (\<lambda>n. of_nat n AND 0x7F),
     PK_KEYPAIR_GEN_DL = 0x86140000,
     PDB_DSA_SIGN_N = (\<lambda>n. of_nat n AND 0x7F),
     PDB_DSA_SIGN_L = (\<lambda>n. push_bit 7 (of_nat n AND 0x3FF)),
     DSA_SIGN_DL = 0x86150000,
     PDB_DSA_VERIF_N = (\<lambda>n. of_nat n AND 0x7F),
     PDB_DSA_VERIF_L = (\<lambda>n. push_bit 7 (of_nat n AND 0x3FF)),
     DSA_VERIFY_DL = 0x86160000,
     PDB_SGT_PKSIGN_MSG = 0x08000000,
     PDB_SGT_PKSIGN_SIGN_C = 0x04000000,
     PDB_SGT_PKSIGN_SIGN_D = 0x02000000,
     PDB_SGT_PKVERIF_MSG = 0x08000000,
     PDB_SGT_PKVERIF_SIGN_C = 0x04000000,
     PDB_SGT_PKVERIF_SIGN_D = 0x02000000,
     alloc_desc = True,
     alloc_g = CAAM_NO_ERROR, alloc_p = CAAM_NO_ERROR, alloc_q = CAAM_NO_ERROR,
     alloc_x = CAAM_NO_ERROR, alloc_y = CAAM_NO_ERROR, alloc_tmp = CAAM_NO_ERROR,
     tmp_junk = [0xAA, 0xBB, 0xCC, 0xDD],
     virt_to_phys = (\<lambda>h. 0x80000000 + 0x100 * of_nat h),
     prime_status = CAAM_NO_ERROR,
     prime_g = [0, 0, 0, 2], prime_p = [0, 0, 0x01, 0x07], prime_q = [0, 0x0B],
     msg_reply = \<lparr>dr_ret = 0, dr_sgt_type = False, dr_paddr = 0x90000000\<rparr>,
     sign_c_reply = \<lparr>dr_ret = 0, dr_sgt_type = False, dr_paddr = 0x90001000\<rparr>,
     sign_d_reply = \<lparr>dr_ret = 0, dr_sgt_type = True, dr_paddr = 0x90001002\<rparr>,
     jr_status = CAAM_NO_ERROR, job_status = 0,
     dev_x = [0, 5], dev_y = [0, 0, 0, 0x20],
     bin2bn_x_ret = 0, bin2bn_y_ret = 0,
     job_status_to_tee_result = (\<lambda>st. TEE_ERROR_GENERIC)\<rparr>"

definition sys0 :: "32 word sys" where
  "sys0 = \<lparr>next_handle = 0, live = [], freed = [], calls = []\<rparr>"

definition key0 :: dsa_keypair where
  "key0 = \<lparr>dk_g = 2, dk_p = 0x0107, dk_q = 0x0B, dk_y = 0x20, dk_x = 5\<rparr>"

definition pub0 :: dsa_public_key where
  "pub0 = \<lparr>dpk_g = 2, dpk_p = 0x0107, dpk_q = 0x0B, dpk_y = 0x20\<rparr>"

definition sd0 :: "(dsa_keypair, 32 word) drvcrypt_sign_data" where
  "sd0 = \<lparr>sd_algo = 0, sd_key = key0, sd_size_sec = 2, sd_message_length = 20,
          sd_signature_length = 64\<rparr>"

definition sdv0 :: "(dsa_public_key, 32 word) drvcrypt_sign_data" where
  "sdv0 = \<lparr>sd_algo = 0, sd_key = pub0, sd_size_sec = 2, sd_message_length = 20,
           sd_signature_length = 4\<rparr>"

subsection \<open>The mapping of the job status\<close>

text \<open>
  Modelled from the spec: \<^verbatim>\<open>job_status_to_tee_result\<close>, which translates the status word of
  a job into a \<^verbatim>\<open>TEE_Result\<close>, is not in \<^verbatim>\<open>src/\<close>; the three operations only call it, and
  the model takes its answers from the environment.  The spec says of a job that the
  device rejected or failed that its status ``maps to a generic failure'', an outcome it
  keeps apart from ``SignatureInvalid''.  That mapping is the function below; an
  environment follows the spec at a status when its own mapping agrees with it there.
\<close>

definition job_status_to_tee_result_spec :: "u32 \<Rightarrow> TEE_Result" where
  "job_status_to_tee_result_spec status = TEE_ERROR_GENERIC"

section \<open>Properties of the DCP utilities\<close>

subsection \<open>Byte-level facts\<close>

lemma be_val_snoc: "be_val (xs @ [b]) = be_val xs * 256 + unat b"
  by (simp add: be_val_def)

lemma bit_byte_msb: "bit (byte_msb b) n = (bit b 7 \<and> n = 0)"
proof -
  have e: "(push_bit 7 1 :: u32) = 2 ^ 7" by simp
  have "bit (byte_msb b) n = (bit b (7 + n) \<and> n = 0)"
    unfolding byte_msb_def e
    by (simp only: bit_simps o_apply) auto
  then show ?thesis by auto
qed

lemma byte_msb_eq: "byte_msb b = of_bool (bit b 7)"
  by (rule bit_word_eqI) (auto simp add: bit_byte_msb bit_of_bool_iff)

lemma byte_msb_cases: "byte_msb b = 0 \<or> byte_msb b = 1"
  by (simp add: byte_msb_eq)

lemma unat_byte_msb: "unat (byte_msb b) = unat b div 128"
proof -
  have lt: "unat b < 256" using unsigned_less [of b] by simp
  have "bit b 7 = bit (unat b) 7" by (simp add: bit_unsigned_iff)
  also have "\<dots> = odd (unat b div 128)" by (simp add: bit_iff_odd)
  finally have "bit b 7 = (unat b div 128 = 1)" using lt
    by (auto elim!: oddE)
  then show ?thesis using lt unfolding byte_msb_eq
    by auto
qed

lemma low_byte_mask: "(0xFF::u32) = mask 8"
  by (simp add: mask_eq_exp_minus_1)

lemma shift_byte_no_carry: "shift_byte b 0 = push_bit 1 b"
  unfolding shift_byte_def Let_def low_byte_mask
  apply (simp only: refl if_False simp_thms)
  apply (rule bit_word_eqI)
  apply (auto simp only: bit_simps)
     apply simp_all
  done

lemma shift_byte_carry: "shift_byte b 1 = push_bit 1 b OR 1"
  unfolding shift_byte_def Let_def low_byte_mask
  apply (simp only: one_neq_zero if_True simp_thms)
  apply (rule bit_word_eqI)
  apply (auto simp only: bit_simps)
     apply simp_all
  done

lemma unat_push_bit1: "unat (push_bit 1 b :: u8) = (2 * unat b) mod 256"
proof -
  have "push_bit 1 b = 2 * b" by (simp add: push_bit_eq_mult)
  then show ?thesis by (simp add: unat_word_ariths mult.commute)
qed

lemma double_mod_256_not_255: "(2 * (x::nat)) mod 256 \<noteq> 255"
proof
  assume "(2 * x) mod 256 = 255"
  then have "odd ((2 * x) mod 256)" by simp
  moreover have "even ((2 * x) mod 256)" by (simp add: dvd_mod_iff)
  ultimately show False by simp
qed

lemma unat_shift_byte:
  assumes "msb = 0 \<or> msb = 1"
  shows "unat (shift_byte b msb) = (2 * unat b) mod 256 + unat msb"
proof -
  note p = unat_push_bit1 [of b]
  have ev: "even (push_bit 1 b)" by simp
  have "unat (push_bit 1 b OR 1) = (2 * unat b) mod 256 + 1"
  proof -
    have "push_bit 1 b OR 1 = push_bit 1 b + 1" using ev by (simp add: or_one_eq)
    moreover have "(2 * unat b) mod 256 + 1 < 256"
    proof -
      have "(2 * unat b) mod 256 < 256" by simp
      with double_mod_256_not_255 [of "unat b"] show ?thesis by linarith
    qed
    ultimately show ?thesis using p
      by (simp add: unat_word_ariths)
  qed
  with p assms show ?thesis by (auto simp: shift_byte_no_carry shift_byte_carry)
qed

lemma shl_arith:
  fixes A x m j :: nat
  assumes "x < 256" "m \<le> 1"
  shows "((2 * A + x div 128) mod 256 ^ j) * 256 + ((2 * x) mod 256 + m)
         = (2 * (A * 256 + x) + m) mod 256 ^ Suc j"
proof -
  define c where "c = (2 * x) mod 256 + m"
  define B where "B = 2 * A + x div 128"
  have dv: "(2 * x) div 256 = x div 128"
    using div_mult_mult1 [of 2 x 128] by simp
  have "(2 * x) mod 256 < 256" by simp
  with double_mod_256_not_255 [of x] have c: "c < 256"
    unfolding c_def using assms(2) by linarith
  have "256 * ((2 * x) div 256) + (2 * x) mod 256 = 2 * x" by (rule mult_div_mod_eq)
  then have "2 * x = 256 * (x div 128) + (2 * x) mod 256" unfolding dv by simp
  then have e: "2 * (A * 256 + x) + m = 256 * B + c"
    unfolding B_def c_def by (simp add: algebra_simps)
  have "(256 * B + c) mod (256 * 256 ^ j)
      = 256 * ((256 * B + c) div 256 mod 256 ^ j) + (256 * B + c) mod 256"
    by (rule mod_mult2_eq)
  also have "(256 * B + c) div 256 = B" using c by simp
  also have "(256 * B + c) mod 256 = c" using c by simp
  finally show ?thesis unfolding e by (simp add: B_def c_def mult.commute)
qed

subsection \<open>The loop of \<^verbatim>\<open>left_shift_buffer\<close>\<close>

text \<open>
  Invariant of the loop, by computation induction: when \<open>i\<close> bytes are done, the call
  still to run leaves the last \<open>i\<close> bytes of \<open>result\<close> alone and writes, into the first
  \<open>n - i\<close> bytes, the doubled value of the same bytes of \<open>input\<close> plus the carried bit.
\<close>

lemma left_shift_loop_spec:
  "length input = n \<Longrightarrow> length result = n \<Longrightarrow> i \<le> n \<Longrightarrow> msb = 0 \<or> msb = 1 \<Longrightarrow>
   length (left_shift_loop i n msb input result) = n
   \<and> drop (n - i) (left_shift_loop i n msb input result) = drop (n - i) result
   \<and> be_val (take (n - i) (left_shift_loop i n msb input result))
       = (2 * be_val (take (n - i) input) + unat msb) mod 256 ^ (n - i)"
proof (induction i n msb input result rule: left_shift_loop.induct)
  case (1 i n msb input result)
  show ?case
  proof (cases "i < n")
    case False
    with "1.prems" have "i = n" by simp
    then show ?thesis using "1.prems" by (simp add: be_val_def)
  next
    case True
    define j where "j = n - 1 - i"
    define r where "r = shift_byte (input ! j) msb"
    define out where
      "out = left_shift_loop (i + 1) n (byte_msb (input ! j)) input (result[j := r])"
    have j: "j < n" "n - i = Suc j" "n - (i + 1) = j" using True by (auto simp: j_def)
    have unf: "left_shift_loop i n msb input result = out"
      using True by (subst left_shift_loop.simps) (simp add: out_def j_def r_def)
    have IH: "length out = n \<and> drop j out = drop j (result[j := r])
       \<and> be_val (take j out)
           = (2 * be_val (take j input) + unat (byte_msb (input ! j))) mod 256 ^ j"
      using "1.IH" [OF True] "1.prems" True byte_msb_cases [of "input ! j"] j
      unfolding out_def [symmetric] j_def [symmetric] r_def [symmetric]
      by (simp del: left_shift_loop.simps)
    have dj: "drop j out = r # drop (Suc j) result"
    proof -
      have "j < length (result[j := r])" using j "1.prems" by simp
      then have "drop j (result[j := r])
          = (result[j := r]) ! j # drop (Suc j) (result[j := r])"
        by (rule Cons_nth_drop_Suc [symmetric])
      also have "(result[j := r]) ! j = r" using j "1.prems" by simp
      also have "drop (Suc j) (result[j := r]) = drop (Suc j) result" by simp
      finally show ?thesis using IH by simp
    qed
    have outj: "out ! j = r"
      by (rule nth_via_drop [OF dj])
    have d: "drop (Suc j) out = drop (Suc j) result"
    proof -
      have "drop (Suc j) out = tl (drop j out)" by (simp add: drop_Suc tl_drop)
      then show ?thesis using dj by simp
    qed
    have t: "take (Suc j) out = take j out @ [r]"
      using IH j outj by (simp add: take_Suc_conv_app_nth)
    have ti: "take (Suc j) input = take j input @ [input ! j]"
      using "1.prems" j by (simp add: take_Suc_conv_app_nth)
    have m: "unat msb \<le> 1" using "1.prems"(4) by auto
    have x: "unat (input ! j) < 256" using unsigned_less [of "input ! j"] by simp
    have "be_val (take (Suc j) out)
        = (2 * be_val (take (Suc j) input) + unat msb) mod 256 ^ Suc j"
      unfolding t ti be_val_snoc r_def unat_shift_byte [OF "1.prems"(4)]
      using IH shl_arith [OF x m, of "be_val (take j input)" j]
      by (simp only: unat_byte_msb)
    then show ?thesis unfolding unf using IH d j by (simp del: left_shift_loop.simps)
  qed
qed

text \<open>
  C9.  For two buffers of \<open>n\<close> bytes that do not overlap (\<open>input\<close> is only read, \<open>result\<close>
  only written), \<^verbatim>\<open>left_shift_buffer\<close> leaves in \<open>result\<close> the \<open>n\<close> bytes whose big-endian
  value is twice the big-endian value of \<open>input\<close>, modulo \<open>2 ^ (8 * n)\<close>.  Bit by bit: bit
  \<open>k\<close> of the result is bit \<open>k - 1\<close> of the input for \<open>0 < k < 8 * n\<close>, the lowest bit of
  the result is zero, and the highest bit of the input is dropped.
\<close>

theorem left_shift_buffer_doubles:
  assumes "length input = n" "length result = n"
  shows "length (left_shift_buffer input result n) = n
       \<and> be_val (left_shift_buffer input result n) = (2 * be_val input) mod 2 ^ (8 * n)
       \<and> (\<forall>k. bit (be_val (left_shift_buffer input result n)) k
               = (0 < k \<and> k < 8 * n \<and> bit (be_val input) (k - 1)))"
proof -
  let ?out = "left_shift_buffer input result n"
  have s: "length ?out = n \<and> be_val (take (n - 0) ?out)
      = (2 * be_val (take (n - 0) input) + unat (0 :: u32)) mod 256 ^ (n - 0)"
    unfolding left_shift_buffer_def
    using left_shift_loop_spec [of input n result 0 0] assms by blast
  then have l: "length ?out = n" by blast
  have p: "(256::nat) ^ n = 2 ^ (8 * n)" by (simp add: power_mult)
  have e1: "take (n - 0) ?out = ?out" using l by simp
  have e2: "take (n - 0) input = input" using assms by simp
  from s have "be_val (take (n - 0) ?out)
      = (2 * be_val (take (n - 0) input) + unat (0 :: u32)) mod 256 ^ (n - 0)" by blast
  then have v: "be_val ?out = (2 * be_val input) mod 2 ^ (8 * n)"
    unfolding e1 e2 by (simp add: p)
  have "bit (be_val ?out) k = (0 < k \<and> k < 8 * n \<and> bit (be_val input) (k - 1))" for k
  proof -
    have "be_val ?out = take_bit (8 * n) (2 * be_val input)"
      using v by (simp add: take_bit_eq_mod)
    then show ?thesis
      by (cases k) (auto simp add: bit_take_bit_iff bit_double_iff)
  qed
  with l v show ?thesis by simp
qed

lemma left_shift_buffer_example: "left_shift_buffer [0x81, 0xC0] [0, 0] 2 = [0x03, 0x80]"
  by code_simp

theorem left_shift_buffer_doubles_witness:
  "length [0x81, 0xC0 :: u8] = 2 \<and> length [0, 0 :: u8] = 2
   \<and> left_shift_buffer [0x81, 0xC0] [0, 0] 2 = [0x03, 0x80]
   \<and> be_val (left_shift_buffer [0x81, 0xC0] [0, 0] 2)
       = (2 * be_val [0x81, 0xC0]) mod 2 ^ (8 * 2)"
  using left_shift_buffer_doubles [of "[0x81, 0xC0]" 2 "[0, 0]"]
  by (simp add: left_shift_buffer_example)

subsection \<open>\<^verbatim>\<open>dcp_calloc_align_buf\<close> at a size near the top of the address space\<close>

text \<open>
  C10.  On a 32-bit build with 64-byte cache lines (\<open>ctr = 0x00040000\<close>), a request of
  \<open>0xFFFFFFF0\<close> bytes passes the first \<^verbatim>\<open>ADD_OVERFLOW\<close> (\<open>0xFFFFFFF8\<close>), then the unchecked
  addition inside \<^verbatim>\<open>ROUNDUP\<close> wraps to \<open>0\<close>, and the last \<^verbatim>\<open>ADD_OVERFLOW\<close> sees \<open>64 + 0\<close>.
  \<^verbatim>\<open>calloc(1, 64)\<close> succeeds, and the call returns \<^verbatim>\<open>TEE_SUCCESS\<close> with a recorded size
  of \<open>0xFFFFFFF0\<close> for a buffer that starts at the very end of a 64-byte block: none of
  its bytes is allocated.
\<close>

theorem dcp_calloc_align_buf_overflow:
  "dcp_calloc_align_buf (\<lambda>n. 0x1000) 0x00040000 ucast
      (Some \<lparr>ab_data = 0, ab_paddr = 0, ab_size = 0\<rparr>) (0xFFFFFFF0 :: 32 word)
   = (TEE_SUCCESS,
      Some \<lparr>ab_data = 0x1040, ab_paddr = 0x1040, ab_size = 0xFFFFFFF0\<rparr>,
      [\<lparr>hdr_addr = 0x1000, hdr_size = 64\<rparr>])
   \<and> usable_bytes (0x1040 :: 32 word) \<lparr>hdr_addr = 0x1000, hdr_size = 64\<rparr> = 0"
  by (simp add: dcp_calloc_align_buf_def dcp_alloc_memalign_def ADD_OVERFLOW_def
      MEM_HDR_SIZE_def sizeof_ptr_def ROUNDUP_def read_cacheline_size_def CTR_WORD_SIZE_def
      CTR_DMINLINE_SHIFT_def CTR_DMINLINE_MASK_def Let_def TEE_SUCCESS_def usable_bytes_def)

section \<open>Properties of the CAAM DSA driver\<close>

subsection \<open>Big-endian encoding\<close>

declare bn_bytes.simps [simp del] crypto_bignum_num_bytes.simps [simp del]

lemma length_bn_bytes: "length (bn_bytes n) = crypto_bignum_num_bytes n"
proof (induction n rule: bn_bytes.induct)
  case (1 n)
  then show ?case
    by (subst bn_bytes.simps, subst crypto_bignum_num_bytes.simps) simp
qed

lemma be_val_append: "be_val (xs @ ys) = be_val xs * 256 ^ length ys + be_val ys"
proof (induction ys rule: rev_induct)
  case Nil
  then show ?case by (simp add: be_val_def)
next
  case (snoc y ys)
  have "be_val (xs @ ys @ [y]) = be_val ((xs @ ys) @ [y])" by simp
  also have "\<dots> = be_val (xs @ ys) * 256 + unat y" by (rule be_val_snoc)
  finally show ?case using snoc by (simp add: be_val_snoc algebra_simps)
qed

lemma be_val_zeros: "be_val (replicate k 0) = 0"
  by (induction k) (simp_all add: be_val_def)

lemma be_val_bn_bytes: "be_val (bn_bytes n) = n"
proof (induction n rule: bn_bytes.induct)
  case (1 n)
  show ?case
  proof (cases "n = 0")
    case True
    then show ?thesis by (subst bn_bytes.simps) (simp add: be_val_def)
  next
    case False
    have "unat (of_nat (n mod 256) :: u8) = n mod 256"
      by (simp add: unat_of_nat)
    with False 1 show ?thesis
      by (subst bn_bytes.simps) (simp add: be_val_snoc)
  qed
qed

lemma bn2bin_calloc:
  "crypto_bignum_bn2bin v (replicate W 0) (int W - int (crypto_bignum_num_bytes v))
   = (if crypto_bignum_num_bytes v \<le> W
      then Some (replicate (W - crypto_bignum_num_bytes v) 0 @ bn_bytes v) else None)"
  by (auto simp add: crypto_bignum_bn2bin_def buf_write_def length_bn_bytes nat_diff_distrib' )

lemma bn2bin_calloc_word:
  "crypto_bignum_bn2bin v (replicate (unat l) 0) (uint l - int (crypto_bignum_num_bytes v))
   = (if crypto_bignum_num_bytes v \<le> unat l
      then Some (replicate (unat l - crypto_bignum_num_bytes v) 0 @ bn_bytes v) else None)"
  using bn2bin_calloc [of v "unat l"] by simp

lemma right_justified_pad:
  "crypto_bignum_num_bytes v \<le> W \<Longrightarrow>
   right_justified W v (replicate (W - crypto_bignum_num_bytes v) 0 @ bn_bytes v)"
  by (simp add: right_justified_def length_bn_bytes crypto_bignum_bin2bn_def be_val_append
      be_val_zeros be_val_bn_bytes)

lemma owns_refl: "owns s s {#}"
  by (simp add: owns_def)

lemma owns_alloc:
  "owns s0 s M \<Longrightarrow> owns s0 (s\<lparr>next_handle := Suc (next_handle s), live := next_handle s # live s\<rparr>)
      (add_mset (next_handle s) M)"
  by (auto simp add: owns_def simp del: mset_upt)

lemma owns_calls: "owns s0 (s\<lparr>calls := c\<rparr>) M = owns s0 s M"
  by (simp add: owns_def)

lemma calloc_buf_ok:
  "caam_calloc_buf CAAM_NO_ERROR phys buf sz s =
     (CAAM_NO_ERROR,
      \<lparr>cb_data = Some (next_handle s), cb_bytes = replicate (unat sz) 0, cb_length = sz,
       cb_paddr = phys (next_handle s)\<rparr>,
      s\<lparr>next_handle := Suc (next_handle s), live := next_handle s # live s\<rparr>)"
  by (simp add: caam_calloc_buf_def caam_alloc_def)

lemma calloc_buf_fail:
  "ans \<noteq> CAAM_NO_ERROR \<Longrightarrow> caam_calloc_buf ans phys buf sz s = (ans, buf, s)"
  by (simp add: caam_calloc_buf_def)

subsection \<open>The exit sequences\<close>

lemma free_list_Nil: "free_list [] s = s"
  by (simp add: free_list_def)

lemma free_list_append: "free_list (xs @ ys) s = free_list ys (free_list xs s)"
  by (simp add: free_list_def)

lemma free_list_fields:
  "next_handle (free_list hs s) = next_handle s \<and> calls (free_list hs s) = calls s
   \<and> freed (free_list hs s) = rev hs @ freed s
   \<and> live (free_list hs s) = fold remove1 hs (live s)"
  by (induction hs arbitrary: s) (simp_all add: free_list_def caam_free_def)

lemma fold_remove1_all: "mset hs = mset xs \<Longrightarrow> fold remove1 hs (xs @ L) = L"
proof (induction hs arbitrary: xs)
  case Nil
  then show ?case by simp
next
  case (Cons h hs)
  then have "h \<in> set xs" by (metis list.set_intros(1) mset_eq_setD)
  then have a: "remove1 h (xs @ L) = remove1 h xs @ L" by (simp add: remove1_append)
  have "mset hs = mset (remove1 h xs)" using Cons.prems by (metis mset_remove1 add_mset_remove_trivial mset.simps(2))
  then show ?case using Cons.IH a by simp
qed

lemma free_list_owns:
  assumes "owns s0 s (mset hs)"
  shows "live (free_list hs s) = live s0
       \<and> mset (freed (free_list hs s)) = mset (freed s0) + mset [next_handle s0..<next_handle s]
       \<and> next_handle (free_list hs s) = next_handle s
       \<and> calls (free_list hs s) = calls s"
proof -
  from assms have l: "live s = rev [next_handle s0..<next_handle s] @ live s0"
    and f: "freed s = freed s0" and m: "mset hs = mset [next_handle s0..<next_handle s]"
    by (simp_all add: owns_def del: mset_upt)
  have "mset hs = mset (rev [next_handle s0..<next_handle s])" using m by (simp del: mset_upt)
  then have "fold remove1 hs (live s) = live s0" unfolding l by (rule fold_remove1_all)
  then show ?thesis using free_list_fields [of hs s] f m by (simp del: mset_upt)
qed

lemma caam_free_buf_eq:
  "snd (caam_free_buf b s) = free_list (held_opt (cb_data b)) s"
  by (simp add: caam_free_buf_def held_opt_def free_list_def split: option.splits)

lemma caam_free_desc_eq:
  "snd (caam_free_desc d s) = free_list (held_desc d) s"
  by (simp add: caam_free_desc_def held_desc_def free_list_def split: option.splits)

lemma caam_dmaobj_free_eq:
  "snd (caam_dmaobj_free ob s) = free_list (held_opt (dm_priv ob)) s"
  by (simp add: caam_dmaobj_free_def held_opt_def free_list_def split: option.splits)

lemma do_keypair_free_eq:
  "snd (do_keypair_free k s) = free_list (held_key k) s"
  unfolding do_keypair_free_def held_key_def free_list_append
  by (simp add: caam_free_buf_eq [symmetric] split: prod.splits)

lemma exit_gen_keypair_eq:
  "snd (exit_gen_keypair lc s) = free_list (held_desc (lc_desc lc) @ held_key (lc_key lc)) s"
  unfolding exit_gen_keypair_def free_list_append
  by (simp add: caam_free_desc_eq [symmetric] do_keypair_free_eq [symmetric] split: prod.splits)

lemma exit_sign_eq:
  "snd (exit_sign lc s) = free_list (held_desc (lc_desc lc) @ held_key (lc_key lc)
      @ held_opt (dm_priv (lc_msg lc)) @ held_opt (dm_priv (lc_sign_c lc))
      @ held_opt (dm_priv (lc_sign_d lc))) s"
  unfolding exit_sign_def free_list_append
  by (simp add: caam_free_desc_eq [symmetric] do_keypair_free_eq [symmetric]
      caam_dmaobj_free_eq [symmetric] split: prod.splits)

lemma exit_verify_eq:
  "snd (exit_verify lc s) = free_list (held_desc (lc_desc lc) @ held_key (lc_key lc)
      @ held_opt (cb_data (lc_tmp lc))
      @ held_opt (dm_priv (lc_msg lc)) @ held_opt (dm_priv (lc_sign_c lc))
      @ held_opt (dm_priv (lc_sign_d lc))) s"
  unfolding exit_verify_def free_list_append
  by (simp add: caam_free_desc_eq [symmetric] do_keypair_free_eq [symmetric]
      caam_dmaobj_free_eq [symmetric] caam_free_buf_eq [symmetric] split: prod.splits)

lemma owns_trans:
  assumes "owns s0 s M" "owns s s' M'"
  shows "owns s0 s' (M + M')"
proof -
  from assms have le: "next_handle s0 \<le> next_handle s" "next_handle s \<le> next_handle s'"
    by (simp_all add: owns_def)
  then have u: "[next_handle s0..<next_handle s']
      = [next_handle s0..<next_handle s] @ [next_handle s..<next_handle s']"
    by (metis le_Suc_ex upt_add_eq_append)
  show ?thesis using assms le unfolding owns_def u by (simp del: mset_upt)
qed

lemma case_option_SomeE:
  assumes "(case x of None \<Rightarrow> None | Some v \<Rightarrow> f v) = Some y"
  obtains v where "x = Some v" "f v = Some y"
  using assms by (cases x) auto

lemmas init_defs = locals_init_def caam_dsa_keypair_init_def caambuf_init_def caamdmaobj_init_def

subsection \<open>Key conversion\<close>

lemma held_key_empty:
  "held_key k = [] \<longleftrightarrow> cb_data (kp_g k) = None \<and> cb_data (kp_p k) = None
      \<and> cb_data (kp_q k) = None \<and> cb_data (kp_x k) = None \<and> cb_data (kp_y k) = None"
  by (auto simp add: held_key_def held_opt_def split: option.splits)

lemma keypriv_conv_props:
  assumes r: "do_keypriv_conv env outkey inkey l n s = Some (st, k, s')"
  shows "calls s' = calls s
       \<and> (st = CAAM_NO_ERROR \<or> st = CAAM_OUT_MEMORY)
       \<and> (st = CAAM_NO_ERROR \<longrightarrow>
            right_justified (unat l) (dk_g inkey) (cb_bytes (kp_g k))
          \<and> right_justified (unat l) (dk_p inkey) (cb_bytes (kp_p k))
          \<and> right_justified (unat n) (dk_q inkey) (cb_bytes (kp_q k))
          \<and> right_justified (unat n) (dk_x inkey) (cb_bytes (kp_x k))
          \<and> kp_y k = kp_y outkey)
       \<and> (cb_data (kp_g outkey) = None \<and> cb_data (kp_p outkey) = None
            \<and> cb_data (kp_q outkey) = None \<and> cb_data (kp_x outkey) = None
            \<and> cb_data (kp_y outkey) = None \<longrightarrow> owns s s' (mset (held_key k)))"
proof -
  let ?fg = "crypto_bignum_num_bytes (dk_g inkey) \<le> unat l"
  let ?fp = "crypto_bignum_num_bytes (dk_p inkey) \<le> unat l"
  let ?fq = "crypto_bignum_num_bytes (dk_q inkey) \<le> unat n"
  let ?fx = "crypto_bignum_num_bytes (dk_x inkey) \<le> unat n"
  note dd = do_keypriv_conv_def calloc_buf_ok calloc_buf_fail bn2bin_calloc_word Let_def
    held_key_def held_opt_def
  note o1 = owns_alloc [OF owns_refl [of s]]
  note o2 = owns_alloc [OF o1]
  note o3 = owns_alloc [OF o2]
  note o4 = owns_alloc [OF o3]
  consider
      (g) "alloc_g env \<noteq> CAAM_NO_ERROR"
    | (gf) "alloc_g env = CAAM_NO_ERROR" "\<not> ?fg"
    | (p) "alloc_g env = CAAM_NO_ERROR" ?fg "alloc_p env \<noteq> CAAM_NO_ERROR"
    | (pf) "alloc_g env = CAAM_NO_ERROR" ?fg "alloc_p env = CAAM_NO_ERROR" "\<not> ?fp"
    | (q) "alloc_g env = CAAM_NO_ERROR" ?fg "alloc_p env = CAAM_NO_ERROR" ?fp
          "alloc_q env \<noteq> CAAM_NO_ERROR"
    | (qf) "alloc_g env = CAAM_NO_ERROR" ?fg "alloc_p env = CAAM_NO_ERROR" ?fp
          "alloc_q env = CAAM_NO_ERROR" "\<not> ?fq"
    | (x) "alloc_g env = CAAM_NO_ERROR" ?fg "alloc_p env = CAAM_NO_ERROR" ?fp
          "alloc_q env = CAAM_NO_ERROR" ?fq "alloc_x env \<noteq> CAAM_NO_ERROR"
    | (xf) "alloc_g env = CAAM_NO_ERROR" ?fg "alloc_p env = CAAM_NO_ERROR" ?fp
          "alloc_q env = CAAM_NO_ERROR" ?fq "alloc_x env = CAAM_NO_ERROR" "\<not> ?fx"
    | (ok) "alloc_g env = CAAM_NO_ERROR" ?fg "alloc_p env = CAAM_NO_ERROR" ?fp
          "alloc_q env = CAAM_NO_ERROR" ?fq "alloc_x env = CAAM_NO_ERROR" ?fx
    by argo
  then show ?thesis
  proof cases
    case g
    with r show ?thesis by (auto simp add: dd owns_refl)
  next
    case gf
    with r show ?thesis by (simp add: dd)
  next
    case p
    with r o1 show ?thesis by (auto simp add: dd)
  next
    case pf
    with r show ?thesis by (simp add: dd)
  next
    case q
    with r o2 show ?thesis by (auto simp add: dd add_mset_commute)
  next
    case qf
    with r show ?thesis by (simp add: dd)
  next
    case x
    with r o3 show ?thesis by (auto simp add: dd add_mset_commute)
  next
    case xf
    with r show ?thesis by (simp add: dd)
  next
    case ok
    with r o4 show ?thesis by (auto simp add: dd right_justified_pad add_mset_commute)
  qed
qed

lemma keypub_conv_props:
  assumes r: "do_keypub_conv env outkey inkey l n s = Some (st, k, s')"
  shows "calls s' = calls s
       \<and> (st = CAAM_NO_ERROR \<or> st = CAAM_OUT_MEMORY)
       \<and> (st = CAAM_NO_ERROR \<longrightarrow>
            right_justified (unat l) (dpk_g inkey) (cb_bytes (kp_g k))
          \<and> right_justified (unat l) (dpk_p inkey) (cb_bytes (kp_p k))
          \<and> right_justified (unat n) (dpk_q inkey) (cb_bytes (kp_q k))
          \<and> right_justified (unat l) (dpk_y inkey) (cb_bytes (kp_y k))
          \<and> kp_x k = kp_x outkey)
       \<and> (cb_data (kp_g outkey) = None \<and> cb_data (kp_p outkey) = None
            \<and> cb_data (kp_q outkey) = None \<and> cb_data (kp_x outkey) = None
            \<and> cb_data (kp_y outkey) = None \<longrightarrow> owns s s' (mset (held_key k)))"
proof -
  let ?fg = "crypto_bignum_num_bytes (dpk_g inkey) \<le> unat l"
  let ?fp = "crypto_bignum_num_bytes (dpk_p inkey) \<le> unat l"
  let ?fq = "crypto_bignum_num_bytes (dpk_q inkey) \<le> unat n"
  let ?fy = "crypto_bignum_num_bytes (dpk_y inkey) \<le> unat l"
  note dd = do_keypub_conv_def calloc_buf_ok calloc_buf_fail bn2bin_calloc_word Let_def
    held_key_def held_opt_def
  note o1 = owns_alloc [OF owns_refl [of s]]
  note o2 = owns_alloc [OF o1]
  note o3 = owns_alloc [OF o2]
  note o4 = owns_alloc [OF o3]
  consider
      (g) "alloc_g env \<noteq> CAAM_NO_ERROR"
    | (gf) "alloc_g env = CAAM_NO_ERROR" "\<not> ?fg"
    | (p) "alloc_g env = CAAM_NO_ERROR" ?fg "alloc_p env \<noteq> CAAM_NO_ERROR"
    | (pf) "alloc_g env = CAAM_NO_ERROR" ?fg "alloc_p env = CAAM_NO_ERROR" "\<not> ?fp"
    | (q) "alloc_g env = CAAM_NO_ERROR" ?fg "alloc_p env = CAAM_NO_ERROR" ?fp
          "alloc_q env \<noteq> CAAM_NO_ERROR"
    | (qf) "alloc_g env = CAAM_NO_ERROR" ?fg "alloc_p env = CAAM_NO_ERROR" ?fp
          "alloc_q env = CAAM_NO_ERROR" "\<not> ?fq"
    | (y) "alloc_g env = CAAM_NO_ERROR" ?fg "alloc_p env = CAAM_NO_ERROR" ?fp
          "alloc_q env = CAAM_NO_ERROR" ?fq "alloc_y env \<noteq> CAAM_NO_ERROR"
    | (yf) "alloc_g env = CAAM_NO_ERROR" ?fg "alloc_p env = CAAM_NO_ERROR" ?fp
          "alloc_q env = CAAM_NO_ERROR" ?fq "alloc_y env = CAAM_NO_ERROR" "\<not> ?fy"
    | (ok) "alloc_g env = CAAM_NO_ERROR" ?fg "alloc_p env = CAAM_NO_ERROR" ?fp
          "alloc_q env = CAAM_NO_ERROR" ?fq "alloc_y env = CAAM_NO_ERROR" ?fy
    by argo
  then show ?thesis
  proof cases
    case g
    with r show ?thesis by (auto simp add: dd owns_refl)
  next
    case gf
    with r show ?thesis by (simp add: dd)
  next
    case p
    with r o1 show ?thesis by (auto simp add: dd)
  next
    case pf
    with r show ?thesis by (simp add: dd)
  next
    case q
    with r o2 show ?thesis by (auto simp add: dd add_mset_commute)
  next
    case qf
    with r show ?thesis by (simp add: dd)
  next
    case y
    with r o3 show ?thesis by (auto simp add: dd add_mset_commute)
  next
    case yf
    with r show ?thesis by (simp add: dd)
  next
    case ok
    with r o4 show ?thesis by (auto simp add: dd right_justified_pad add_mset_commute)
  qed
qed

text \<open>When the buffers are allocated and every scalar fits, the conversions complete.\<close>

lemma keypriv_conv_total:
  assumes "alloc_g env = CAAM_NO_ERROR" "alloc_p env = CAAM_NO_ERROR"
          "alloc_q env = CAAM_NO_ERROR" "alloc_x env = CAAM_NO_ERROR"
      and "crypto_bignum_num_bytes (dk_g inkey) \<le> unat l"
          "crypto_bignum_num_bytes (dk_p inkey) \<le> unat l"
          "crypto_bignum_num_bytes (dk_q inkey) \<le> unat n"
          "crypto_bignum_num_bytes (dk_x inkey) \<le> unat n"
  shows "\<exists>k s'. do_keypriv_conv env outkey inkey l n s = Some (CAAM_NO_ERROR, k, s')"
  using assms by (simp add: do_keypriv_conv_def calloc_buf_ok bn2bin_calloc_word Let_def)

lemma keypub_conv_total:
  assumes "alloc_g env = CAAM_NO_ERROR" "alloc_p env = CAAM_NO_ERROR"
          "alloc_q env = CAAM_NO_ERROR" "alloc_y env = CAAM_NO_ERROR"
      and "crypto_bignum_num_bytes (dpk_g inkey) \<le> unat l"
          "crypto_bignum_num_bytes (dpk_p inkey) \<le> unat l"
          "crypto_bignum_num_bytes (dpk_q inkey) \<le> unat n"
          "crypto_bignum_num_bytes (dpk_y inkey) \<le> unat l"
  shows "\<exists>k s'. do_keypub_conv env outkey inkey l n s = Some (CAAM_NO_ERROR, k, s')"
  using assms by (simp add: do_keypub_conv_def calloc_buf_ok bn2bin_calloc_word Let_def)

subsection \<open>Domain parameters\<close>

lemma length_dev_write: "length (dev_write buf out) = length buf"
  by (simp add: dev_write_def)

lemma domain_params_props:
  assumes r: "get_keypair_domain_params env outkey key l n s = Some (ret, k, key', s')"
  shows "(ret = TEE_ERROR_OUT_OF_MEMORY \<longleftrightarrow>
            \<not> (alloc_q env = CAAM_NO_ERROR \<and> alloc_g env = CAAM_NO_ERROR
               \<and> alloc_p env = CAAM_NO_ERROR))
       \<and> (ret = TEE_ERROR_OUT_OF_MEMORY \<longrightarrow> calls s' = calls s \<and> key' = key)
       \<and> (ret \<noteq> TEE_ERROR_OUT_OF_MEMORY
            \<and> crypto_bignum_num_bytes (dk_p key) \<noteq> 0 \<and> crypto_bignum_num_bytes (dk_q key) \<noteq> 0
            \<and> crypto_bignum_num_bytes (dk_g key) \<noteq> 0 \<longrightarrow>
            ret = TEE_SUCCESS \<and> calls s' = calls s \<and> key' = key
            \<and> right_justified (unat n) (dk_q key) (cb_bytes (kp_q k))
            \<and> right_justified (unat l) (dk_g key) (cb_bytes (kp_g k))
            \<and> right_justified (unat l) (dk_p key) (cb_bytes (kp_p k)))
       \<and> (ret \<noteq> TEE_ERROR_OUT_OF_MEMORY
            \<and> (crypto_bignum_num_bytes (dk_p key) = 0 \<or> crypto_bignum_num_bytes (dk_q key) = 0
               \<or> crypto_bignum_num_bytes (dk_g key) = 0) \<longrightarrow>
            calls s' = calls s @ [Prime_dsa_gen]
            \<and> (prime_status env \<noteq> CAAM_NO_ERROR \<longrightarrow> ret = TEE_ERROR_GENERIC \<and> key' = key)
            \<and> (prime_status env = CAAM_NO_ERROR \<longrightarrow>
                 ret = TEE_SUCCESS
                 \<and> cb_bytes (kp_q k) = dev_write (replicate (unat n) 0) (prime_q env)
                 \<and> cb_bytes (kp_g k) = dev_write (replicate (unat l) 0) (prime_g env)
                 \<and> cb_bytes (kp_p k) = dev_write (replicate (unat l) 0) (prime_p env)
                 \<and> key' = key\<lparr>dk_q := crypto_bignum_bin2bn (cb_bytes (kp_q k)),
                              dk_g := crypto_bignum_bin2bn (cb_bytes (kp_g k)),
                              dk_p := crypto_bignum_bin2bn (cb_bytes (kp_p k))\<rparr>))
       \<and> kp_x k = kp_x outkey \<and> kp_y k = kp_y outkey
       \<and> (calls s' = calls s \<or> calls s' = calls s @ [Prime_dsa_gen])
       \<and> (cb_data (kp_g outkey) = None \<and> cb_data (kp_p outkey) = None
            \<and> cb_data (kp_q outkey) = None \<longrightarrow>
            owns s s' (mset (held_opt (cb_data (kp_g k)) @ held_opt (cb_data (kp_p k))
                             @ held_opt (cb_data (kp_q k)))))"
proof -
  let ?zero = "crypto_bignum_num_bytes (dk_q key) = 0 \<or> crypto_bignum_num_bytes (dk_g key) = 0
      \<or> crypto_bignum_num_bytes (dk_p key) = 0"
  let ?fq = "crypto_bignum_num_bytes (dk_q key) \<le> unat n"
  let ?fg = "crypto_bignum_num_bytes (dk_g key) \<le> unat l"
  let ?fp = "crypto_bignum_num_bytes (dk_p key) \<le> unat l"
  note dd = get_keypair_domain_params_def calloc_buf_ok calloc_buf_fail bn2bin_calloc_word Let_def
    log_call_def TEE_ERROR_OUT_OF_MEMORY_def TEE_ERROR_GENERIC_def TEE_SUCCESS_def
    length_dev_write held_opt_def owns_calls add_mset_commute
  note o1 = owns_alloc [OF owns_refl [of s]]
  note o2 = owns_alloc [OF o1]
  note o3 = owns_alloc [OF o2]
  consider
      (q) "alloc_q env \<noteq> CAAM_NO_ERROR"
    | (g) "alloc_q env = CAAM_NO_ERROR" "alloc_g env \<noteq> CAAM_NO_ERROR"
    | (p) "alloc_q env = CAAM_NO_ERROR" "alloc_g env = CAAM_NO_ERROR"
          "alloc_p env \<noteq> CAAM_NO_ERROR"
    | (genfail) "alloc_q env = CAAM_NO_ERROR" "alloc_g env = CAAM_NO_ERROR"
          "alloc_p env = CAAM_NO_ERROR" ?zero "prime_status env \<noteq> CAAM_NO_ERROR"
    | (gen) "alloc_q env = CAAM_NO_ERROR" "alloc_g env = CAAM_NO_ERROR"
          "alloc_p env = CAAM_NO_ERROR" ?zero "prime_status env = CAAM_NO_ERROR"
    | (qf) "alloc_q env = CAAM_NO_ERROR" "alloc_g env = CAAM_NO_ERROR"
          "alloc_p env = CAAM_NO_ERROR" "\<not> ?zero" "\<not> ?fq"
    | (gf) "alloc_q env = CAAM_NO_ERROR" "alloc_g env = CAAM_NO_ERROR"
          "alloc_p env = CAAM_NO_ERROR" "\<not> ?zero" ?fq "\<not> ?fg"
    | (pf) "alloc_q env = CAAM_NO_ERROR" "alloc_g env = CAAM_NO_ERROR"
          "alloc_p env = CAAM_NO_ERROR" "\<not> ?zero" ?fq ?fg "\<not> ?fp"
    | (conv) "alloc_q env = CAAM_NO_ERROR" "alloc_g env = CAAM_NO_ERROR"
          "alloc_p env = CAAM_NO_ERROR" "\<not> ?zero" ?fq ?fg ?fp
    by argo
  then show ?thesis
  proof cases
    case q
    with r show ?thesis by (auto simp add: dd owns_refl)
  next
    case g
    with r o1 show ?thesis by (auto simp add: dd)
  next
    case p
    with r o2 show ?thesis by (auto simp add: dd)
  next
    case genfail
    with r o3 show ?thesis by (auto simp add: dd)
  next
    case gen
    with r o3 show ?thesis by (auto simp add: dd)
  next
    case qf
    with r show ?thesis by (simp add: dd)
  next
    case gf
    with r show ?thesis by (simp add: dd)
  next
    case pf
    with r show ?thesis by (simp add: dd)
  next
    case conv
    with r o3 show ?thesis by (auto simp add: dd right_justified_pad)
  qed
qed

subsection \<open>Descriptors\<close>

lemma desclen_header:
  assumes n: "n < 128"
  shows "unat (GET_JD_DESCLEN (DESC_HEADER_IDX (of_nat n) idx)) = n"
proof -
  have m: "(0x7F :: u32) = mask 7" by (simp add: mask_eq_exp_minus_1)
  have "GET_JD_DESCLEN (DESC_HEADER_IDX (of_nat n) idx) = take_bit 7 (of_nat n :: u32)"
    unfolding GET_JD_DESCLEN_def DESC_HEADER_IDX_def DESC_HDR_def m
    apply (rule bit_word_eqI)
    apply (simp only: bit_simps)
    apply auto
    done
  also have "\<dots> = of_nat (take_bit 7 n)" by (simp add: of_nat_take_bit)
  also have "take_bit 7 n = n" using n by (simp add: take_bit_nat_eq_self_iff)
  finally show ?thesis using n by (simp add: unat_of_nat)
qed

lemmas desc_defs = caam_desc_init_def caam_desc_add_word_def caam_desc_add_ptr_def ptr_words_def
  caam_desc_get_len_def caam_desc_update_hdr_def with_header_def Let_def

lemma keypair_gen_desc_eq:
  assumes "d_cap d = MAX_DESC_KEY_GEN env"
  shows "keypair_gen_desc env d k l n
           = Some (d\<lparr>d_words := with_header (generate_fields_spec env k l n)\<rparr>)
       \<and> length (with_header (generate_fields_spec env k l n)) \<le> MAX_DESC_KEY_GEN env"
  using assms
  by (cases "cfg_caam_64bit env")
     (simp_all add: keypair_gen_desc_def generate_fields_spec_def desc_defs MAX_DESC_KEY_GEN_def)

lemma sign_desc_eq:
  assumes "d_cap d = MAX_DESC_SIGN env" "flags = sign_sgt_flags env lc"
  shows "sign_desc env d lc flags mlen l n
           = Some (d\<lparr>d_words := with_header (sign_fields_spec env lc mlen l n)\<rparr>)
       \<and> length (with_header (sign_fields_spec env lc mlen l n)) \<le> MAX_DESC_SIGN env"
  using assms
  by (cases "cfg_caam_64bit env")
     (simp_all add: sign_desc_def sign_fields_spec_def desc_defs MAX_DESC_SIGN_def)

lemma verify_desc_eq:
  assumes "d_cap d = MAX_DESC_VERIFY env" "flags = verify_sgt_flags env lc"
  shows "verify_desc env d lc flags mlen l n
           = Some (d\<lparr>d_words := with_header (verify_fields_spec env lc mlen l n)\<rparr>)
       \<and> length (with_header (verify_fields_spec env lc mlen l n)) \<le> MAX_DESC_VERIFY env"
  using assms
  by (cases "cfg_caam_64bit env")
     (simp_all add: verify_desc_def verify_fields_spec_def desc_defs MAX_DESC_VERIFY_def)

subsection \<open>Submission\<close>

lemma or_flag: "(if c then x OR f else x) = x OR (if c then f else (0::u32))"
  by simp

lemmas dma_defs = caam_dmaobj_init_input_def caam_dmaobj_init_output_def caam_dmaobj_derive_def
  dmaobj_create_def caam_alloc_def log_call_def TEE_SUCCESS_def caam_jr_enqueue_def
  caam_dmaobj_copy_to_orig_def

lemma gen_submit_props:
  assumes r: "do_gen_keypair_submit env key d lc l n s = Some (ret, key', lc', s')"
      and c: "d_cap d = MAX_DESC_KEY_GEN env"
  shows "held_desc (lc_desc lc') = [d_handle d]
       \<and> held_key (lc_key lc') = held_key (lc_key lc)
       \<and> s' = s\<lparr>calls := calls s
               @ [Jr_enqueue (with_header (generate_fields_spec env (lc_key lc') l n))]\<rparr>
       \<and> (jr_status env \<noteq> CAAM_NO_ERROR \<longrightarrow>
            ret = job_status_to_tee_result env (job_status env) \<and> key' = key)"
proof -
  note dd = do_gen_keypair_submit_def keypair_gen_desc_eq [OF c] dma_defs Let_def
    held_desc_def held_key_def generate_fields_spec_def
  consider (fail) "jr_status env \<noteq> CAAM_NO_ERROR"
    | (x) "jr_status env = CAAM_NO_ERROR" "bin2bn_x_ret env \<noteq> 0"
    | (y) "jr_status env = CAAM_NO_ERROR" "bin2bn_x_ret env = 0" "bin2bn_y_ret env \<noteq> 0"
    | (ok) "jr_status env = CAAM_NO_ERROR" "bin2bn_x_ret env = 0" "bin2bn_y_ret env = 0"
    by argo
  then show ?thesis
  proof cases
    case fail
    with r show ?thesis by (auto simp add: dd)
  next
    case x
    with r show ?thesis by (auto simp add: dd)
  next
    case y
    with r show ?thesis by (auto simp add: dd)
  next
    case ok
    with r show ?thesis by (auto simp add: dd)
  qed
qed

lemma sign_submit_props:
  fixes sdata :: "(dsa_keypair, 'a::len word) drvcrypt_sign_data"
  defines "S \<equiv> sd_size_sec sdata"
  defines "cI \<equiv> Dmaobj_init_input (sd_message_length sdata)"
  defines "cO \<equiv> Dmaobj_init_output (sd_signature_length sdata) (ROUNDUP S 16 + S)"
  defines "cD \<equiv> Dmaobj_derive S (ROUNDUP S 16)"
  assumes r: "do_sign_submit env sdata d lc l n s = Some (ret, sdata', lc', s')"
      and c: "d_cap d = MAX_DESC_SIGN env"
      and dsc: "lc_desc lc = Some d"
      and e: "dm_priv (lc_msg lc) = None" "dm_priv (lc_sign_c lc) = None"
             "dm_priv (lc_sign_d lc) = None"
  shows "held_desc (lc_desc lc') = [d_handle d] \<and> lc_key lc' = lc_key lc
       \<and> owns s s' (mset (held_opt (dm_priv (lc_msg lc')) @ held_opt (dm_priv (lc_sign_c lc'))
                           @ held_opt (dm_priv (lc_sign_d lc'))))
       \<and> ((dr_ret (msg_reply env) \<noteq> 0 \<and> ret = dr_ret (msg_reply env) \<and> sdata' = sdata
             \<and> calls s' = calls s @ [cI])
          \<or> (dr_ret (msg_reply env) = 0 \<and> dr_ret (sign_c_reply env) \<noteq> 0
             \<and> ret = dr_ret (sign_c_reply env) \<and> sdata' = sdata \<and> calls s' = calls s @ [cI, cO])
          \<or> (dr_ret (msg_reply env) = 0 \<and> dr_ret (sign_c_reply env) = 0
             \<and> dr_ret (sign_d_reply env) \<noteq> 0
             \<and> ret = dr_ret (sign_d_reply env) \<and> sdata' = sdata
             \<and> calls s' = calls s @ [cI, cO, cD])
          \<or> (dr_ret (msg_reply env) = 0 \<and> dr_ret (sign_c_reply env) = 0
             \<and> dr_ret (sign_d_reply env) = 0 \<and> jr_status env \<noteq> CAAM_NO_ERROR
             \<and> ret = job_status_to_tee_result env (job_status env) \<and> sdata' = sdata
             \<and> calls s' = calls s @ [cI, cO, cD,
                  Jr_enqueue (with_header (sign_fields_spec env lc' (sd_message_length sdata) l n))])
          \<or> (dr_ret (msg_reply env) = 0 \<and> dr_ret (sign_c_reply env) = 0
             \<and> dr_ret (sign_d_reply env) = 0 \<and> jr_status env = CAAM_NO_ERROR
             \<and> ret = TEE_SUCCESS \<and> sdata' = sdata\<lparr>sd_signature_length := 2 * S\<rparr>
             \<and> calls s' = calls s @ [cI, cO, cD,
                  Jr_enqueue (with_header (sign_fields_spec env lc' (sd_message_length sdata) l n)),
                  Dmaobj_copy_to_orig (2 * S)]))"
proof -
  note fl = sign_desc_eq [OF c] or.assoc
  note dd = do_sign_submit_def dma_defs Let_def held_desc_def held_opt_def
    cI_def cO_def cD_def S_def owns_calls
  note o1 = owns_alloc [OF owns_refl [of s]]
  note o2 = owns_alloc [OF o1]
  note o3 = owns_alloc [OF o2]
  consider (m) "dr_ret (msg_reply env) \<noteq> 0"
    | (sc) "dr_ret (msg_reply env) = 0" "dr_ret (sign_c_reply env) \<noteq> 0"
    | (sdd) "dr_ret (msg_reply env) = 0" "dr_ret (sign_c_reply env) = 0"
          "dr_ret (sign_d_reply env) \<noteq> 0"
    | (fail) "dr_ret (msg_reply env) = 0" "dr_ret (sign_c_reply env) = 0"
          "dr_ret (sign_d_reply env) = 0" "jr_status env \<noteq> CAAM_NO_ERROR"
    | (ok) "dr_ret (msg_reply env) = 0" "dr_ret (sign_c_reply env) = 0"
          "dr_ret (sign_d_reply env) = 0" "jr_status env = CAAM_NO_ERROR"
    by argo
  then show ?thesis
  proof cases
    case m
    with r dsc e show ?thesis by (auto simp add: dd owns_refl)
  next
    case sc
    with r dsc e o1 show ?thesis by (auto simp add: dd)
  next
    case sdd
    with r dsc e o2 show ?thesis by (auto simp add: dd add_mset_commute)
  next
    case fail
    with r dsc e o3 show ?thesis
      by (auto simp add: dd or_flag fl sign_fields_spec_def sign_sgt_flags_def add_mset_commute)
  next
    case ok
    with r dsc e o3 show ?thesis
      by (auto simp add: dd or_flag fl sign_fields_spec_def sign_sgt_flags_def add_mset_commute)
  qed
qed

lemma owns_upd:
  "owns s0 (s\<lparr>calls := c, next_handle := n, live := l\<rparr>) M
     = owns s0 (s\<lparr>next_handle := n, live := l\<rparr>) M"
  by (simp add: owns_def)

lemma verify_submit_props:
  fixes sdata :: "(dsa_public_key, 'a::len word) drvcrypt_sign_data"
  defines "S \<equiv> sd_size_sec sdata"
  defines "cI \<equiv> Dmaobj_init_input (sd_message_length sdata)"
  defines "cC \<equiv> Dmaobj_init_input (sd_signature_length sdata)"
  defines "cD \<equiv> Dmaobj_derive S S"
  assumes r: "do_verify_submit env sdata d lc l n s = Some (ret, lc', s')"
      and c: "d_cap d = MAX_DESC_VERIFY env"
      and dsc: "lc_desc lc = Some d"
      and e: "dm_priv (lc_msg lc) = None" "dm_priv (lc_sign_c lc) = None"
             "dm_priv (lc_sign_d lc) = None" "cb_data (lc_tmp lc) = None"
  shows "held_desc (lc_desc lc') = [d_handle d] \<and> lc_key lc' = lc_key lc
       \<and> owns s s' (mset (held_opt (cb_data (lc_tmp lc')) @ held_opt (dm_priv (lc_msg lc'))
                           @ held_opt (dm_priv (lc_sign_c lc'))
                           @ held_opt (dm_priv (lc_sign_d lc'))))
       \<and> ((dr_ret (msg_reply env) \<noteq> 0 \<and> ret = dr_ret (msg_reply env)
             \<and> calls s' = calls s @ [cI])
          \<or> (dr_ret (msg_reply env) = 0 \<and> dr_ret (sign_c_reply env) \<noteq> 0
             \<and> ret = dr_ret (sign_c_reply env) \<and> calls s' = calls s @ [cI, cC])
          \<or> (dr_ret (msg_reply env) = 0 \<and> dr_ret (sign_c_reply env) = 0
             \<and> dr_ret (sign_d_reply env) \<noteq> 0
             \<and> ret = dr_ret (sign_d_reply env) \<and> calls s' = calls s @ [cI, cC, cD])
          \<or> (dr_ret (msg_reply env) = 0 \<and> dr_ret (sign_c_reply env) = 0
             \<and> dr_ret (sign_d_reply env) = 0 \<and> alloc_tmp env \<noteq> CAAM_NO_ERROR
             \<and> ret = TEE_ERROR_OUT_OF_MEMORY \<and> calls s' = calls s @ [cI, cC, cD])
          \<or> (dr_ret (msg_reply env) = 0 \<and> dr_ret (sign_c_reply env) = 0
             \<and> dr_ret (sign_d_reply env) = 0 \<and> alloc_tmp env = CAAM_NO_ERROR
             \<and> calls s' = calls s @ [cI, cC, cD,
                  Jr_enqueue (with_header (verify_fields_spec env lc' (sd_message_length sdata) l n))]
             \<and> ((jr_status env = CAAM_JOB_STATUS \<and> job_status env = 0
                   \<and> ret = TEE_ERROR_SIGNATURE_INVALID)
                \<or> (\<not> (jr_status env = CAAM_JOB_STATUS \<and> job_status env = 0)
                   \<and> jr_status env \<noteq> CAAM_NO_ERROR
                   \<and> ret = job_status_to_tee_result env (job_status env))
                \<or> (jr_status env = CAAM_NO_ERROR \<and> ret = TEE_SUCCESS))))"
proof -
  note fl = verify_desc_eq [OF c] or.assoc or_flag verify_fields_spec_def verify_sgt_flags_def
  note dd = do_verify_submit_def dma_defs Let_def held_desc_def held_opt_def
    cI_def cC_def cD_def S_def owns_calls owns_upd caam_alloc_align_buf_def add_mset_commute
  note o1 = owns_alloc [OF owns_refl [of s]]
  note o2 = owns_alloc [OF o1]
  note o3 = owns_alloc [OF o2]
  note o4 = owns_alloc [OF o3]
  consider (m) "dr_ret (msg_reply env) \<noteq> 0"
    | (sc) "dr_ret (msg_reply env) = 0" "dr_ret (sign_c_reply env) \<noteq> 0"
    | (sdd) "dr_ret (msg_reply env) = 0" "dr_ret (sign_c_reply env) = 0"
          "dr_ret (sign_d_reply env) \<noteq> 0"
    | (tmp) "dr_ret (msg_reply env) = 0" "dr_ret (sign_c_reply env) = 0"
          "dr_ret (sign_d_reply env) = 0" "alloc_tmp env \<noteq> CAAM_NO_ERROR"
    | (inv) "dr_ret (msg_reply env) = 0" "dr_ret (sign_c_reply env) = 0"
          "dr_ret (sign_d_reply env) = 0" "alloc_tmp env = CAAM_NO_ERROR"
          "jr_status env = CAAM_JOB_STATUS" "job_status env = 0"
    | (fail) "dr_ret (msg_reply env) = 0" "dr_ret (sign_c_reply env) = 0"
          "dr_ret (sign_d_reply env) = 0" "alloc_tmp env = CAAM_NO_ERROR"
          "\<not> (jr_status env = CAAM_JOB_STATUS \<and> job_status env = 0)"
          "jr_status env \<noteq> CAAM_NO_ERROR"
    | (ok) "dr_ret (msg_reply env) = 0" "dr_ret (sign_c_reply env) = 0"
          "dr_ret (sign_d_reply env) = 0" "alloc_tmp env = CAAM_NO_ERROR"
          "jr_status env = CAAM_NO_ERROR"
    by argo
  then show ?thesis
  proof cases
    case m
    with r dsc e show ?thesis by (auto simp add: dd owns_refl)
  next
    case sc
    with r dsc e o1 show ?thesis by (auto simp add: dd)
  next
    case sdd
    with r dsc e o2 show ?thesis by (auto simp add: dd)
  next
    case tmp
    with r dsc e o3 show ?thesis by (auto simp add: dd)
  next
    case inv
    with r dsc e o4 show ?thesis by (auto simp add: dd fl)
  next
    case fail
    with r dsc e o4 show ?thesis by (auto simp add: dd fl)
  next
    case ok
    with r dsc e o4 show ?thesis by (auto simp add: dd fl)
  qed
qed

subsection \<open>The bodies of the three operations\<close>

lemma gen_body_props:
  fixes l_bits n_bits :: "'a::len word"
  defines "L \<equiv> l_bits div 8"
  defines "N \<equiv> n_bits div 8"
  assumes r: "do_gen_keypair_body env key l_bits n_bits locals_init s = Some (ret, key', lc, s')"
  shows "owns s s' (mset (held_desc (lc_desc lc) @ held_key (lc_key lc)))
       \<and> (calls s' = calls s \<or> calls s' = calls s @ [Prime_dsa_gen]
          \<or> calls s' = calls s @ [Jr_enqueue (with_header (generate_fields_spec env (lc_key lc) L N))]
          \<or> calls s' = calls s @ [Prime_dsa_gen,
               Jr_enqueue (with_header (generate_fields_spec env (lc_key lc) L N))])"
proof -
  define h where "h = next_handle s"
  define d0 where "d0 = \<lparr>d_handle = h, d_cap = MAX_DESC_KEY_GEN env, d_words = []\<rparr>"
  define k0 :: "'a word caam_dsa_keypair" where "k0 = caam_dsa_keypair_init
      \<lparr>kp_x := \<lparr>cb_data = Some (Suc h), cb_bytes = replicate (unat N) 0, cb_length = N,
                cb_paddr = virt_to_phys env (Suc h)\<rparr>,
       kp_y := \<lparr>cb_data = Some (Suc (Suc h)), cb_bytes = replicate (unat L) 0, cb_length = L,
                cb_paddr = virt_to_phys env (Suc (Suc h))\<rparr>\<rparr>"
  define s3 where "s3 = s\<lparr>next_handle := Suc (Suc (Suc h)),
      live := Suc (Suc h) # Suc h # h # live s\<rparr>"
  define lc0 :: "'a word caam_dsa_keypair \<Rightarrow> 'a word locals"
    where "lc0 = (\<lambda>k. locals_init\<lparr>lc_desc := Some d0, lc_key := k\<rparr>)"
  note hd = do_gen_keypair_body_def caam_calloc_desc_def caam_calloc_align_buf_def calloc_buf_ok
    calloc_buf_fail caam_alloc_def Let_def held_desc_def held_key_def held_opt_def
    TEE_ERROR_OUT_OF_MEMORY_def
  note o1 = owns_alloc [OF owns_refl [of s]]
  note o2 = owns_alloc [OF o1]
  note o3 = owns_alloc [OF o2]
  consider (nodesc) "\<not> alloc_desc env"
    | (x) "alloc_desc env" "alloc_x env \<noteq> CAAM_NO_ERROR"
    | (y) "alloc_desc env" "alloc_x env = CAAM_NO_ERROR" "alloc_y env \<noteq> CAAM_NO_ERROR"
    | (go) "alloc_desc env" "alloc_x env = CAAM_NO_ERROR" "alloc_y env = CAAM_NO_ERROR"
    by argo
  then show ?thesis
  proof cases
    case nodesc
    with r show ?thesis by (auto simp add: hd init_defs owns_refl)
  next
    case x
    with r o1 show ?thesis by (auto simp add: hd init_defs)
  next
    case y
    with r o2 show ?thesis by (auto simp add: hd init_defs add_mset_commute)
  next
    case go
    from go have "do_gen_keypair_body env key l_bits n_bits locals_init s
        = (case get_keypair_domain_params env k0 key L N s3 of None \<Rightarrow> None
        | Some (ret, outkey, key, s) \<Rightarrow>
            if ret \<noteq> TEE_SUCCESS then Some (ret, key, lc0 outkey, s)
            else do_gen_keypair_submit env key d0 (lc0 outkey) L N s)"
      unfolding k0_def d0_def s3_def h_def L_def N_def lc0_def
      by (simp add: hd locals_init_def split: option.split prod.split)
    with r have "(case get_keypair_domain_params env k0 key L N s3 of None \<Rightarrow> None
        | Some (ret, outkey, key, s) \<Rightarrow>
            if ret \<noteq> TEE_SUCCESS then Some (ret, key, lc0 outkey, s)
            else do_gen_keypair_submit env key d0 (lc0 outkey) L N s)
        = Some (ret, key', lc, s')"
      by simp
    then obtain v where kdp: "get_keypair_domain_params env k0 key L N s3 = Some v"
      and rest: "(case v of (ret, outkey, key, s) \<Rightarrow>
            if ret \<noteq> TEE_SUCCESS then Some (ret, key, lc0 outkey, s)
            else do_gen_keypair_submit env key d0 (lc0 outkey) L N s) = Some (ret, key', lc, s')"
      by (rule case_option_SomeE)
    obtain ret1 k2 key2 s4 where v: "v = (ret1, k2, key2, s4)" by (cases v)
    have e: "cb_data (kp_g k0) = None \<and> cb_data (kp_p k0) = None \<and> cb_data (kp_q k0) = None"
      by (simp add: k0_def init_defs)
    from domain_params_props [OF kdp [unfolded v]] e
    have kx: "kp_x k2 = kp_x k0" and ky: "kp_y k2 = kp_y k0"
      and cl: "calls s4 = calls s3 \<or> calls s4 = calls s3 @ [Prime_dsa_gen]"
      and ow: "owns s3 s4 (mset (held_opt (cb_data (kp_g k2)) @ held_opt (cb_data (kp_p k2))
                             @ held_opt (cb_data (kp_q k2))))"
      by blast+
    from o3 have "owns s s3 {#h, Suc h, Suc (Suc h)#}"
      by (simp add: s3_def h_def add_mset_commute)
    from owns_trans [OF this ow]
    have own: "owns s s4 (mset (held_desc (Some d0) @ held_key k2))"
      by (simp add: held_desc_def held_key_def held_opt_def kx ky k0_def d0_def add_mset_commute)
    have c3: "calls s3 = calls s" by (simp add: s3_def)
    show ?thesis
    proof (cases "ret1 = TEE_SUCCESS")
      case False
      with rest v have "lc = lc0 k2" "s' = s4" by simp_all
      with own cl c3 show ?thesis by (auto simp add: lc0_def)
    next
      case True
      with rest v have sub: "do_gen_keypair_submit env key2 d0 (lc0 k2) L N s4
          = Some (ret, key', lc, s')" by simp
      have "d_cap d0 = MAX_DESC_KEY_GEN env" by (simp add: d0_def)
      from gen_submit_props [OF sub this]
      have "held_desc (lc_desc lc) = held_desc (Some d0)" "held_key (lc_key lc) = held_key k2"
        "s' = s4\<lparr>calls := calls s4
               @ [Jr_enqueue (with_header (generate_fields_spec env (lc_key lc) L N))]\<rparr>"
        by (simp_all add: held_desc_def lc0_def)
      with own cl c3 show ?thesis by (auto simp add: owns_calls)
    qed
  qed
qed

lemma sign_body_props:
  fixes sdata :: "(dsa_keypair, 'a::len word) drvcrypt_sign_data"
  defines "S \<equiv> sd_size_sec sdata"
  defines "cI \<equiv> Dmaobj_init_input (sd_message_length sdata)"
  defines "cO \<equiv> Dmaobj_init_output (sd_signature_length sdata) (ROUNDUP S 16 + S)"
  defines "cD \<equiv> Dmaobj_derive S (ROUNDUP S 16)"
  assumes r: "do_sign_body env sdata l n locals_init s = Some (ret, sdata', lc, s')"
  shows "owns s s' (mset (held_desc (lc_desc lc) @ held_key (lc_key lc)
                           @ held_opt (dm_priv (lc_msg lc)) @ held_opt (dm_priv (lc_sign_c lc))
                           @ held_opt (dm_priv (lc_sign_d lc))))
       \<and> ((ret = TEE_ERROR_OUT_OF_MEMORY \<and> sdata' = sdata \<and> calls s' = calls s)
          \<or> (dr_ret (msg_reply env) \<noteq> 0 \<and> ret = dr_ret (msg_reply env) \<and> sdata' = sdata
             \<and> calls s' = calls s @ [cI])
          \<or> (dr_ret (msg_reply env) = 0 \<and> dr_ret (sign_c_reply env) \<noteq> 0
             \<and> ret = dr_ret (sign_c_reply env) \<and> sdata' = sdata \<and> calls s' = calls s @ [cI, cO])
          \<or> (dr_ret (msg_reply env) = 0 \<and> dr_ret (sign_c_reply env) = 0
             \<and> dr_ret (sign_d_reply env) \<noteq> 0
             \<and> ret = dr_ret (sign_d_reply env) \<and> sdata' = sdata
             \<and> calls s' = calls s @ [cI, cO, cD])
          \<or> (dr_ret (msg_reply env) = 0 \<and> dr_ret (sign_c_reply env) = 0
             \<and> dr_ret (sign_d_reply env) = 0 \<and> jr_status env \<noteq> CAAM_NO_ERROR
             \<and> ret = job_status_to_tee_result env (job_status env) \<and> sdata' = sdata
             \<and> calls s' = calls s @ [cI, cO, cD,
                  Jr_enqueue (with_header (sign_fields_spec env lc (sd_message_length sdata) l n))])
          \<or> (dr_ret (msg_reply env) = 0 \<and> dr_ret (sign_c_reply env) = 0
             \<and> dr_ret (sign_d_reply env) = 0 \<and> jr_status env = CAAM_NO_ERROR
             \<and> ret = TEE_SUCCESS \<and> sdata' = sdata\<lparr>sd_signature_length := 2 * S\<rparr>
             \<and> calls s' = calls s @ [cI, cO, cD,
                  Jr_enqueue (with_header (sign_fields_spec env lc (sd_message_length sdata) l n)),
                  Dmaobj_copy_to_orig (2 * S)]))"
proof -
  define h where "h = next_handle s"
  define d0 where "d0 = \<lparr>d_handle = h, d_cap = MAX_DESC_SIGN env, d_words = []\<rparr>"
  define s1 where "s1 = s\<lparr>next_handle := Suc h, live := h # live s\<rparr>"
  define lc0 :: "'a word caam_dsa_keypair \<Rightarrow> 'a word locals"
    where "lc0 = (\<lambda>k. locals_init\<lparr>lc_desc := Some d0, lc_key := k\<rparr>)"
  note hd = do_sign_body_def caam_calloc_desc_def caam_alloc_def Let_def held_desc_def
    held_key_def held_opt_def
  note o1 = owns_alloc [OF owns_refl [of s]]
  show ?thesis
  proof (cases "alloc_desc env")
    case False
    with r show ?thesis by (auto simp add: hd init_defs owns_refl)
  next
    case True
    then have "do_sign_body env sdata l n locals_init s
        = (case do_keypriv_conv env caam_dsa_keypair_init (sd_key sdata) l n s1 of None \<Rightarrow> None
        | Some (retstatus, k, s) \<Rightarrow>
            if retstatus \<noteq> CAAM_NO_ERROR then Some (TEE_ERROR_OUT_OF_MEMORY, sdata, lc0 k, s)
            else do_sign_submit env sdata d0 (lc0 k) l n s)"
      unfolding d0_def s1_def h_def lc0_def
      by (simp add: hd locals_init_def split: option.split prod.split)
    with r have "(case do_keypriv_conv env caam_dsa_keypair_init (sd_key sdata) l n s1 of
          None \<Rightarrow> None
        | Some (retstatus, k, s) \<Rightarrow>
            if retstatus \<noteq> CAAM_NO_ERROR then Some (TEE_ERROR_OUT_OF_MEMORY, sdata, lc0 k, s)
            else do_sign_submit env sdata d0 (lc0 k) l n s)
        = Some (ret, sdata', lc, s')"
      by simp
    then obtain v where cv: "do_keypriv_conv env caam_dsa_keypair_init (sd_key sdata) l n s1 = Some v"
      and rest: "(case v of (retstatus, k, s) \<Rightarrow>
            if retstatus \<noteq> CAAM_NO_ERROR then Some (TEE_ERROR_OUT_OF_MEMORY, sdata, lc0 k, s)
            else do_sign_submit env sdata d0 (lc0 k) l n s) = Some (ret, sdata', lc, s')"
      by (rule case_option_SomeE)
    obtain st k2 s2 where v: "v = (st, k2, s2)" by (cases v)
    have e: "cb_data (kp_g caam_dsa_keypair_init) = None \<and> cb_data (kp_p caam_dsa_keypair_init) = None
        \<and> cb_data (kp_q caam_dsa_keypair_init) = None \<and> cb_data (kp_x caam_dsa_keypair_init) = None
        \<and> cb_data (kp_y caam_dsa_keypair_init) = None"
      by (simp add: init_defs)
    from keypriv_conv_props [OF cv [unfolded v]] e
    have cl: "calls s2 = calls s1" and ow: "owns s1 s2 (mset (held_key k2))"
      by blast+
    from o1 have "owns s s1 {#h#}" by (simp add: s1_def h_def)
    from owns_trans [OF this ow]
    have own: "owns s s2 (mset (held_desc (Some d0) @ held_key k2))"
      by (simp add: held_desc_def d0_def)
    have c1: "calls s1 = calls s" by (simp add: s1_def)
    show ?thesis
    proof (cases "st = CAAM_NO_ERROR")
      case False
      with rest v have "lc = lc0 k2" "s' = s2" "ret = TEE_ERROR_OUT_OF_MEMORY" "sdata' = sdata"
        by simp_all
      with own cl c1 show ?thesis by (simp add: lc0_def init_defs held_opt_def)
    next
      case True
      with rest v have sub: "do_sign_submit env sdata d0 (lc0 k2) l n s2
          = Some (ret, sdata', lc, s')" by simp
      have cap: "d_cap d0 = MAX_DESC_SIGN env" by (simp add: d0_def)
      have dsc: "lc_desc (lc0 k2) = Some d0" by (simp add: lc0_def)
      have e1: "dm_priv (lc_msg (lc0 k2)) = None" "dm_priv (lc_sign_c (lc0 k2)) = None"
        "dm_priv (lc_sign_d (lc0 k2)) = None"
        by (simp_all add: lc0_def init_defs)
      note P = sign_submit_props [OF sub cap dsc e1, unfolded cl c1]
      from P have hk: "held_desc (lc_desc lc) = held_desc (Some d0)" "lc_key lc = k2"
        by (simp_all add: held_desc_def lc0_def)
      from P have ow2: "owns s2 s' (mset (held_opt (dm_priv (lc_msg lc))
          @ held_opt (dm_priv (lc_sign_c lc)) @ held_opt (dm_priv (lc_sign_d lc))))"
        by blast
      have A: "owns s s' (mset (held_desc (lc_desc lc) @ held_key (lc_key lc)
                           @ held_opt (dm_priv (lc_msg lc)) @ held_opt (dm_priv (lc_sign_c lc))
                           @ held_opt (dm_priv (lc_sign_d lc))))"
        using owns_trans [OF own ow2] by (simp add: hk add.assoc)
      from P have B: "(dr_ret (msg_reply env) \<noteq> 0 \<and> ret = dr_ret (msg_reply env) \<and> sdata' = sdata
             \<and> calls s' = calls s @ [cI])
          \<or> (dr_ret (msg_reply env) = 0 \<and> dr_ret (sign_c_reply env) \<noteq> 0
             \<and> ret = dr_ret (sign_c_reply env) \<and> sdata' = sdata \<and> calls s' = calls s @ [cI, cO])
          \<or> (dr_ret (msg_reply env) = 0 \<and> dr_ret (sign_c_reply env) = 0
             \<and> dr_ret (sign_d_reply env) \<noteq> 0
             \<and> ret = dr_ret (sign_d_reply env) \<and> sdata' = sdata
             \<and> calls s' = calls s @ [cI, cO, cD])
          \<or> (dr_ret (msg_reply env) = 0 \<and> dr_ret (sign_c_reply env) = 0
             \<and> dr_ret (sign_d_reply env) = 0 \<and> jr_status env \<noteq> CAAM_NO_ERROR
             \<and> ret = job_status_to_tee_result env (job_status env) \<and> sdata' = sdata
             \<and> calls s' = calls s @ [cI, cO, cD,
                  Jr_enqueue (with_header (sign_fields_spec env lc (sd_message_length sdata) l n))])
          \<or> (dr_ret (msg_reply env) = 0 \<and> dr_ret (sign_c_reply env) = 0
             \<and> dr_ret (sign_d_reply env) = 0 \<and> jr_status env = CAAM_NO_ERROR
             \<and> ret = TEE_SUCCESS \<and> sdata' = sdata\<lparr>sd_signature_length := 2 * S\<rparr>
             \<and> calls s' = calls s @ [cI, cO, cD,
                  Jr_enqueue (with_header (sign_fields_spec env lc (sd_message_length sdata) l n)),
                  Dmaobj_copy_to_orig (2 * S)])"
        unfolding S_def cI_def cO_def cD_def by (elim conjE) assumption
      from A B show ?thesis by blast
    qed
  qed
qed

lemma verify_body_props:
  fixes sdata :: "(dsa_public_key, 'a::len word) drvcrypt_sign_data"
  defines "S \<equiv> sd_size_sec sdata"
  defines "cI \<equiv> Dmaobj_init_input (sd_message_length sdata)"
  defines "cC \<equiv> Dmaobj_init_input (sd_signature_length sdata)"
  defines "cD \<equiv> Dmaobj_derive S S"
  assumes r: "do_verify_body env sdata l n locals_init s = Some (ret, lc, s')"
  shows "owns s s' (mset (held_desc (lc_desc lc) @ held_key (lc_key lc)
                           @ held_opt (cb_data (lc_tmp lc))
                           @ held_opt (dm_priv (lc_msg lc)) @ held_opt (dm_priv (lc_sign_c lc))
                           @ held_opt (dm_priv (lc_sign_d lc))))
       \<and> ((ret = TEE_ERROR_OUT_OF_MEMORY \<and> calls s' = calls s)
          \<or> (dr_ret (msg_reply env) \<noteq> 0 \<and> ret = dr_ret (msg_reply env)
             \<and> calls s' = calls s @ [cI])
          \<or> (dr_ret (msg_reply env) = 0 \<and> dr_ret (sign_c_reply env) \<noteq> 0
             \<and> ret = dr_ret (sign_c_reply env) \<and> calls s' = calls s @ [cI, cC])
          \<or> (dr_ret (msg_reply env) = 0 \<and> dr_ret (sign_c_reply env) = 0
             \<and> dr_ret (sign_d_reply env) \<noteq> 0
             \<and> ret = dr_ret (sign_d_reply env) \<and> calls s' = calls s @ [cI, cC, cD])
          \<or> (dr_ret (msg_reply env) = 0 \<and> dr_ret (sign_c_reply env) = 0
             \<and> dr_ret (sign_d_reply env) = 0 \<and> alloc_tmp env \<noteq> CAAM_NO_ERROR
             \<and> ret = TEE_ERROR_OUT_OF_MEMORY \<and> calls s' = calls s @ [cI, cC, cD])
          \<or> (dr_ret (msg_reply env) = 0 \<and> dr_ret (sign_c_reply env) = 0
             \<and> dr_ret (sign_d_reply env) = 0 \<and> alloc_tmp env = CAAM_NO_ERROR
             \<and> calls s' = calls s @ [cI, cC, cD,
                  Jr_enqueue (with_header (verify_fields_spec env lc (sd_message_length sdata) l n))]
             \<and> ((jr_status env = CAAM_JOB_STATUS \<and> job_status env = 0
                   \<and> ret = TEE_ERROR_SIGNATURE_INVALID)
                \<or> (\<not> (jr_status env = CAAM_JOB_STATUS \<and> job_status env = 0)
                   \<and> jr_status env \<noteq> CAAM_NO_ERROR
                   \<and> ret = job_status_to_tee_result env (job_status env))
                \<or> (jr_status env = CAAM_NO_ERROR \<and> ret = TEE_SUCCESS))))"
proof -
  define h where "h = next_handle s"
  define d0 where "d0 = \<lparr>d_handle = h, d_cap = MAX_DESC_VERIFY env, d_words = []\<rparr>"
  define s1 where "s1 = s\<lparr>next_handle := Suc h, live := h # live s\<rparr>"
  define lc0 :: "'a word caam_dsa_keypair \<Rightarrow> 'a word locals"
    where "lc0 = (\<lambda>k. locals_init\<lparr>lc_desc := Some d0, lc_key := k\<rparr>)"
  note hd = do_verify_body_def caam_calloc_desc_def caam_alloc_def Let_def held_desc_def
    held_key_def held_opt_def
  note o1 = owns_alloc [OF owns_refl [of s]]
  show ?thesis
  proof (cases "alloc_desc env")
    case False
    with r show ?thesis by (auto simp add: hd init_defs owns_refl)
  next
    case True
    then have "do_verify_body env sdata l n locals_init s
        = (case do_keypub_conv env caam_dsa_keypair_init (sd_key sdata) l n s1 of None \<Rightarrow> None
        | Some (retstatus, k, s) \<Rightarrow>
            if retstatus \<noteq> CAAM_NO_ERROR then Some (TEE_ERROR_OUT_OF_MEMORY, lc0 k, s)
            else do_verify_submit env sdata d0 (lc0 k) l n s)"
      unfolding d0_def s1_def h_def lc0_def
      by (simp add: hd locals_init_def split: option.split prod.split)
    with r have "(case do_keypub_conv env caam_dsa_keypair_init (sd_key sdata) l n s1 of
          None \<Rightarrow> None
        | Some (retstatus, k, s) \<Rightarrow>
            if retstatus \<noteq> CAAM_NO_ERROR then Some (TEE_ERROR_OUT_OF_MEMORY, lc0 k, s)
            else do_verify_submit env sdata d0 (lc0 k) l n s)
        = Some (ret, lc, s')"
      by simp
    then obtain v where cv: "do_keypub_conv env caam_dsa_keypair_init (sd_key sdata) l n s1 = Some v"
      and rest: "(case v of (retstatus, k, s) \<Rightarrow>
            if retstatus \<noteq> CAAM_NO_ERROR then Some (TEE_ERROR_OUT_OF_MEMORY, lc0 k, s)
            else do_verify_submit env sdata d0 (lc0 k) l n s) = Some (ret, lc, s')"
      by (rule case_option_SomeE)
    obtain st k2 s2 where v: "v = (st, k2, s2)" by (cases v)
    have e: "cb_data (kp_g caam_dsa_keypair_init) = None \<and> cb_data (kp_p caam_dsa_keypair_init) = None
        \<and> cb_data (kp_q caam_dsa_keypair_init) = None \<and> cb_data (kp_x caam_dsa_keypair_init) = None
        \<and> cb_data (kp_y caam_dsa_keypair_init) = None"
      by (simp add: init_defs)
    from keypub_conv_props [OF cv [unfolded v]] e
    have cl: "calls s2 = calls s1" and ow: "owns s1 s2 (mset (held_key k2))"
      by blast+
    from o1 have "owns s s1 {#h#}" by (simp add: s1_def h_def)
    from owns_trans [OF this ow]
    have own: "owns s s2 (mset (held_desc (Some d0) @ held_key k2))"
      by (simp add: held_desc_def d0_def)
    have c1: "calls s1 = calls s" by (simp add: s1_def)
    show ?thesis
    proof (cases "st = CAAM_NO_ERROR")
      case False
      with rest v have "lc = lc0 k2" "s' = s2" "ret = TEE_ERROR_OUT_OF_MEMORY"
        by simp_all
      with own cl c1 show ?thesis by (simp add: lc0_def init_defs held_opt_def)
    next
      case True
      with rest v have sub: "do_verify_submit env sdata d0 (lc0 k2) l n s2
          = Some (ret, lc, s')" by simp
      have cap: "d_cap d0 = MAX_DESC_VERIFY env" by (simp add: d0_def)
      have dsc: "lc_desc (lc0 k2) = Some d0" by (simp add: lc0_def)
      have e1: "dm_priv (lc_msg (lc0 k2)) = None" "dm_priv (lc_sign_c (lc0 k2)) = None"
        "dm_priv (lc_sign_d (lc0 k2)) = None" "cb_data (lc_tmp (lc0 k2)) = None"
        by (simp_all add: lc0_def init_defs)
      note P = verify_submit_props [OF sub cap dsc e1, unfolded cl c1]
      from P have hk: "held_desc (lc_desc lc) = held_desc (Some d0)" "lc_key lc = k2"
        by (simp_all add: held_desc_def lc0_def)
      from P have ow2: "owns s2 s' (mset (held_opt (cb_data (lc_tmp lc))
          @ held_opt (dm_priv (lc_msg lc))
          @ held_opt (dm_priv (lc_sign_c lc)) @ held_opt (dm_priv (lc_sign_d lc))))"
        by blast
      have A: "owns s s' (mset (held_desc (lc_desc lc) @ held_key (lc_key lc)
                           @ held_opt (cb_data (lc_tmp lc))
                           @ held_opt (dm_priv (lc_msg lc)) @ held_opt (dm_priv (lc_sign_c lc))
                           @ held_opt (dm_priv (lc_sign_d lc))))"
        using owns_trans [OF own ow2] by (simp add: hk add.assoc)
      from P have B: "(dr_ret (msg_reply env) \<noteq> 0 \<and> ret = dr_ret (msg_reply env)
             \<and> calls s' = calls s @ [cI])
          \<or> (dr_ret (msg_reply env) = 0 \<and> dr_ret (sign_c_reply env) \<noteq> 0
             \<and> ret = dr_ret (sign_c_reply env) \<and> calls s' = calls s @ [cI, cC])
          \<or> (dr_ret (msg_reply env) = 0 \<and> dr_ret (sign_c_reply env) = 0
             \<and> dr_ret (sign_d_reply env) \<noteq> 0
             \<and> ret = dr_ret (sign_d_reply env) \<and> calls s' = calls s @ [cI, cC, cD])
          \<or> (dr_ret (msg_reply env) = 0 \<and> dr_ret (sign_c_reply env) = 0
             \<and> dr_ret (sign_d_reply env) = 0 \<and> alloc_tmp env \<noteq> CAAM_NO_ERROR
             \<and> ret = TEE_ERROR_OUT_OF_MEMORY \<and> calls s' = calls s @ [cI, cC, cD])
          \<or> (dr_ret (msg_reply env) = 0 \<and> dr_ret (sign_c_reply env) = 0
             \<and> dr_ret (sign_d_reply env) = 0 \<and> alloc_tmp env = CAAM_NO_ERROR
             \<and> calls s' = calls s @ [cI, cC, cD,
                  Jr_enqueue (with_header (verify_fields_spec env lc (sd_message_length sdata) l n))]
             \<and> ((jr_status env = CAAM_JOB_STATUS \<and> job_status env = 0
                   \<and> ret = TEE_ERROR_SIGNATURE_INVALID)
                \<or> (\<not> (jr_status env = CAAM_JOB_STATUS \<and> job_status env = 0)
                   \<and> jr_status env \<noteq> CAAM_NO_ERROR
                   \<and> ret = job_status_to_tee_result env (job_status env))
                \<or> (jr_status env = CAAM_NO_ERROR \<and> ret = TEE_SUCCESS)))"
        unfolding S_def cI_def cC_def cD_def by (elim conjE) assumption
      from A B show ?thesis by blast
    qed
  qed
qed

subsection \<open>Every operation returns\<close>

text \<open>
  The only way for the model not to return is a write outside a buffer, by converting a
  scalar that is longer than its buffer.  When the scalars fit, every function returns.
\<close>

lemma keypriv_conv_returns:
  assumes "fits (dk_g inkey) l" "fits (dk_p inkey) l" "fits (dk_q inkey) n" "fits (dk_x inkey) n"
  shows "do_keypriv_conv env outkey inkey l n s \<noteq> None"
proof -
  note dd = do_keypriv_conv_def calloc_buf_ok calloc_buf_fail bn2bin_calloc_word Let_def fits_def
  consider (g) "alloc_g env \<noteq> CAAM_NO_ERROR"
    | (p) "alloc_g env = CAAM_NO_ERROR" "alloc_p env \<noteq> CAAM_NO_ERROR"
    | (q) "alloc_g env = CAAM_NO_ERROR" "alloc_p env = CAAM_NO_ERROR"
          "alloc_q env \<noteq> CAAM_NO_ERROR"
    | (x) "alloc_g env = CAAM_NO_ERROR" "alloc_p env = CAAM_NO_ERROR"
          "alloc_q env = CAAM_NO_ERROR" "alloc_x env \<noteq> CAAM_NO_ERROR"
    | (ok) "alloc_g env = CAAM_NO_ERROR" "alloc_p env = CAAM_NO_ERROR"
          "alloc_q env = CAAM_NO_ERROR" "alloc_x env = CAAM_NO_ERROR"
    by argo
  then show ?thesis using assms by cases (simp_all add: dd)
qed

lemma keypub_conv_returns:
  assumes "fits (dpk_g inkey) l" "fits (dpk_p inkey) l" "fits (dpk_q inkey) n"
    "fits (dpk_y inkey) l"
  shows "do_keypub_conv env outkey inkey l n s \<noteq> None"
proof -
  note dd = do_keypub_conv_def calloc_buf_ok calloc_buf_fail bn2bin_calloc_word Let_def fits_def
  consider (g) "alloc_g env \<noteq> CAAM_NO_ERROR"
    | (p) "alloc_g env = CAAM_NO_ERROR" "alloc_p env \<noteq> CAAM_NO_ERROR"
    | (q) "alloc_g env = CAAM_NO_ERROR" "alloc_p env = CAAM_NO_ERROR"
          "alloc_q env \<noteq> CAAM_NO_ERROR"
    | (y) "alloc_g env = CAAM_NO_ERROR" "alloc_p env = CAAM_NO_ERROR"
          "alloc_q env = CAAM_NO_ERROR" "alloc_y env \<noteq> CAAM_NO_ERROR"
    | (ok) "alloc_g env = CAAM_NO_ERROR" "alloc_p env = CAAM_NO_ERROR"
          "alloc_q env = CAAM_NO_ERROR" "alloc_y env = CAAM_NO_ERROR"
    by argo
  then show ?thesis using assms by cases (simp_all add: dd)
qed

lemma domain_params_returns:
  assumes "crypto_bignum_num_bytes (dk_q key) = 0 \<or> crypto_bignum_num_bytes (dk_g key) = 0
           \<or> crypto_bignum_num_bytes (dk_p key) = 0
           \<or> fits (dk_q key) n \<and> fits (dk_g key) l \<and> fits (dk_p key) l"
  shows "get_keypair_domain_params env outkey key l n s \<noteq> None"
proof -
  note dd = get_keypair_domain_params_def calloc_buf_ok calloc_buf_fail bn2bin_calloc_word Let_def
    fits_def
  consider (q) "alloc_q env \<noteq> CAAM_NO_ERROR"
    | (g) "alloc_q env = CAAM_NO_ERROR" "alloc_g env \<noteq> CAAM_NO_ERROR"
    | (p) "alloc_q env = CAAM_NO_ERROR" "alloc_g env = CAAM_NO_ERROR"
          "alloc_p env \<noteq> CAAM_NO_ERROR"
    | (ok) "alloc_q env = CAAM_NO_ERROR" "alloc_g env = CAAM_NO_ERROR"
          "alloc_p env = CAAM_NO_ERROR"
    by argo
  then show ?thesis using assms by cases (auto simp add: dd)
qed

lemma gen_submit_returns:
  assumes c: "d_cap d = MAX_DESC_KEY_GEN env"
  shows "\<exists>ret key' lc' s'. do_gen_keypair_submit env key d lc l n s = Some (ret, key', lc', s')"
  by (simp add: do_gen_keypair_submit_def keypair_gen_desc_eq [OF c] Let_def caam_jr_enqueue_def)

lemma sign_submit_returns:
  assumes c: "d_cap d = MAX_DESC_SIGN env"
  shows "\<exists>ret sdata' lc' s'. do_sign_submit env sdata d lc l n s = Some (ret, sdata', lc', s')"
proof -
  note dd = do_sign_submit_def dma_defs Let_def sign_desc_eq [OF c] or.assoc or_flag
    sign_sgt_flags_def
  consider (m) "dr_ret (msg_reply env) \<noteq> 0"
    | (sc) "dr_ret (msg_reply env) = 0" "dr_ret (sign_c_reply env) \<noteq> 0"
    | (sdd) "dr_ret (msg_reply env) = 0" "dr_ret (sign_c_reply env) = 0"
          "dr_ret (sign_d_reply env) \<noteq> 0"
    | (ok) "dr_ret (msg_reply env) = 0" "dr_ret (sign_c_reply env) = 0"
          "dr_ret (sign_d_reply env) = 0"
    by argo
  then show ?thesis by cases (simp_all add: dd)
qed

lemma verify_submit_returns:
  assumes c: "d_cap d = MAX_DESC_VERIFY env"
  shows "\<exists>ret lc' s'. do_verify_submit env sdata d lc l n s = Some (ret, lc', s')"
proof -
  note dd = do_verify_submit_def dma_defs Let_def verify_desc_eq [OF c] or.assoc or_flag
    verify_sgt_flags_def caam_alloc_align_buf_def
  consider (m) "dr_ret (msg_reply env) \<noteq> 0"
    | (sc) "dr_ret (msg_reply env) = 0" "dr_ret (sign_c_reply env) \<noteq> 0"
    | (sdd) "dr_ret (msg_reply env) = 0" "dr_ret (sign_c_reply env) = 0"
          "dr_ret (sign_d_reply env) \<noteq> 0"
    | (tmp) "dr_ret (msg_reply env) = 0" "dr_ret (sign_c_reply env) = 0"
          "dr_ret (sign_d_reply env) = 0" "alloc_tmp env \<noteq> CAAM_NO_ERROR"
    | (ok) "dr_ret (msg_reply env) = 0" "dr_ret (sign_c_reply env) = 0"
          "dr_ret (sign_d_reply env) = 0" "alloc_tmp env = CAAM_NO_ERROR"
    by argo
  then show ?thesis by cases (simp_all add: dd)
qed

lemma gen_body_returns:
  fixes l_bits n_bits :: "'a::len word"
  assumes "crypto_bignum_num_bytes (dk_q key) = 0 \<or> crypto_bignum_num_bytes (dk_g key) = 0
           \<or> crypto_bignum_num_bytes (dk_p key) = 0
           \<or> fits (dk_q key) (n_bits div 8) \<and> fits (dk_g key) (l_bits div 8)
             \<and> fits (dk_p key) (l_bits div 8)"
  shows "do_gen_keypair_body env key l_bits n_bits lc s \<noteq> None"
  unfolding do_gen_keypair_body_def
  by (simp add: caam_calloc_desc_def caam_calloc_align_buf_def caam_calloc_buf_def caam_alloc_def
      Let_def domain_params_returns [OF assms] gen_submit_returns
      split: option.split prod.split)

lemma sign_body_returns:
  assumes "fits (dk_g (sd_key sdata)) l" "fits (dk_p (sd_key sdata)) l"
    "fits (dk_q (sd_key sdata)) n" "fits (dk_x (sd_key sdata)) n"
  shows "do_sign_body env sdata l n lc s \<noteq> None"
  unfolding do_sign_body_def
  by (simp add: caam_calloc_desc_def caam_alloc_def
      Let_def keypriv_conv_returns [OF assms] sign_submit_returns
      split: option.split prod.split)

lemma verify_body_returns:
  assumes "fits (dpk_g (sd_key sdata)) l" "fits (dpk_p (sd_key sdata)) l"
    "fits (dpk_q (sd_key sdata)) n" "fits (dpk_y (sd_key sdata)) l"
  shows "do_verify_body env sdata l n lc s \<noteq> None"
  unfolding do_verify_body_def
  by (simp add: caam_calloc_desc_def caam_alloc_def
      Let_def keypub_conv_returns [OF assms] verify_submit_returns
      split: option.split prod.split)

subsection \<open>The operations as a whole\<close>

lemma new_calls_append: "calls s' = calls s @ cs \<Longrightarrow> new_calls s s' = cs"
  by (simp add: new_calls_def)

lemma new_calls_same: "calls s' = calls s \<Longrightarrow> new_calls s s' = []"
  by (simp add: new_calls_def)

lemma all_freed_onceI:
  assumes "owns s s1 (mset hs)"
  shows "all_freed_once s (free_list hs s1) \<and> calls (free_list hs s1) = calls s1"
  using free_list_owns [OF assms] assms by (simp add: all_freed_once_def owns_def del: mset_upt)

lemma do_gen_keypair_split:
  assumes r: "do_gen_keypair env key l_bits n_bits s = Some (ret, key', s')"
  shows "\<exists>lc s1. do_gen_keypair_body env key l_bits n_bits locals_init s = Some (ret, key', lc, s1)
           \<and> calls s' = calls s1 \<and> all_freed_once s s'"
proof -
  from r obtain v where b: "do_gen_keypair_body env key l_bits n_bits locals_init s = Some v"
    and rest: "(case v of (ret, key, lc, s) \<Rightarrow>
        (case exit_gen_keypair lc s of (lc, s) \<Rightarrow> Some (ret, key, s))) = Some (ret, key', s')"
    unfolding do_gen_keypair_def by (rule case_option_SomeE)
  obtain r1 k1 lc s1 where v: "v = (r1, k1, lc, s1)" by (cases v)
  from rest v have e: "r1 = ret" "k1 = key'" "s' = snd (exit_gen_keypair lc s1)"
    by (simp_all split: prod.splits)
  from gen_body_props [OF b [unfolded v]]
  have "owns s s1 (mset (held_desc (lc_desc lc) @ held_key (lc_key lc)))" by blast
  from all_freed_onceI [OF this] b v e show ?thesis
    by (simp add: exit_gen_keypair_eq)
qed

lemma do_sign_split:
  assumes r: "do_sign env sdata l n s = Some (ret, sdata', s')"
  shows "\<exists>lc s1. do_sign_body env sdata l n locals_init s = Some (ret, sdata', lc, s1)
           \<and> calls s' = calls s1 \<and> all_freed_once s s'"
proof -
  from r obtain v where b: "do_sign_body env sdata l n locals_init s = Some v"
    and rest: "(case v of (ret, sdata, lc, s) \<Rightarrow>
        (case exit_sign lc s of (lc, s) \<Rightarrow> Some (ret, sdata, s))) = Some (ret, sdata', s')"
    unfolding do_sign_def by (rule case_option_SomeE)
  obtain r1 k1 lc s1 where v: "v = (r1, k1, lc, s1)" by (cases v)
  from rest v have e: "r1 = ret" "k1 = sdata'" "s' = snd (exit_sign lc s1)"
    by (simp_all split: prod.splits)
  from sign_body_props [OF b [unfolded v]]
  have "owns s s1 (mset (held_desc (lc_desc lc) @ held_key (lc_key lc)
      @ held_opt (dm_priv (lc_msg lc)) @ held_opt (dm_priv (lc_sign_c lc))
      @ held_opt (dm_priv (lc_sign_d lc))))" by blast
  from all_freed_onceI [OF this] b v e show ?thesis
    by (simp add: exit_sign_eq)
qed

lemma do_verify_split:
  assumes r: "do_verify env sdata l n s = Some (ret, s')"
  shows "\<exists>lc s1. do_verify_body env sdata l n locals_init s = Some (ret, lc, s1)
           \<and> calls s' = calls s1 \<and> all_freed_once s s'"
proof -
  from r obtain v where b: "do_verify_body env sdata l n locals_init s = Some v"
    and rest: "(case v of (ret, lc, s) \<Rightarrow>
        (case exit_verify lc s of (lc, s) \<Rightarrow> Some (ret, s))) = Some (ret, s')"
    unfolding do_verify_def by (rule case_option_SomeE)
  obtain r1 lc s1 where v: "v = (r1, lc, s1)" by (cases v)
  from rest v have e: "r1 = ret" "s' = snd (exit_verify lc s1)"
    by (simp_all split: prod.splits)
  from verify_body_props [OF b [unfolded v]]
  have "owns s s1 (mset (held_desc (lc_desc lc) @ held_key (lc_key lc)
      @ held_opt (cb_data (lc_tmp lc))
      @ held_opt (dm_priv (lc_msg lc)) @ held_opt (dm_priv (lc_sign_c lc))
      @ held_opt (dm_priv (lc_sign_d lc))))" by blast
  from all_freed_onceI [OF this] b v e show ?thesis
    by (simp add: exit_verify_eq)
qed

lemma do_gen_keypair_returns:
  fixes l_bits n_bits :: "'a::len word"
  assumes "crypto_bignum_num_bytes (dk_q key) = 0 \<or> crypto_bignum_num_bytes (dk_g key) = 0
           \<or> crypto_bignum_num_bytes (dk_p key) = 0
           \<or> fits (dk_q key) (n_bits div 8) \<and> fits (dk_g key) (l_bits div 8)
             \<and> fits (dk_p key) (l_bits div 8)"
  shows "do_gen_keypair env key l_bits n_bits s \<noteq> None"
  using gen_body_returns [OF assms, of env locals_init s]
  by (auto simp add: do_gen_keypair_def split: prod.splits)

lemma do_sign_returns:
  assumes "fits (dk_g (sd_key sdata)) l" "fits (dk_p (sd_key sdata)) l"
    "fits (dk_q (sd_key sdata)) n" "fits (dk_x (sd_key sdata)) n"
  shows "do_sign env sdata l n s \<noteq> None"
  using sign_body_returns [OF assms, of env locals_init s]
  by (auto simp add: do_sign_def split: prod.splits)

lemma do_verify_returns:
  assumes "fits (dpk_g (sd_key sdata)) l" "fits (dpk_p (sd_key sdata)) l"
    "fits (dpk_q (sd_key sdata)) n" "fits (dpk_y (sd_key sdata)) l"
  shows "do_verify env sdata l n s \<noteq> None"
  using verify_body_returns [OF assms, of env locals_init s]
  by (auto simp add: do_verify_def split: prod.splits)

lemma ROUNDUP_16:
  fixes v :: "'a::len word"
  assumes b: "unat v + 16 < 2 ^ LENGTH('a)"
  shows "unat (ROUNDUP v 16) = ((unat v + 15) div 16) * 16"
proof -
  from b have k: "(15::nat) < 2 ^ LENGTH('a)" "(16::nat) < 2 ^ LENGTH('a)" by linarith+
  then have f: "unat (15 :: 'a word) = 15" "unat (16 :: 'a word) = 16"
    by (simp_all add: take_bit_nat_eq_self)
  have a: "unat (v + 15) = unat v + 15"
    unfolding unat_word_ariths(1) f using b by simp
  have "ROUNDUP v 16 = (v + 15) AND NOT (mask 4)"
    by (simp add: ROUNDUP_def mask_eq_exp_minus_1)
  also have "\<dots> = push_bit 4 (drop_bit 4 (v + 15))"
    by (rule bit_word_eqI) (auto simp add: bit_simps)
  finally have r: "ROUNDUP v 16 = (v + 15) div 16 * 16"
    by (simp add: push_bit_eq_mult drop_bit_eq_div)
  have d: "unat ((v + 15) div 16) = (unat v + 15) div 16"
    unfolding unat_div a f by simp
  have "(unat v + 15) div 16 * 16 \<le> unat v + 15" by simp
  with b have "(unat v + 15) div 16 * 16 < 2 ^ LENGTH('a)" by linarith
  then show ?thesis
    unfolding r unat_word_ariths(2) d f by simp
qed

subsection \<open>Reading the log\<close>

lemma header_counts_with_header:
  assumes "length fs < 127"
  shows "header_counts_words (with_header fs)"
  using assms desclen_header [of "Suc (length fs)" "of_nat (Suc (length fs)) - 1"]
  by (simp add: header_counts_words_def with_header_def)

lemma length_generate_fields: "length (generate_fields_spec env k l n) \<le> 12"
  by (simp add: generate_fields_spec_def ptr_words_def)

lemma length_sign_fields: "length (sign_fields_spec env lc m l n) \<le> 17"
  by (simp add: sign_fields_spec_def ptr_words_def)

lemma length_verify_fields: "length (verify_fields_spec env lc m l n) \<le> 19"
  by (simp add: verify_fields_spec_def ptr_words_def)

lemma tl_with_header: "with_header fs \<noteq> [] \<and> tl (with_header fs) = fs"
  by (simp add: with_header_def)

lemmas tee_defs = TEE_SUCCESS_def TEE_ERROR_GENERIC_def TEE_ERROR_OUT_OF_MEMORY_def
  TEE_ERROR_SIGNATURE_INVALID_def TEE_ERROR_BAD_PARAMETERS_def

lemma num_bytes_0: "crypto_bignum_num_bytes 0 = 0"
  by (simp add: crypto_bignum_num_bytes.simps)

subsection \<open>Runs of the small configuration\<close>

lemma ex_gen_body:
  "do_gen_keypair_body env_ok key0 32 16 locals_init sys0 = Some
    (TEE_SUCCESS, key0,
     \<lparr>lc_desc = Some \<lparr>d_handle = 0, d_cap = 9, d_words =
          [0xB0870008, 0x202, 0x80000500, 0x80000300, 0x80000400, 0x80000100, 0x80000200,
           0x86140000]\<rparr>,
      lc_key =
        \<lparr>kp_g = \<lparr>cb_data = Some 4, cb_bytes = [0, 0, 0, 2], cb_length = 4,
                  cb_paddr = 0x80000400\<rparr>,
         kp_p = \<lparr>cb_data = Some 5, cb_bytes = [0, 0, 1, 7], cb_length = 4,
                  cb_paddr = 0x80000500\<rparr>,
         kp_q = \<lparr>cb_data = Some 3, cb_bytes = [0, 11], cb_length = 2, cb_paddr = 0x80000300\<rparr>,
         kp_x = \<lparr>cb_data = Some 1, cb_bytes = [0, 5], cb_length = 2, cb_paddr = 0x80000100\<rparr>,
         kp_y = \<lparr>cb_data = Some 2, cb_bytes = [0, 0, 0, 32], cb_length = 4,
                  cb_paddr = 0x80000200\<rparr>\<rparr>,
      lc_tmp = caambuf_init, lc_msg = caamdmaobj_init, lc_sign_c = caamdmaobj_init,
      lc_sign_d = caamdmaobj_init\<rparr>,
     \<lparr>next_handle = 6, live = [5, 4, 3, 2, 1, 0], freed = [],
      calls = [Jr_enqueue
          [0xB0870008, 0x202, 0x80000500, 0x80000300, 0x80000400, 0x80000100, 0x80000200,
           0x86140000]]\<rparr>)"
  by code_simp

lemma ex_sign_body:
  "do_sign_body env_ok sd0 4 2 locals_init sys0 = Some
    (TEE_SUCCESS, sd0\<lparr>sd_signature_length := 4\<rparr>,
     \<lparr>lc_desc = Some \<lparr>d_handle = 0, d_cap = 12, d_words =
          [0xB08A000B, 0x02000202, 0x80000200, 0x80000300, 0x80000100, 0x80000400,
           0x90000000, 0x90001000, 0x90001002, 20, 0x86150000]\<rparr>,
      lc_key =
        \<lparr>kp_g = \<lparr>cb_data = Some 1, cb_bytes = [0, 0, 0, 2], cb_length = 4,
                  cb_paddr = 0x80000100\<rparr>,
         kp_p = \<lparr>cb_data = Some 2, cb_bytes = [0, 0, 1, 7], cb_length = 4,
                  cb_paddr = 0x80000200\<rparr>,
         kp_q = \<lparr>cb_data = Some 3, cb_bytes = [0, 11], cb_length = 2, cb_paddr = 0x80000300\<rparr>,
         kp_x = \<lparr>cb_data = Some 4, cb_bytes = [0, 5], cb_length = 2, cb_paddr = 0x80000400\<rparr>,
         kp_y = caambuf_init\<rparr>,
      lc_tmp = caambuf_init,
      lc_msg = \<lparr>dm_priv = Some 5, dm_sgt_type = False, dm_paddr = 0x90000000,
                 dm_orig_length = 20\<rparr>,
      lc_sign_c = \<lparr>dm_priv = Some 6, dm_sgt_type = False, dm_paddr = 0x90001000,
                    dm_orig_length = 4\<rparr>,
      lc_sign_d = \<lparr>dm_priv = Some 7, dm_sgt_type = True, dm_paddr = 0x90001002,
                    dm_orig_length = 16\<rparr>\<rparr>,
     \<lparr>next_handle = 8, live = [7, 6, 5, 4, 3, 2, 1, 0], freed = [],
      calls = [Dmaobj_init_input 20, Dmaobj_init_output 64 18, Dmaobj_derive 2 16,
         Jr_enqueue
          [0xB08A000B, 0x02000202, 0x80000200, 0x80000300, 0x80000100, 0x80000400,
           0x90000000, 0x90001000, 0x90001002, 20, 0x86150000],
         Dmaobj_copy_to_orig 4]\<rparr>)"
  by code_simp

lemma ex_verify_body:
  "do_verify_body env_ok sdv0 4 2 locals_init sys0 = Some
    (TEE_SUCCESS,
     \<lparr>lc_desc = Some \<lparr>d_handle = 0, d_cap = 13, d_words =
          [0xB08B000C, 0x02000202, 0x80000200, 0x80000300, 0x80000100, 0x80000400,
           0x90000000, 0x90001000, 0x90001002, 0x80000800, 20, 0x86160000]\<rparr>,
      lc_key =
        \<lparr>kp_g = \<lparr>cb_data = Some 1, cb_bytes = [0, 0, 0, 2], cb_length = 4,
                  cb_paddr = 0x80000100\<rparr>,
         kp_p = \<lparr>cb_data = Some 2, cb_bytes = [0, 0, 1, 7], cb_length = 4,
                  cb_paddr = 0x80000200\<rparr>,
         kp_q = \<lparr>cb_data = Some 3, cb_bytes = [0, 11], cb_length = 2, cb_paddr = 0x80000300\<rparr>,
         kp_x = caambuf_init,
         kp_y = \<lparr>cb_data = Some 4, cb_bytes = [0, 0, 0, 32], cb_length = 4,
                  cb_paddr = 0x80000400\<rparr>\<rparr>,
      lc_tmp = \<lparr>cb_data = Some 8, cb_bytes = [0xAA, 0xBB, 0xCC, 0xDD], cb_length = 4,
                 cb_paddr = 0x80000800\<rparr>,
      lc_msg = \<lparr>dm_priv = Some 5, dm_sgt_type = False, dm_paddr = 0x90000000,
                 dm_orig_length = 20\<rparr>,
      lc_sign_c = \<lparr>dm_priv = Some 6, dm_sgt_type = False, dm_paddr = 0x90001000,
                    dm_orig_length = 4\<rparr>,
      lc_sign_d = \<lparr>dm_priv = Some 7, dm_sgt_type = True, dm_paddr = 0x90001002,
                    dm_orig_length = 2\<rparr>\<rparr>,
     \<lparr>next_handle = 9, live = [8, 7, 6, 5, 4, 3, 2, 1, 0], freed = [],
      calls = [Dmaobj_init_input 20, Dmaobj_init_input 4, Dmaobj_derive 2 2,
         Jr_enqueue
          [0xB08B000C, 0x02000202, 0x80000200, 0x80000300, 0x80000100, 0x80000400,
           0x90000000, 0x90001000, 0x90001002, 0x80000800, 20, 0x86160000]]\<rparr>)"
  by code_simp

lemma ex_gen:
  "do_gen_keypair env_ok key0 32 16 sys0 = Some
    (TEE_SUCCESS, key0,
     \<lparr>next_handle = 6, live = [], freed = [2, 1, 3, 5, 4, 0],
      calls = [Jr_enqueue
          [0xB0870008, 0x202, 0x80000500, 0x80000300, 0x80000400, 0x80000100, 0x80000200,
           0x86140000]]\<rparr>)"
  by code_simp

lemma ex_sign:
  "do_sign env_ok sd0 4 2 sys0 = Some
    (TEE_SUCCESS, sd0\<lparr>sd_signature_length := 4\<rparr>,
     \<lparr>next_handle = 8, live = [], freed = [7, 6, 5, 4, 3, 2, 1, 0],
      calls = [Dmaobj_init_input 20, Dmaobj_init_output 64 18, Dmaobj_derive 2 16,
         Jr_enqueue
          [0xB08A000B, 0x02000202, 0x80000200, 0x80000300, 0x80000100, 0x80000400,
           0x90000000, 0x90001000, 0x90001002, 20, 0x86150000],
         Dmaobj_copy_to_orig 4]\<rparr>)"
  by code_simp

lemma ex_sign_nomem:
  "do_sign (env_ok\<lparr>alloc_q := CAAM_OUT_MEMORY\<rparr>) sd0 4 2 sys0 = Some
    (TEE_ERROR_OUT_OF_MEMORY, sd0,
     \<lparr>next_handle = 3, live = [], freed = [2, 1, 0], calls = []\<rparr>)"
  by code_simp

lemma ex_verify:
  "do_verify env_ok sdv0 4 2 sys0 = Some
    (TEE_SUCCESS,
     \<lparr>next_handle = 9, live = [], freed = [7, 6, 5, 8, 4, 3, 2, 1, 0],
      calls = [Dmaobj_init_input 20, Dmaobj_init_input 4, Dmaobj_derive 2 2,
         Jr_enqueue
          [0xB08B000C, 0x02000202, 0x80000200, 0x80000300, 0x80000100, 0x80000400,
           0x90000000, 0x90001000, 0x90001002, 0x80000800, 20, 0x86160000]]\<rparr>)"
  by code_simp

lemma ex_verify_invalid:
  "do_verify (env_ok\<lparr>jr_status := CAAM_JOB_STATUS\<rparr>) sdv0 4 2 sys0 = Some
    (TEE_ERROR_SIGNATURE_INVALID,
     \<lparr>next_handle = 9, live = [], freed = [7, 6, 5, 8, 4, 3, 2, 1, 0],
      calls = [Dmaobj_init_input 20, Dmaobj_init_input 4, Dmaobj_derive 2 2,
         Jr_enqueue
          [0xB08B000C, 0x02000202, 0x80000200, 0x80000300, 0x80000100, 0x80000400,
           0x90000000, 0x90001000, 0x90001002, 0x80000800, 20, 0x86160000]]\<rparr>)"
  by code_simp

lemma ex_verify_fail:
  "do_verify (env_ok\<lparr>jr_status := CAAM_JOB_STATUS, job_status := 0x40000086\<rparr>) sdv0 4 2 sys0
   = Some
    (TEE_ERROR_GENERIC,
     \<lparr>next_handle = 9, live = [], freed = [7, 6, 5, 8, 4, 3, 2, 1, 0],
      calls = [Dmaobj_init_input 20, Dmaobj_init_input 4, Dmaobj_derive 2 2,
         Jr_enqueue
          [0xB08B000C, 0x02000202, 0x80000200, 0x80000300, 0x80000100, 0x80000400,
           0x90000000, 0x90001000, 0x90001002, 0x80000800, 20, 0x86160000]]\<rparr>)"
  by code_simp

lemma ex_verify_timeout:
  "do_verify (env_ok\<lparr>jr_status := CAAM_TIMEOUT\<rparr>) sdv0 4 2 sys0 = Some
    (TEE_ERROR_GENERIC,
     \<lparr>next_handle = 9, live = [], freed = [7, 6, 5, 8, 4, 3, 2, 1, 0],
      calls = [Dmaobj_init_input 20, Dmaobj_init_input 4, Dmaobj_derive 2 2,
         Jr_enqueue
          [0xB08B000C, 0x02000202, 0x80000200, 0x80000300, 0x80000100, 0x80000400,
           0x90000000, 0x90001000, 0x90001002, 0x80000800, 20, 0x86160000]]\<rparr>)"
  by code_simp

lemma ex_fits:
  "fits (dk_g key0) (4 :: 32 word)" "fits (dk_p key0) (4 :: 32 word)"
  "fits (dk_q key0) (2 :: 32 word)" "fits (dk_x key0) (2 :: 32 word)"
  "fits (dpk_g pub0) (4 :: 32 word)" "fits (dpk_p pub0) (4 :: 32 word)"
  "fits (dpk_q pub0) (2 :: 32 word)" "fits (dpk_y pub0) (4 :: 32 word)"
  "crypto_bignum_num_bytes (dk_g key0) = 1" "crypto_bignum_num_bytes (dk_p key0) = 2"
  "crypto_bignum_num_bytes (dk_q key0) = 1"
  by code_simp+

lemma ex_domain_params:
  "get_keypair_domain_params env_ok caam_dsa_keypair_init key0 4 2 sys0 = Some
    (TEE_SUCCESS,
     caam_dsa_keypair_init
       \<lparr>kp_g := \<lparr>cb_data = Some 1, cb_bytes = [0, 0, 0, 2], cb_length = 4,
                 cb_paddr = 0x80000100\<rparr>,
        kp_p := \<lparr>cb_data = Some 2, cb_bytes = [0, 0, 1, 7], cb_length = 4,
                 cb_paddr = 0x80000200\<rparr>,
        kp_q := \<lparr>cb_data = Some 0, cb_bytes = [0, 11], cb_length = 2, cb_paddr = 0x80000000\<rparr>\<rparr>,
     key0, \<lparr>next_handle = 3, live = [2, 1, 0], freed = [], calls = []\<rparr>)"
  by code_simp

lemma ex_domain_params_gen:
  "get_keypair_domain_params (env_ok\<lparr>prime_q := [0x01, 0x0D]\<rparr>) caam_dsa_keypair_init
     (key0\<lparr>dk_q := 0\<rparr>) 4 2 sys0 = Some
    (TEE_SUCCESS,
     caam_dsa_keypair_init
       \<lparr>kp_g := \<lparr>cb_data = Some 1, cb_bytes = [0, 0, 0, 2], cb_length = 4,
                 cb_paddr = 0x80000100\<rparr>,
        kp_p := \<lparr>cb_data = Some 2, cb_bytes = [0, 0, 1, 7], cb_length = 4,
                 cb_paddr = 0x80000200\<rparr>,
        kp_q := \<lparr>cb_data = Some 0, cb_bytes = [1, 13], cb_length = 2, cb_paddr = 0x80000000\<rparr>\<rparr>,
     key0\<lparr>dk_q := 0x010D\<rparr>,
     \<lparr>next_handle = 3, live = [2, 1, 0], freed = [], calls = [Prime_dsa_gen]\<rparr>)"
  by code_simp

lemma ex_domain_params_genfail:
  "get_keypair_domain_params (env_ok\<lparr>prime_status := CAAM_FAILURE\<rparr>) caam_dsa_keypair_init
     (key0\<lparr>dk_q := 0\<rparr>) 4 2 sys0 = Some
    (TEE_ERROR_GENERIC,
     caam_dsa_keypair_init
       \<lparr>kp_g := \<lparr>cb_data = Some 1, cb_bytes = [0, 0, 0, 0], cb_length = 4,
                 cb_paddr = 0x80000100\<rparr>,
        kp_p := \<lparr>cb_data = Some 2, cb_bytes = [0, 0, 0, 0], cb_length = 4,
                 cb_paddr = 0x80000200\<rparr>,
        kp_q := \<lparr>cb_data = Some 0, cb_bytes = [0, 0], cb_length = 2, cb_paddr = 0x80000000\<rparr>\<rparr>,
     key0\<lparr>dk_q := 0\<rparr>,
     \<lparr>next_handle = 3, live = [2, 1, 0], freed = [], calls = [Prime_dsa_gen]\<rparr>)"
  by code_simp

lemma ex_domain_params_nomem:
  "get_keypair_domain_params (env_ok\<lparr>alloc_g := CAAM_OUT_MEMORY\<rparr>) caam_dsa_keypair_init
     (key0\<lparr>dk_q := 0\<rparr>) 4 2 sys0 = Some
    (TEE_ERROR_OUT_OF_MEMORY,
     caam_dsa_keypair_init
       \<lparr>kp_q := \<lparr>cb_data = Some 0, cb_bytes = [0, 0], cb_length = 2, cb_paddr = 0x80000000\<rparr>\<rparr>,
     key0\<lparr>dk_q := 0\<rparr>,
     \<lparr>next_handle = 1, live = [0], freed = [], calls = []\<rparr>)"
  by code_simp

lemma ex_keypriv:
  "do_keypriv_conv env_ok caam_dsa_keypair_init key0 4 2 sys0 = Some
    (CAAM_NO_ERROR,
     caam_dsa_keypair_init
       \<lparr>kp_g := \<lparr>cb_data = Some 0, cb_bytes = [0, 0, 0, 2], cb_length = 4,
                 cb_paddr = 0x80000000\<rparr>,
        kp_p := \<lparr>cb_data = Some 1, cb_bytes = [0, 0, 1, 7], cb_length = 4,
                 cb_paddr = 0x80000100\<rparr>,
        kp_q := \<lparr>cb_data = Some 2, cb_bytes = [0, 11], cb_length = 2, cb_paddr = 0x80000200\<rparr>,
        kp_x := \<lparr>cb_data = Some 3, cb_bytes = [0, 5], cb_length = 2, cb_paddr = 0x80000300\<rparr>\<rparr>,
     \<lparr>next_handle = 4, live = [3, 2, 1, 0], freed = [], calls = []\<rparr>)"
  by code_simp

lemma ex_keypub:
  "do_keypub_conv env_ok caam_dsa_keypair_init pub0 4 2 sys0 = Some
    (CAAM_NO_ERROR,
     caam_dsa_keypair_init
       \<lparr>kp_g := \<lparr>cb_data = Some 0, cb_bytes = [0, 0, 0, 2], cb_length = 4,
                 cb_paddr = 0x80000000\<rparr>,
        kp_p := \<lparr>cb_data = Some 1, cb_bytes = [0, 0, 1, 7], cb_length = 4,
                 cb_paddr = 0x80000100\<rparr>,
        kp_q := \<lparr>cb_data = Some 2, cb_bytes = [0, 11], cb_length = 2, cb_paddr = 0x80000200\<rparr>,
        kp_y := \<lparr>cb_data = Some 3, cb_bytes = [0, 0, 0, 32], cb_length = 4,
                 cb_paddr = 0x80000300\<rparr>\<rparr>,
     \<lparr>next_handle = 4, live = [3, 2, 1, 0], freed = [], calls = []\<rparr>)"
  by code_simp

lemma ex_env:
  "alloc_desc env_ok" "alloc_g env_ok = CAAM_NO_ERROR" "alloc_p env_ok = CAAM_NO_ERROR"
  "alloc_q env_ok = CAAM_NO_ERROR" "alloc_x env_ok = CAAM_NO_ERROR"
  "alloc_y env_ok = CAAM_NO_ERROR" "alloc_tmp env_ok = CAAM_NO_ERROR"
  "prime_status env_ok = CAAM_NO_ERROR" "jr_status env_ok = CAAM_NO_ERROR"
  "job_status env_ok = 0" "job_status_to_tee_result env_ok st = TEE_ERROR_GENERIC"
  by (simp_all add: env_ok_def)

lemma ex_sys0: "calls sys0 = []" "next_handle sys0 = 0" "live sys0 = []" "freed sys0 = []"
  by (simp_all add: sys0_def)

lemma ex_sizes:
  "(32 :: 32 word) div 8 = 4" "(16 :: 32 word) div 8 = 2"
  "ROUNDUP (sd_size_sec sd0) 16 + sd_size_sec sd0 = 18" "2 * sd_size_sec sd0 = 4"
  "sd_message_length sd0 = 20" "sd_message_length sdv0 = 20"
  "sd_key sd0 = key0" "sd_key sdv0 = pub0"
  "crypto_bignum_num_bytes (dk_q (key0\<lparr>dk_q := 0\<rparr>)) = 0"
  "GET_JD_DESCLEN 0xB0870008 = 8" "GET_JD_DESCLEN 0xB08A000B = 11"
  "GET_JD_DESCLEN 0xB08B000C = 12"
  by code_simp+

section \<open>The claims of the specification\<close>

subsection \<open>Verification outcome\<close>

text \<open>
  C1.  Whenever \<^verbatim>\<open>do_verify\<close> has given a job to the job ring, its result is decided by
  what the job ring reports.  The report \<^verbatim>\<open>CAAM_JOB_STATUS\<close> with a job status of zero, by
  which the device says that it ran the job and that the signature does not verify, gives
  \<^verbatim>\<open>TEE_ERROR_SIGNATURE_INVALID\<close>, which is not the generic failure.  Every other report
  that is not \<^verbatim>\<open>CAAM_NO_ERROR\<close>, an error of the device or of the transport, gives the
  error that \<^verbatim>\<open>job_status_to_tee_result\<close> maps the job status to; \<^verbatim>\<open>CAAM_NO_ERROR\<close> gives
  success.  With the mapping of the spec, which is the generic failure, an error of the
  device or of the transport gives \<^verbatim>\<open>TEE_ERROR_GENERIC\<close> and never
  \<^verbatim>\<open>TEE_ERROR_SIGNATURE_INVALID\<close>, and \<^verbatim>\<open>TEE_ERROR_SIGNATURE_INVALID\<close> is returned exactly
  when the device reports that the signature does not verify.  The same holds for every
  mapping that does not itself give \<^verbatim>\<open>TEE_ERROR_SIGNATURE_INVALID\<close> at the reported status;
  the code of \<^verbatim>\<open>do_verify\<close> returns what the mapping gives, whatever it is.
\<close>

theorem verify_outcome_separation:
  assumes r: "do_verify env sdata l n s = Some (ret, s')"
      and j: "enqueued (new_calls s s') \<noteq> []"
  shows "(jr_status env = CAAM_JOB_STATUS \<and> job_status env = 0 \<longrightarrow>
            ret = TEE_ERROR_SIGNATURE_INVALID \<and> ret \<noteq> TEE_ERROR_GENERIC)
       \<and> (jr_status env \<noteq> CAAM_NO_ERROR
            \<and> \<not> (jr_status env = CAAM_JOB_STATUS \<and> job_status env = 0) \<longrightarrow>
            ret = job_status_to_tee_result env (job_status env))
       \<and> (jr_status env = CAAM_NO_ERROR \<longrightarrow> ret = TEE_SUCCESS)
       \<and> (ret = TEE_ERROR_SIGNATURE_INVALID \<longrightarrow>
            jr_status env = CAAM_JOB_STATUS \<and> job_status env = 0
            \<or> job_status_to_tee_result env (job_status env) = TEE_ERROR_SIGNATURE_INVALID)
       \<and> (job_status_to_tee_result env (job_status env)
              = job_status_to_tee_result_spec (job_status env) \<longrightarrow>
            (jr_status env \<noteq> CAAM_NO_ERROR
               \<and> \<not> (jr_status env = CAAM_JOB_STATUS \<and> job_status env = 0) \<longrightarrow>
               ret = TEE_ERROR_GENERIC \<and> ret \<noteq> TEE_ERROR_SIGNATURE_INVALID)
            \<and> (ret = TEE_ERROR_SIGNATURE_INVALID \<longleftrightarrow>
                 jr_status env = CAAM_JOB_STATUS \<and> job_status env = 0))
       \<and> (job_status_to_tee_result env (job_status env) \<noteq> TEE_ERROR_SIGNATURE_INVALID \<longrightarrow>
            (jr_status env \<noteq> CAAM_NO_ERROR
               \<and> \<not> (jr_status env = CAAM_JOB_STATUS \<and> job_status env = 0) \<longrightarrow>
               ret \<noteq> TEE_ERROR_SIGNATURE_INVALID)
            \<and> (ret = TEE_ERROR_SIGNATURE_INVALID \<longleftrightarrow>
                 jr_status env = CAAM_JOB_STATUS \<and> job_status env = 0))"
proof -
  from do_verify_split [OF r] obtain lc s1
    where b: "do_verify_body env sdata l n locals_init s = Some (ret, lc, s1)"
      and c: "calls s' = calls s1" by blast
  from j c have "enqueued (new_calls s s1) \<noteq> []" by (simp add: new_calls_def)
  with verify_body_props [OF b, THEN conjunct2]
  have k: "(jr_status env = CAAM_JOB_STATUS \<and> job_status env = 0
              \<and> ret = TEE_ERROR_SIGNATURE_INVALID)
         \<or> (\<not> (jr_status env = CAAM_JOB_STATUS \<and> job_status env = 0)
              \<and> jr_status env \<noteq> CAAM_NO_ERROR
              \<and> ret = job_status_to_tee_result env (job_status env))
         \<or> (jr_status env = CAAM_NO_ERROR \<and> ret = TEE_SUCCESS)"
    by (auto simp add: new_calls_def)
  have d: "TEE_ERROR_SIGNATURE_INVALID \<noteq> TEE_ERROR_GENERIC"
    "TEE_SUCCESS \<noteq> TEE_ERROR_SIGNATURE_INVALID"
    "job_status_to_tee_result_spec (job_status env) = TEE_ERROR_GENERIC"
    by (simp_all add: tee_defs job_status_to_tee_result_spec_def)
  from k d show ?thesis by (elim disjE conjE) auto
qed

theorem verify_outcome_separation_witness:
  "(\<exists>s'. do_verify (env_ok\<lparr>jr_status := CAAM_JOB_STATUS\<rparr>) sdv0 4 2 sys0
           = Some (TEE_ERROR_SIGNATURE_INVALID, s') \<and> enqueued (new_calls sys0 s') \<noteq> [])
 \<and> jr_status (env_ok\<lparr>jr_status := CAAM_JOB_STATUS\<rparr>) = CAAM_JOB_STATUS
 \<and> job_status (env_ok\<lparr>jr_status := CAAM_JOB_STATUS\<rparr>) = 0
 \<and> TEE_ERROR_SIGNATURE_INVALID \<noteq> TEE_ERROR_GENERIC
 \<and> (\<exists>s'. do_verify (env_ok\<lparr>jr_status := CAAM_JOB_STATUS, job_status := 0x40000086\<rparr>)
               sdv0 4 2 sys0
           = Some (TEE_ERROR_GENERIC, s')
         \<and> enqueued (new_calls sys0 s') \<noteq> [])
 \<and> job_status_to_tee_result env_ok 0x40000086 = job_status_to_tee_result_spec 0x40000086
 \<and> job_status_to_tee_result env_ok 0x40000086 \<noteq> TEE_ERROR_SIGNATURE_INVALID
 \<and> (\<exists>s'. do_verify (env_ok\<lparr>jr_status := CAAM_TIMEOUT\<rparr>) sdv0 4 2 sys0
           = Some (TEE_ERROR_GENERIC, s')
         \<and> enqueued (new_calls sys0 s') \<noteq> [])
 \<and> jr_status (env_ok\<lparr>jr_status := CAAM_TIMEOUT\<rparr>) = CAAM_TIMEOUT
 \<and> job_status_to_tee_result env_ok 0 = job_status_to_tee_result_spec 0
 \<and> TEE_ERROR_GENERIC \<noteq> TEE_ERROR_SIGNATURE_INVALID
 \<and> (\<exists>s'. do_verify env_ok sdv0 4 2 sys0 = Some (TEE_SUCCESS, s')
         \<and> enqueued (new_calls sys0 s') \<noteq> [])"
  using verify_outcome_separation [OF ex_verify_invalid]
    verify_outcome_separation [OF ex_verify_fail]
    verify_outcome_separation [OF ex_verify_timeout]
    verify_outcome_separation [OF ex_verify]
  by (simp add: ex_verify_invalid ex_verify_fail ex_verify_timeout ex_verify ex_env ex_sys0
      new_calls_def tee_defs job_status_to_tee_result_spec_def)

subsection \<open>Domain parameters\<close>

text \<open>
  C2.  \<^verbatim>\<open>get_keypair_domain_params\<close> returns whenever one of p, q, g has no bytes or all
  three fit their buffers.  It returns \<^verbatim>\<open>TEE_ERROR_OUT_OF_MEMORY\<close> exactly when one of its
  three buffers cannot be allocated, and then it has neither called the generator nor
  changed the key.  Otherwise: if p, q and g all have a non-zero byte length, the generator
  is not called, the key is unchanged, the result is success and each of the three buffers
  holds the caller's value, right-justified; if one of them has byte length zero, the
  generator is called once, for the three buffers together, and when it succeeds the
  result is success, the buffers hold what the generator wrote and q, g and p of the
  caller's key are the numbers read back from the three buffers.
\<close>

theorem domain_params_policy:
  assumes f: "crypto_bignum_num_bytes (dk_q key) = 0 \<or> crypto_bignum_num_bytes (dk_g key) = 0
           \<or> crypto_bignum_num_bytes (dk_p key) = 0
           \<or> fits (dk_q key) n \<and> fits (dk_g key) l \<and> fits (dk_p key) l"
  shows "\<exists>ret k key' s'.
       get_keypair_domain_params env outkey key l n s = Some (ret, k, key', s')
     \<and> (ret = TEE_ERROR_OUT_OF_MEMORY \<longleftrightarrow>
          \<not> (alloc_q env = CAAM_NO_ERROR \<and> alloc_g env = CAAM_NO_ERROR
             \<and> alloc_p env = CAAM_NO_ERROR))
     \<and> (ret = TEE_ERROR_OUT_OF_MEMORY \<longrightarrow>
          generator_calls (new_calls s s') = 0 \<and> key' = key)
     \<and> (ret \<noteq> TEE_ERROR_OUT_OF_MEMORY
          \<and> crypto_bignum_num_bytes (dk_p key) \<noteq> 0 \<and> crypto_bignum_num_bytes (dk_q key) \<noteq> 0
          \<and> crypto_bignum_num_bytes (dk_g key) \<noteq> 0 \<longrightarrow>
          ret = TEE_SUCCESS \<and> generator_calls (new_calls s s') = 0 \<and> key' = key
          \<and> right_justified (unat n) (dk_q key) (cb_bytes (kp_q k))
          \<and> right_justified (unat l) (dk_g key) (cb_bytes (kp_g k))
          \<and> right_justified (unat l) (dk_p key) (cb_bytes (kp_p k)))
     \<and> (ret \<noteq> TEE_ERROR_OUT_OF_MEMORY
          \<and> (crypto_bignum_num_bytes (dk_p key) = 0 \<or> crypto_bignum_num_bytes (dk_q key) = 0
             \<or> crypto_bignum_num_bytes (dk_g key) = 0) \<longrightarrow>
          generator_calls (new_calls s s') = 1
          \<and> (prime_status env = CAAM_NO_ERROR \<longrightarrow>
               ret = TEE_SUCCESS
               \<and> cb_bytes (kp_q k) = dev_write (replicate (unat n) 0) (prime_q env)
               \<and> cb_bytes (kp_g k) = dev_write (replicate (unat l) 0) (prime_g env)
               \<and> cb_bytes (kp_p k) = dev_write (replicate (unat l) 0) (prime_p env)
               \<and> key' = key\<lparr>dk_q := crypto_bignum_bin2bn (cb_bytes (kp_q k)),
                            dk_g := crypto_bignum_bin2bn (cb_bytes (kp_g k)),
                            dk_p := crypto_bignum_bin2bn (cb_bytes (kp_p k))\<rparr>))"
proof -
  from domain_params_returns [OF f, of env outkey s] obtain ret k key' s'
    where r: "get_keypair_domain_params env outkey key l n s = Some (ret, k, key', s')"
    by (cases "get_keypair_domain_params env outkey key l n s") auto
  note P = domain_params_props [OF r]
  from P have c: "calls s' = calls s \<or> calls s' = calls s @ [Prime_dsa_gen]" by blast
  have g0: "calls s' = calls s \<Longrightarrow> generator_calls (new_calls s s') = 0"
    by (simp add: new_calls_def)
  have g1: "calls s' = calls s @ [Prime_dsa_gen] \<Longrightarrow> generator_calls (new_calls s s') = 1"
    by (simp add: new_calls_def)
  show ?thesis
    apply (rule exI [of _ ret], rule exI [of _ k], rule exI [of _ key'], rule exI [of _ s'])
    using r P g0 g1 by blast
qed

theorem domain_params_policy_witness:
  "fits (dk_q key0) (2 :: 32 word) \<and> fits (dk_g key0) (4 :: 32 word)
 \<and> fits (dk_p key0) (4 :: 32 word)
 \<and> (\<exists>k s'. get_keypair_domain_params env_ok caam_dsa_keypair_init key0 4 2 sys0
             = Some (TEE_SUCCESS, k, key0, s')
       \<and> generator_calls (new_calls sys0 s') = 0
       \<and> right_justified 2 (dk_q key0) (cb_bytes (kp_q k)) \<and> cb_bytes (kp_q k) = [0, 0x0B]
       \<and> right_justified 4 (dk_g key0) (cb_bytes (kp_g k)) \<and> cb_bytes (kp_g k) = [0, 0, 0, 2]
       \<and> right_justified 4 (dk_p key0) (cb_bytes (kp_p k))
       \<and> cb_bytes (kp_p k) = [0, 0, 0x01, 0x07])
 \<and> crypto_bignum_num_bytes (dk_q (key0\<lparr>dk_q := 0\<rparr>)) = 0
 \<and> (\<exists>k s'. get_keypair_domain_params (env_ok\<lparr>prime_q := [0x01, 0x0D]\<rparr>) caam_dsa_keypair_init
               (key0\<lparr>dk_q := 0\<rparr>) 4 2 sys0
             = Some (TEE_SUCCESS, k, key0\<lparr>dk_q := 0x010D\<rparr>, s')
       \<and> generator_calls (new_calls sys0 s') = 1
       \<and> cb_bytes (kp_q k) = dev_write (replicate 2 0) [0x01, 0x0D])"
  using domain_params_policy [where key = key0 and n = "2 :: 32 word" and l = 4 and env = env_ok
      and outkey = caam_dsa_keypair_init and s = sys0]
    domain_params_policy [where key = "key0\<lparr>dk_q := 0\<rparr>" and n = "2 :: 32 word" and l = 4
      and env = "env_ok\<lparr>prime_q := [0x01, 0x0D]\<rparr>" and outkey = caam_dsa_keypair_init
      and s = sys0]
  by (simp add: ex_domain_params ex_domain_params_gen ex_fits ex_sizes ex_env ex_sys0
      new_calls_def tee_defs num_bytes_0)

subsection \<open>Encoding of the key material\<close>

text \<open>
  C3.  When the four buffers of a key are allocated and every scalar of the key has at
  most as many bytes as its buffer is wide, \<^verbatim>\<open>do_keypriv_conv\<close> (g, p, q, x) and
  \<^verbatim>\<open>do_keypub_conv\<close> (g, p, q, y) return \<^verbatim>\<open>CAAM_NO_ERROR\<close>, and each buffer has exactly the
  target width (the prime size for g, p and y, the subprime size for q and x), ends with
  the bytes of the scalar, is zero before them, and read as a big-endian integer is the
  scalar.
\<close>

theorem key_encoding_right_justified:
  "(alloc_g env = CAAM_NO_ERROR \<and> alloc_p env = CAAM_NO_ERROR \<and> alloc_q env = CAAM_NO_ERROR
      \<and> alloc_x env = CAAM_NO_ERROR
      \<and> fits (dk_g inkey) l \<and> fits (dk_p inkey) l \<and> fits (dk_q inkey) n \<and> fits (dk_x inkey) n
    \<longrightarrow> (\<exists>k s'. do_keypriv_conv env outkey inkey l n s = Some (CAAM_NO_ERROR, k, s')
          \<and> right_justified (unat l) (dk_g inkey) (cb_bytes (kp_g k))
          \<and> right_justified (unat l) (dk_p inkey) (cb_bytes (kp_p k))
          \<and> right_justified (unat n) (dk_q inkey) (cb_bytes (kp_q k))
          \<and> right_justified (unat n) (dk_x inkey) (cb_bytes (kp_x k))))
 \<and> (alloc_g env = CAAM_NO_ERROR \<and> alloc_p env = CAAM_NO_ERROR \<and> alloc_q env = CAAM_NO_ERROR
      \<and> alloc_y env = CAAM_NO_ERROR
      \<and> fits (dpk_g pubkey) l \<and> fits (dpk_p pubkey) l \<and> fits (dpk_q pubkey) n
      \<and> fits (dpk_y pubkey) l
    \<longrightarrow> (\<exists>k s'. do_keypub_conv env outkey pubkey l n s = Some (CAAM_NO_ERROR, k, s')
          \<and> right_justified (unat l) (dpk_g pubkey) (cb_bytes (kp_g k))
          \<and> right_justified (unat l) (dpk_p pubkey) (cb_bytes (kp_p k))
          \<and> right_justified (unat n) (dpk_q pubkey) (cb_bytes (kp_q k))
          \<and> right_justified (unat l) (dpk_y pubkey) (cb_bytes (kp_y k))))"
proof (intro conjI impI)
  assume a: "alloc_g env = CAAM_NO_ERROR \<and> alloc_p env = CAAM_NO_ERROR
      \<and> alloc_q env = CAAM_NO_ERROR \<and> alloc_x env = CAAM_NO_ERROR
      \<and> fits (dk_g inkey) l \<and> fits (dk_p inkey) l \<and> fits (dk_q inkey) n \<and> fits (dk_x inkey) n"
  then obtain k s' where r: "do_keypriv_conv env outkey inkey l n s = Some (CAAM_NO_ERROR, k, s')"
    using keypriv_conv_total [of env inkey l n outkey s] by (auto simp add: fits_def)
  from keypriv_conv_props [OF r] r
  show "\<exists>k s'. do_keypriv_conv env outkey inkey l n s = Some (CAAM_NO_ERROR, k, s')
          \<and> right_justified (unat l) (dk_g inkey) (cb_bytes (kp_g k))
          \<and> right_justified (unat l) (dk_p inkey) (cb_bytes (kp_p k))
          \<and> right_justified (unat n) (dk_q inkey) (cb_bytes (kp_q k))
          \<and> right_justified (unat n) (dk_x inkey) (cb_bytes (kp_x k))"
    by blast
next
  assume a: "alloc_g env = CAAM_NO_ERROR \<and> alloc_p env = CAAM_NO_ERROR
      \<and> alloc_q env = CAAM_NO_ERROR \<and> alloc_y env = CAAM_NO_ERROR
      \<and> fits (dpk_g pubkey) l \<and> fits (dpk_p pubkey) l \<and> fits (dpk_q pubkey) n
      \<and> fits (dpk_y pubkey) l"
  then obtain k s' where r: "do_keypub_conv env outkey pubkey l n s = Some (CAAM_NO_ERROR, k, s')"
    using keypub_conv_total [of env pubkey l n outkey s] by (auto simp add: fits_def)
  from keypub_conv_props [OF r] r
  show "\<exists>k s'. do_keypub_conv env outkey pubkey l n s = Some (CAAM_NO_ERROR, k, s')
          \<and> right_justified (unat l) (dpk_g pubkey) (cb_bytes (kp_g k))
          \<and> right_justified (unat l) (dpk_p pubkey) (cb_bytes (kp_p k))
          \<and> right_justified (unat n) (dpk_q pubkey) (cb_bytes (kp_q k))
          \<and> right_justified (unat l) (dpk_y pubkey) (cb_bytes (kp_y k))"
    by blast
qed

theorem key_encoding_right_justified_witness:
  "alloc_g env_ok = CAAM_NO_ERROR \<and> alloc_p env_ok = CAAM_NO_ERROR
 \<and> alloc_q env_ok = CAAM_NO_ERROR \<and> alloc_x env_ok = CAAM_NO_ERROR
 \<and> alloc_y env_ok = CAAM_NO_ERROR
 \<and> fits (dk_g key0) (4 :: 32 word) \<and> fits (dk_p key0) (4 :: 32 word)
 \<and> fits (dk_q key0) (2 :: 32 word) \<and> fits (dk_x key0) (2 :: 32 word)
 \<and> (\<exists>k s'. do_keypriv_conv env_ok caam_dsa_keypair_init key0 4 2 sys0
             = Some (CAAM_NO_ERROR, k, s')
       \<and> right_justified 4 (dk_g key0) (cb_bytes (kp_g k)) \<and> cb_bytes (kp_g k) = [0, 0, 0, 2]
       \<and> right_justified 4 (dk_p key0) (cb_bytes (kp_p k))
       \<and> cb_bytes (kp_p k) = [0, 0, 0x01, 0x07]
       \<and> right_justified 2 (dk_q key0) (cb_bytes (kp_q k)) \<and> cb_bytes (kp_q k) = [0, 0x0B]
       \<and> right_justified 2 (dk_x key0) (cb_bytes (kp_x k)) \<and> cb_bytes (kp_x k) = [0, 5])
 \<and> fits (dpk_g pub0) (4 :: 32 word) \<and> fits (dpk_p pub0) (4 :: 32 word)
 \<and> fits (dpk_q pub0) (2 :: 32 word) \<and> fits (dpk_y pub0) (4 :: 32 word)
 \<and> (\<exists>k s'. do_keypub_conv env_ok caam_dsa_keypair_init pub0 4 2 sys0
             = Some (CAAM_NO_ERROR, k, s')
       \<and> right_justified 4 (dpk_g pub0) (cb_bytes (kp_g k)) \<and> cb_bytes (kp_g k) = [0, 0, 0, 2]
       \<and> right_justified 4 (dpk_p pub0) (cb_bytes (kp_p k))
       \<and> cb_bytes (kp_p k) = [0, 0, 0x01, 0x07]
       \<and> right_justified 2 (dpk_q pub0) (cb_bytes (kp_q k)) \<and> cb_bytes (kp_q k) = [0, 0x0B]
       \<and> right_justified 4 (dpk_y pub0) (cb_bytes (kp_y k))
       \<and> cb_bytes (kp_y k) = [0, 0, 0, 0x20])"
  using key_encoding_right_justified [where env = env_ok and inkey = key0 and pubkey = pub0
      and l = "4 :: 32 word" and n = 2 and outkey = caam_dsa_keypair_init and s = sys0]
  by (simp add: ex_keypriv ex_keypub ex_fits ex_env)

subsection \<open>Size of the signature\<close>

text \<open>
  C4.  In \<^verbatim>\<open>do_sign\<close> with security size \<open>S\<close>, every output DMA object is asked for with the
  minimum length \<^verbatim>\<open>ROUNDUP(S, 16) + S\<close>, which is \<open>S\<close> rounded up to a multiple of 16, plus
  \<open>S\<close>, as long as that does not overflow.  When the job has been given to the job ring and
  the job ring reports \<^verbatim>\<open>CAAM_NO_ERROR\<close>, the result is success, the signature length in the
  caller's data is \<open>2 * S\<close>, and there is exactly one copy to the caller's buffer, of
  \<open>2 * S\<close> bytes.  In every other case nothing is copied and the caller's data is
  unchanged.
\<close>

theorem sign_buffer_and_length:
  fixes sdata :: "(dsa_keypair, 'a::len word) drvcrypt_sign_data"
  assumes r: "do_sign env sdata l n s = Some (ret, sdata', s')"
  shows "list_all (\<lambda>m. m = ROUNDUP (sd_size_sec sdata) 16 + sd_size_sec sdata)
           (output_min_lengths (new_calls s s'))
       \<and> (2 * unat (sd_size_sec sdata) + 16 < 2 ^ LENGTH('a) \<longrightarrow>
            unat (ROUNDUP (sd_size_sec sdata) 16 + sd_size_sec sdata)
              = (unat (sd_size_sec sdata) + 15) div 16 * 16 + unat (sd_size_sec sdata)
            \<and> unat (2 * sd_size_sec sdata) = 2 * unat (sd_size_sec sdata))
       \<and> (enqueued (new_calls s s') \<noteq> [] \<and> jr_status env = CAAM_NO_ERROR \<longrightarrow>
            ret = TEE_SUCCESS
            \<and> output_min_lengths (new_calls s s')
                = [ROUNDUP (sd_size_sec sdata) 16 + sd_size_sec sdata]
            \<and> sd_signature_length sdata' = 2 * sd_size_sec sdata
            \<and> sdata' = sdata\<lparr>sd_signature_length := 2 * sd_size_sec sdata\<rparr>
            \<and> copied_lengths (new_calls s s') = [2 * sd_size_sec sdata])
       \<and> (\<not> (enqueued (new_calls s s') \<noteq> [] \<and> jr_status env = CAAM_NO_ERROR) \<longrightarrow>
            sdata' = sdata \<and> copied_lengths (new_calls s s') = [])"
proof -
  from do_sign_split [OF r] obtain lc s1
    where b: "do_sign_body env sdata l n locals_init s = Some (ret, sdata', lc, s1)"
      and c: "calls s' = calls s1" by blast
  have n: "new_calls s s' = new_calls s s1" using c by (simp add: new_calls_def)
  have A: "2 * unat (sd_size_sec sdata) + 16 < 2 ^ LENGTH('a) \<longrightarrow>
            unat (ROUNDUP (sd_size_sec sdata) 16 + sd_size_sec sdata)
              = (unat (sd_size_sec sdata) + 15) div 16 * 16 + unat (sd_size_sec sdata)
            \<and> unat (2 * sd_size_sec sdata) = 2 * unat (sd_size_sec sdata)"
  proof
    assume h: "2 * unat (sd_size_sec sdata) + 16 < 2 ^ LENGTH('a)"
    then have "unat (sd_size_sec sdata) + 16 < 2 ^ LENGTH('a)" by linarith
    from ROUNDUP_16 [OF this]
    have ru: "unat (ROUNDUP (sd_size_sec sdata) 16) = (unat (sd_size_sec sdata) + 15) div 16 * 16" .
    have "(unat (sd_size_sec sdata) + 15) div 16 * 16 \<le> unat (sd_size_sec sdata) + 15" by simp
    with h have lt: "(unat (sd_size_sec sdata) + 15) div 16 * 16 + unat (sd_size_sec sdata)
        < 2 ^ LENGTH('a)" by linarith
    have two: "2 * sd_size_sec sdata = sd_size_sec sdata + sd_size_sec sdata" by simp
    from h have lt2: "2 * unat (sd_size_sec sdata) < 2 ^ LENGTH('a)" by linarith
    show "unat (ROUNDUP (sd_size_sec sdata) 16 + sd_size_sec sdata)
              = (unat (sd_size_sec sdata) + 15) div 16 * 16 + unat (sd_size_sec sdata)
            \<and> unat (2 * sd_size_sec sdata) = 2 * unat (sd_size_sec sdata)"
      unfolding unat_word_ariths ru two using lt lt2 by simp
  qed
  from sign_body_props [OF b, THEN conjunct2]
  have B: "list_all (\<lambda>m. m = ROUNDUP (sd_size_sec sdata) 16 + sd_size_sec sdata)
           (output_min_lengths (new_calls s s1))
       \<and> (enqueued (new_calls s s1) \<noteq> [] \<and> jr_status env = CAAM_NO_ERROR \<longrightarrow>
            ret = TEE_SUCCESS
            \<and> output_min_lengths (new_calls s s1)
                = [ROUNDUP (sd_size_sec sdata) 16 + sd_size_sec sdata]
            \<and> sd_signature_length sdata' = 2 * sd_size_sec sdata
            \<and> sdata' = sdata\<lparr>sd_signature_length := 2 * sd_size_sec sdata\<rparr>
            \<and> copied_lengths (new_calls s s1) = [2 * sd_size_sec sdata])
       \<and> (\<not> (enqueued (new_calls s s1) \<noteq> [] \<and> jr_status env = CAAM_NO_ERROR) \<longrightarrow>
            sdata' = sdata \<and> copied_lengths (new_calls s s1) = [])"
    by (elim disjE conjE) (simp_all add: new_calls_def)
  from A B show ?thesis unfolding n by blast
qed

theorem sign_buffer_and_length_witness:
  "(\<exists>s'. do_sign env_ok sd0 4 2 sys0 = Some (TEE_SUCCESS, sd0\<lparr>sd_signature_length := 4\<rparr>, s')
       \<and> enqueued (new_calls sys0 s') \<noteq> []
       \<and> output_min_lengths (new_calls sys0 s') = [18]
       \<and> copied_lengths (new_calls sys0 s') = [4])
 \<and> jr_status env_ok = CAAM_NO_ERROR
 \<and> ROUNDUP (sd_size_sec sd0) 16 + sd_size_sec sd0 = 18 \<and> 2 * sd_size_sec sd0 = 4
 \<and> sd_signature_length (sd0\<lparr>sd_signature_length := 4\<rparr>) = 2 * sd_size_sec sd0"
  using sign_buffer_and_length [OF ex_sign]
  by (simp add: ex_sign ex_env ex_sys0 ex_sizes new_calls_def)

subsection \<open>Descriptors\<close>

text \<open>
  C5.  Every descriptor that \<^verbatim>\<open>do_gen_keypair\<close>, \<^verbatim>\<open>do_sign\<close> or \<^verbatim>\<open>do_verify\<close> gives to the
  job ring has a header word whose length field, read with \<^verbatim>\<open>GET_JD_DESCLEN\<close>, is the
  number of words of the descriptor, the header word included.
\<close>

theorem header_length_counts_all_words:
  "(do_gen_keypair env key l_bits n_bits s = Some (ret, key', s')
      \<longrightarrow> list_all header_counts_words (enqueued (new_calls s s')))
 \<and> (do_sign env sdata l n s = Some (ret, sdata', s')
      \<longrightarrow> list_all header_counts_words (enqueued (new_calls s s')))
 \<and> (do_verify env vdata l n s = Some (ret, s')
      \<longrightarrow> list_all header_counts_words (enqueued (new_calls s s')))"
proof (intro conjI impI)
  have h1: "\<And>k l n. header_counts_words (with_header (generate_fields_spec env k l n))"
    by (rule header_counts_with_header) (rule le_less_trans [OF length_generate_fields], simp)
  assume r: "do_gen_keypair env key l_bits n_bits s = Some (ret, key', s')"
  from do_gen_keypair_split [OF r] obtain lc s1
    where b: "do_gen_keypair_body env key l_bits n_bits locals_init s = Some (ret, key', lc, s1)"
      and c: "calls s' = calls s1" by blast
  have n: "new_calls s s' = new_calls s s1" using c by (simp add: new_calls_def)
  from gen_body_props [OF b, THEN conjunct2] h1
  show "list_all header_counts_words (enqueued (new_calls s s'))"
    unfolding n by (elim disjE) (simp_all add: new_calls_def)
next
  have h2: "\<And>lc m l n. header_counts_words (with_header (sign_fields_spec env lc m l n))"
    by (rule header_counts_with_header) (rule le_less_trans [OF length_sign_fields], simp)
  assume r: "do_sign env sdata l n s = Some (ret, sdata', s')"
  from do_sign_split [OF r] obtain lc s1
    where b: "do_sign_body env sdata l n locals_init s = Some (ret, sdata', lc, s1)"
      and c: "calls s' = calls s1" by blast
  have n: "new_calls s s' = new_calls s s1" using c by (simp add: new_calls_def)
  from sign_body_props [OF b, THEN conjunct2] h2
  show "list_all header_counts_words (enqueued (new_calls s s'))"
    unfolding n by (elim disjE conjE) (simp_all add: new_calls_def)
next
  have h3: "\<And>lc m l n. header_counts_words (with_header (verify_fields_spec env lc m l n))"
    by (rule header_counts_with_header) (rule le_less_trans [OF length_verify_fields], simp)
  assume r: "do_verify env vdata l n s = Some (ret, s')"
  from do_verify_split [OF r] obtain lc s1
    where b: "do_verify_body env vdata l n locals_init s = Some (ret, lc, s1)"
      and c: "calls s' = calls s1" by blast
  have n: "new_calls s s' = new_calls s s1" using c by (simp add: new_calls_def)
  from verify_body_props [OF b, THEN conjunct2] h3
  show "list_all header_counts_words (enqueued (new_calls s s'))"
    unfolding n by (elim disjE conjE) (simp_all add: new_calls_def)
qed

theorem header_length_counts_all_words_witness:
  "(\<exists>s'. do_gen_keypair env_ok key0 32 16 sys0 = Some (TEE_SUCCESS, key0, s')
       \<and> enqueued (new_calls sys0 s')
           = [[0xB0870008, 0x202, 0x80000500, 0x80000300, 0x80000400, 0x80000100,
               0x80000200, 0x86140000]])
 \<and> header_counts_words [0xB0870008, 0x202, 0x80000500, 0x80000300, 0x80000400, 0x80000100,
      0x80000200, 0x86140000]
 \<and> GET_JD_DESCLEN 0xB0870008 = 8
 \<and> (\<exists>sd s'. do_sign env_ok sd0 4 2 sys0 = Some (TEE_SUCCESS, sd, s')
       \<and> enqueued (new_calls sys0 s')
           = [[0xB08A000B, 0x02000202, 0x80000200, 0x80000300, 0x80000100, 0x80000400,
               0x90000000, 0x90001000, 0x90001002, 20, 0x86150000]])
 \<and> header_counts_words [0xB08A000B, 0x02000202, 0x80000200, 0x80000300, 0x80000100,
      0x80000400, 0x90000000, 0x90001000, 0x90001002, 20, 0x86150000]
 \<and> GET_JD_DESCLEN 0xB08A000B = 11
 \<and> (\<exists>s'. do_verify env_ok sdv0 4 2 sys0 = Some (TEE_SUCCESS, s')
       \<and> enqueued (new_calls sys0 s')
           = [[0xB08B000C, 0x02000202, 0x80000200, 0x80000300, 0x80000100, 0x80000400,
               0x90000000, 0x90001000, 0x90001002, 0x80000800, 20, 0x86160000]])
 \<and> header_counts_words [0xB08B000C, 0x02000202, 0x80000200, 0x80000300, 0x80000100,
      0x80000400, 0x90000000, 0x90001000, 0x90001002, 0x80000800, 20, 0x86160000]
 \<and> GET_JD_DESCLEN 0xB08B000C = 12"
  using header_length_counts_all_words [THEN conjunct1, rule_format, OF ex_gen]
    header_length_counts_all_words [THEN conjunct2, THEN conjunct1, rule_format, OF ex_sign]
    header_length_counts_all_words [THEN conjunct2, THEN conjunct2, rule_format, OF ex_verify]
  by (simp add: ex_gen ex_sign ex_verify ex_sys0 ex_sizes new_calls_def)

text \<open>
  C6.  The words that follow the header word of every descriptor given to the job ring
  are the fields of the spec's table, in the order of the table, with the addresses and
  lengths the operation holds in its local variables when it reaches its exit label.
\<close>

theorem descriptor_fields_in_table_order:
  "(do_gen_keypair_body env key l_bits n_bits locals_init s = Some (ret, key', lc, s')
      \<longrightarrow> list_all (\<lambda>ws. ws \<noteq> []
              \<and> tl ws = generate_fields_spec env (lc_key lc) (l_bits div 8) (n_bits div 8))
            (enqueued (new_calls s s')))
 \<and> (do_sign_body env sdata l n locals_init s = Some (ret, sdata', lc, s')
      \<longrightarrow> list_all (\<lambda>ws. ws \<noteq> []
              \<and> tl ws = sign_fields_spec env lc (sd_message_length sdata) l n)
            (enqueued (new_calls s s')))
 \<and> (do_verify_body env vdata l n locals_init s = Some (ret, lc, s')
      \<longrightarrow> list_all (\<lambda>ws. ws \<noteq> []
              \<and> tl ws = verify_fields_spec env lc (sd_message_length vdata) l n)
            (enqueued (new_calls s s')))"
proof (intro conjI impI)
  assume b: "do_gen_keypair_body env key l_bits n_bits locals_init s = Some (ret, key', lc, s')"
  from gen_body_props [OF b, THEN conjunct2]
  show "list_all (\<lambda>ws. ws \<noteq> []
              \<and> tl ws = generate_fields_spec env (lc_key lc) (l_bits div 8) (n_bits div 8))
            (enqueued (new_calls s s'))"
    by (elim disjE) (simp_all add: new_calls_def tl_with_header)
next
  assume b: "do_sign_body env sdata l n locals_init s = Some (ret, sdata', lc, s')"
  from sign_body_props [OF b, THEN conjunct2]
  show "list_all (\<lambda>ws. ws \<noteq> []
              \<and> tl ws = sign_fields_spec env lc (sd_message_length sdata) l n)
            (enqueued (new_calls s s'))"
    by (elim disjE conjE) (simp_all add: new_calls_def tl_with_header)
next
  assume b: "do_verify_body env vdata l n locals_init s = Some (ret, lc, s')"
  from verify_body_props [OF b, THEN conjunct2]
  show "list_all (\<lambda>ws. ws \<noteq> []
              \<and> tl ws = verify_fields_spec env lc (sd_message_length vdata) l n)
            (enqueued (new_calls s s'))"
    by (elim disjE conjE) (simp_all add: new_calls_def tl_with_header)
qed

theorem descriptor_fields_in_table_order_witness:
  "(\<exists>lc s'. do_gen_keypair_body env_ok key0 32 16 locals_init sys0
              = Some (TEE_SUCCESS, key0, lc, s')
       \<and> map cb_paddr [kp_p (lc_key lc), kp_q (lc_key lc), kp_g (lc_key lc), kp_x (lc_key lc),
            kp_y (lc_key lc)]
           = [0x80000500, 0x80000300, 0x80000400, 0x80000100, 0x80000200]
       \<and> enqueued (new_calls sys0 s')
           = [[0xB0870008, 0x202, 0x80000500, 0x80000300, 0x80000400, 0x80000100,
               0x80000200, 0x86140000]]
       \<and> generate_fields_spec env_ok (lc_key lc) (32 div 8) (16 div 8)
           = [0x202, 0x80000500, 0x80000300, 0x80000400, 0x80000100, 0x80000200,
              0x86140000])
 \<and> (\<exists>sd lc s'. do_sign_body env_ok sd0 4 2 locals_init sys0 = Some (TEE_SUCCESS, sd, lc, s')
       \<and> map cb_paddr [kp_p (lc_key lc), kp_q (lc_key lc), kp_g (lc_key lc), kp_x (lc_key lc)]
           = [0x80000200, 0x80000300, 0x80000100, 0x80000400]
       \<and> map dm_paddr [lc_msg lc, lc_sign_c lc, lc_sign_d lc]
           = [0x90000000, 0x90001000, 0x90001002]
       \<and> enqueued (new_calls sys0 s')
           = [[0xB08A000B, 0x02000202, 0x80000200, 0x80000300, 0x80000100, 0x80000400,
               0x90000000, 0x90001000, 0x90001002, 20, 0x86150000]]
       \<and> sign_fields_spec env_ok lc (sd_message_length sd0) 4 2
           = [0x02000202, 0x80000200, 0x80000300, 0x80000100, 0x80000400,
              0x90000000, 0x90001000, 0x90001002, 20, 0x86150000])
 \<and> (\<exists>lc s'. do_verify_body env_ok sdv0 4 2 locals_init sys0 = Some (TEE_SUCCESS, lc, s')
       \<and> map cb_paddr [kp_p (lc_key lc), kp_q (lc_key lc), kp_g (lc_key lc), kp_y (lc_key lc),
            lc_tmp lc]
           = [0x80000200, 0x80000300, 0x80000100, 0x80000400, 0x80000800]
       \<and> map dm_paddr [lc_msg lc, lc_sign_c lc, lc_sign_d lc]
           = [0x90000000, 0x90001000, 0x90001002]
       \<and> enqueued (new_calls sys0 s')
           = [[0xB08B000C, 0x02000202, 0x80000200, 0x80000300, 0x80000100, 0x80000400,
               0x90000000, 0x90001000, 0x90001002, 0x80000800, 20, 0x86160000]]
       \<and> verify_fields_spec env_ok lc (sd_message_length sdv0) 4 2
           = [0x02000202, 0x80000200, 0x80000300, 0x80000100, 0x80000400,
              0x90000000, 0x90001000, 0x90001002, 0x80000800, 20, 0x86160000])"
  using descriptor_fields_in_table_order [THEN conjunct1, rule_format, OF ex_gen_body]
    descriptor_fields_in_table_order [THEN conjunct2, THEN conjunct1, rule_format,
      OF ex_sign_body]
    descriptor_fields_in_table_order [THEN conjunct2, THEN conjunct2, rule_format,
      OF ex_verify_body]
  by (simp add: ex_gen_body ex_sign_body ex_verify_body ex_sys0 new_calls_def)

subsection \<open>Cleanup\<close>

text \<open>
  C7.  Whatever \<^verbatim>\<open>do_gen_keypair\<close>, \<^verbatim>\<open>do_sign\<close> and \<^verbatim>\<open>do_verify\<close> return, with whatever
  answers of the allocator, of the DMA layer and of the job ring, at the return the
  storage that was live before the call is live, and the descriptor and the buffers
  allocated during the call have been freed, each of them once.  The three functions
  return whenever the scalars of the key fit their buffers.
\<close>

theorem cleanup_on_every_path:
  fixes l_bits n_bits l n :: "'a::len word"
  shows "(do_gen_keypair env key l_bits n_bits s = Some (ret, key', s') \<longrightarrow> all_freed_once s s')
 \<and> (do_sign env sdata l n s = Some (ret, sdata', s') \<longrightarrow> all_freed_once s s')
 \<and> (do_verify env vdata l n s = Some (ret, s') \<longrightarrow> all_freed_once s s')
 \<and> (crypto_bignum_num_bytes (dk_q key) = 0 \<or> crypto_bignum_num_bytes (dk_g key) = 0
      \<or> crypto_bignum_num_bytes (dk_p key) = 0
      \<or> fits (dk_q key) (n_bits div 8) \<and> fits (dk_g key) (l_bits div 8)
        \<and> fits (dk_p key) (l_bits div 8)
      \<longrightarrow> do_gen_keypair env key l_bits n_bits s \<noteq> None)
 \<and> (fits (dk_g (sd_key sdata)) l \<and> fits (dk_p (sd_key sdata)) l
      \<and> fits (dk_q (sd_key sdata)) n \<and> fits (dk_x (sd_key sdata)) n
      \<longrightarrow> do_sign env sdata l n s \<noteq> None)
 \<and> (fits (dpk_g (sd_key vdata)) l \<and> fits (dpk_p (sd_key vdata)) l
      \<and> fits (dpk_q (sd_key vdata)) n \<and> fits (dpk_y (sd_key vdata)) l
      \<longrightarrow> do_verify env vdata l n s \<noteq> None)"
proof (intro conjI impI)
  assume "do_gen_keypair env key l_bits n_bits s = Some (ret, key', s')"
  from do_gen_keypair_split [OF this] show "all_freed_once s s'" by blast
next
  assume "do_sign env sdata l n s = Some (ret, sdata', s')"
  from do_sign_split [OF this] show "all_freed_once s s'" by blast
next
  assume "do_verify env vdata l n s = Some (ret, s')"
  from do_verify_split [OF this] show "all_freed_once s s'" by blast
next
  assume "crypto_bignum_num_bytes (dk_q key) = 0 \<or> crypto_bignum_num_bytes (dk_g key) = 0
      \<or> crypto_bignum_num_bytes (dk_p key) = 0
      \<or> fits (dk_q key) (n_bits div 8) \<and> fits (dk_g key) (l_bits div 8)
        \<and> fits (dk_p key) (l_bits div 8)"
  then show "do_gen_keypair env key l_bits n_bits s \<noteq> None" by (rule do_gen_keypair_returns)
next
  assume "fits (dk_g (sd_key sdata)) l \<and> fits (dk_p (sd_key sdata)) l
      \<and> fits (dk_q (sd_key sdata)) n \<and> fits (dk_x (sd_key sdata)) n"
  then show "do_sign env sdata l n s \<noteq> None" by (intro do_sign_returns) simp_all
next
  assume "fits (dpk_g (sd_key vdata)) l \<and> fits (dpk_p (sd_key vdata)) l
      \<and> fits (dpk_q (sd_key vdata)) n \<and> fits (dpk_y (sd_key vdata)) l"
  then show "do_verify env vdata l n s \<noteq> None" by (intro do_verify_returns) simp_all
qed

theorem cleanup_on_every_path_witness:
  "(\<exists>s'. do_gen_keypair env_ok key0 32 16 sys0 = Some (TEE_SUCCESS, key0, s')
       \<and> all_freed_once sys0 s' \<and> next_handle s' = 6 \<and> live s' = []
       \<and> freed s' = [2, 1, 3, 5, 4, 0])
 \<and> (\<exists>s'. do_sign (env_ok\<lparr>alloc_q := CAAM_OUT_MEMORY\<rparr>) sd0 4 2 sys0
             = Some (TEE_ERROR_OUT_OF_MEMORY, sd0, s')
       \<and> all_freed_once sys0 s' \<and> next_handle s' = 3 \<and> live s' = [] \<and> freed s' = [2, 1, 0])
 \<and> (\<exists>s'. do_verify (env_ok\<lparr>jr_status := CAAM_JOB_STATUS, job_status := 0x40000086\<rparr>)
               sdv0 4 2 sys0
             = Some (TEE_ERROR_GENERIC, s')
       \<and> all_freed_once sys0 s' \<and> next_handle s' = 9 \<and> live s' = []
       \<and> freed s' = [7, 6, 5, 8, 4, 3, 2, 1, 0])
 \<and> fits (dk_q key0) (16 div 8 :: 32 word) \<and> fits (dk_g key0) (32 div 8 :: 32 word)
 \<and> fits (dk_p key0) (32 div 8 :: 32 word)
 \<and> do_gen_keypair env_ok key0 32 16 sys0 \<noteq> None
 \<and> fits (dk_g (sd_key sd0)) (4 :: 32 word) \<and> fits (dk_p (sd_key sd0)) (4 :: 32 word)
 \<and> fits (dk_q (sd_key sd0)) (2 :: 32 word) \<and> fits (dk_x (sd_key sd0)) (2 :: 32 word)
 \<and> do_sign (env_ok\<lparr>alloc_q := CAAM_OUT_MEMORY\<rparr>) sd0 4 2 sys0 \<noteq> None
 \<and> fits (dpk_g (sd_key sdv0)) (4 :: 32 word) \<and> fits (dpk_p (sd_key sdv0)) (4 :: 32 word)
 \<and> fits (dpk_q (sd_key sdv0)) (2 :: 32 word) \<and> fits (dpk_y (sd_key sdv0)) (4 :: 32 word)
 \<and> do_verify (env_ok\<lparr>jr_status := CAAM_JOB_STATUS, job_status := 0x40000086\<rparr>) sdv0 4 2 sys0
      \<noteq> None"
  using cleanup_on_every_path [THEN conjunct1, rule_format, OF ex_gen]
    cleanup_on_every_path [THEN conjunct2, THEN conjunct1, rule_format, OF ex_sign_nomem]
    cleanup_on_every_path [THEN conjunct2, THEN conjunct2, THEN conjunct1, rule_format,
      OF ex_verify_fail]
    cleanup_on_every_path [where env = env_ok and key = key0 and l_bits = "32 :: 32 word"
      and n_bits = 16 and s = sys0]
    cleanup_on_every_path [where env = "env_ok\<lparr>alloc_q := CAAM_OUT_MEMORY\<rparr>" and sdata = sd0
      and l = "4 :: 32 word" and n = 2 and s = sys0]
    cleanup_on_every_path [where env = "env_ok\<lparr>jr_status := CAAM_JOB_STATUS,
      job_status := 0x40000086\<rparr>" and vdata = sdv0 and l = "4 :: 32 word" and n = 2 and s = sys0]
  by (simp add: ex_gen ex_sign_nomem ex_verify_fail ex_fits ex_sizes)

subsection \<open>Failure of the generator\<close>

text \<open>
  C8.  \<^verbatim>\<open>get_keypair_domain_params\<close> returns \<^verbatim>\<open>TEE_ERROR_OUT_OF_MEMORY\<close> exactly when one
  of its three allocations fails.  When the three buffers are allocated, one of p, q, g has
  no bytes, so that the generator is called, and the generator fails, the result is
  \<^verbatim>\<open>TEE_ERROR_GENERIC\<close>, which is not \<^verbatim>\<open>TEE_ERROR_OUT_OF_MEMORY\<close>; the generator is the only
  call made and the caller's key is unchanged.
\<close>

theorem generator_failure_is_generic:
  assumes f: "crypto_bignum_num_bytes (dk_q key) = 0 \<or> crypto_bignum_num_bytes (dk_g key) = 0
           \<or> crypto_bignum_num_bytes (dk_p key) = 0
           \<or> fits (dk_q key) n \<and> fits (dk_g key) l \<and> fits (dk_p key) l"
  shows "\<exists>ret k key' s'.
       get_keypair_domain_params env outkey key l n s = Some (ret, k, key', s')
     \<and> (ret = TEE_ERROR_OUT_OF_MEMORY \<longleftrightarrow>
          \<not> (alloc_q env = CAAM_NO_ERROR \<and> alloc_g env = CAAM_NO_ERROR
             \<and> alloc_p env = CAAM_NO_ERROR))
     \<and> (alloc_q env = CAAM_NO_ERROR \<and> alloc_g env = CAAM_NO_ERROR
          \<and> alloc_p env = CAAM_NO_ERROR
          \<and> (crypto_bignum_num_bytes (dk_p key) = 0 \<or> crypto_bignum_num_bytes (dk_q key) = 0
             \<or> crypto_bignum_num_bytes (dk_g key) = 0)
          \<and> prime_status env \<noteq> CAAM_NO_ERROR \<longrightarrow>
          ret = TEE_ERROR_GENERIC \<and> ret \<noteq> TEE_ERROR_OUT_OF_MEMORY
          \<and> new_calls s s' = [Prime_dsa_gen] \<and> key' = key)
     \<and> (ret = TEE_ERROR_GENERIC \<longrightarrow>
          (crypto_bignum_num_bytes (dk_p key) = 0 \<or> crypto_bignum_num_bytes (dk_q key) = 0
             \<or> crypto_bignum_num_bytes (dk_g key) = 0)
          \<and> prime_status env \<noteq> CAAM_NO_ERROR)"
proof -
  from domain_params_returns [OF f, of env outkey s] obtain ret k key' s'
    where r: "get_keypair_domain_params env outkey key l n s = Some (ret, k, key', s')"
    by (cases "get_keypair_domain_params env outkey key l n s") auto
  note P = domain_params_props [OF r]
  have g1: "calls s' = calls s @ [Prime_dsa_gen] \<Longrightarrow> new_calls s s' = [Prime_dsa_gen]"
    by (simp add: new_calls_def)
  from P have A: "ret = TEE_ERROR_OUT_OF_MEMORY \<longleftrightarrow>
          \<not> (alloc_q env = CAAM_NO_ERROR \<and> alloc_g env = CAAM_NO_ERROR
             \<and> alloc_p env = CAAM_NO_ERROR)" by blast
  have B: "alloc_q env = CAAM_NO_ERROR \<and> alloc_g env = CAAM_NO_ERROR
          \<and> alloc_p env = CAAM_NO_ERROR
          \<and> (crypto_bignum_num_bytes (dk_p key) = 0 \<or> crypto_bignum_num_bytes (dk_q key) = 0
             \<or> crypto_bignum_num_bytes (dk_g key) = 0)
          \<and> prime_status env \<noteq> CAAM_NO_ERROR \<longrightarrow>
          ret = TEE_ERROR_GENERIC \<and> ret \<noteq> TEE_ERROR_OUT_OF_MEMORY
          \<and> new_calls s s' = [Prime_dsa_gen] \<and> key' = key"
    using P g1 by blast
  have C: "ret = TEE_ERROR_GENERIC \<longrightarrow>
          (crypto_bignum_num_bytes (dk_p key) = 0 \<or> crypto_bignum_num_bytes (dk_q key) = 0
             \<or> crypto_bignum_num_bytes (dk_g key) = 0)
          \<and> prime_status env \<noteq> CAAM_NO_ERROR"
  proof
    assume "ret = TEE_ERROR_GENERIC"
    then have "ret \<noteq> TEE_ERROR_OUT_OF_MEMORY" "ret \<noteq> TEE_SUCCESS"
      by (simp_all add: tee_defs)
    with P show "(crypto_bignum_num_bytes (dk_p key) = 0 \<or> crypto_bignum_num_bytes (dk_q key) = 0
             \<or> crypto_bignum_num_bytes (dk_g key) = 0)
          \<and> prime_status env \<noteq> CAAM_NO_ERROR"
      by argo
  qed
  show ?thesis
    apply (rule exI [of _ ret], rule exI [of _ k], rule exI [of _ key'], rule exI [of _ s'])
    apply (intro conjI)
       apply (rule r)
      apply (rule A)
     apply (rule B)
    apply (rule C)
    done
qed

theorem generator_failure_is_generic_witness:
  "crypto_bignum_num_bytes (dk_q (key0\<lparr>dk_q := 0\<rparr>)) = 0
 \<and> prime_status (env_ok\<lparr>prime_status := CAAM_FAILURE\<rparr>) \<noteq> CAAM_NO_ERROR
 \<and> (\<exists>k s'. get_keypair_domain_params (env_ok\<lparr>prime_status := CAAM_FAILURE\<rparr>)
               caam_dsa_keypair_init (key0\<lparr>dk_q := 0\<rparr>) 4 2 sys0
             = Some (TEE_ERROR_GENERIC, k, key0\<lparr>dk_q := 0\<rparr>, s')
       \<and> new_calls sys0 s' = [Prime_dsa_gen])
 \<and> TEE_ERROR_GENERIC \<noteq> TEE_ERROR_OUT_OF_MEMORY
 \<and> alloc_g (env_ok\<lparr>alloc_g := CAAM_OUT_MEMORY\<rparr>) \<noteq> CAAM_NO_ERROR
 \<and> (\<exists>k s'. get_keypair_domain_params (env_ok\<lparr>alloc_g := CAAM_OUT_MEMORY\<rparr>)
               caam_dsa_keypair_init (key0\<lparr>dk_q := 0\<rparr>) 4 2 sys0
             = Some (TEE_ERROR_OUT_OF_MEMORY, k, key0\<lparr>dk_q := 0\<rparr>, s')
       \<and> new_calls sys0 s' = [])"
  using generator_failure_is_generic [where key = "key0\<lparr>dk_q := 0\<rparr>" and n = "2 :: 32 word"
      and l = 4 and env = "env_ok\<lparr>prime_status := CAAM_FAILURE\<rparr>"
      and outkey = caam_dsa_keypair_init and s = sys0]
    generator_failure_is_generic [where key = "key0\<lparr>dk_q := 0\<rparr>" and n = "2 :: 32 word"
      and l = 4 and env = "env_ok\<lparr>alloc_g := CAAM_OUT_MEMORY\<rparr>"
      and outkey = caam_dsa_keypair_init and s = sys0]
  by (simp add: ex_domain_params_genfail ex_domain_params_nomem ex_env ex_sys0 new_calls_def
      tee_defs num_bytes_0)

end
